theory Spec2Isabelle
  imports Main "HOL-Library.Word"
begin

section \<open>JavaScript values used by the sources\<close>

text \<open>
  Paths, tokens, object ids and messages are only compared, concatenated and tested for
  a prefix or a suffix, so they are Isabelle strings. Markdown text is trimmed and cut by
  position, so it is a list of UTF-16 code units, which is what a JavaScript string is.
\<close>

definition startsWith :: "'a list \<Rightarrow> 'a list \<Rightarrow> bool" where
  "startsWith s p = (take (length p) s = p)"

definition endsWith :: "'a list \<Rightarrow> 'a list \<Rightarrow> bool" where
  "endsWith s p = (length p \<le> length s \<and> drop (length s - length p) s = p)"

text \<open>\<^verbatim>\<open>v || d\<close> on an optional string: \<^verbatim>\<open>undefined\<close> and the empty string are falsy.\<close>

definition or_else :: "string option \<Rightarrow> string \<Rightarrow> string" where
  "or_else v d = (case v of None \<Rightarrow> d | Some s \<Rightarrow> if s = [] then d else s)"

definition newline :: string where
  "newline = [CHR 0x0A]"

text \<open>\<^verbatim>\<open>xs.join(sep)\<close>\<close>

fun join :: "string \<Rightarrow> string list \<Rightarrow> string" where
  "join sep [] = []"
| "join sep [x] = x"
| "join sep (x # y # ys) = x @ sep @ join sep (y # ys)"

text \<open>
  A thrown value: a plain \<^verbatim>\<open>Error\<close> with its message, or the HTTP client's request
  error, an object with a numeric \<^verbatim>\<open>status\<close>.
\<close>

datatype js_error = Error string | RequestError nat string

fun error_message :: "js_error \<Rightarrow> string" where
  "error_message (Error m) = m"
| "error_message (RequestError st m) = m"

section \<open>config.ts\<close>

record process_env =
  GITHUB_TOKEN :: "string option"
  GITHUB_OWNER :: "string option"
  GITHUB_REPO :: "string option"
  GITHUB_BRANCH :: "string option"
  NODE_ENV :: "string option"

record AppConfig =
  github_token :: string
  github_owner :: string
  github_repo :: string
  github_branch :: string
  app_nodeEnv :: string
  app_isDev :: bool
  app_isProd :: bool

definition getConfig :: "process_env \<Rightarrow> AppConfig" where
  "getConfig env =
     (let nodeEnv = or_else (NODE_ENV env) ''development'' in
      \<lparr> github_token = or_else (GITHUB_TOKEN env) '''',
        github_owner = or_else (GITHUB_OWNER env) '''',
        github_repo = or_else (GITHUB_REPO env) '''',
        github_branch = or_else (GITHUB_BRANCH env) ''main'',
        app_nodeEnv = nodeEnv,
        app_isDev = (nodeEnv = ''development''),
        app_isProd = (nodeEnv = ''production'') \<rparr>)"

definition validateConfig :: "AppConfig \<Rightarrow> string list" where
  "validateConfig config =
     (let errors = [];
          errors = (if github_token config = [] then errors @ [''GITHUB_TOKEN is required'']
                    else errors);
          errors = (if github_owner config = [] then errors @ [''GITHUB_OWNER is required'']
                    else errors);
          errors = (if github_repo config = [] then errors @ [''GITHUB_REPO is required'']
                    else errors);
          errors = (if github_token config \<noteq> []
                       \<and> \<not> startsWith (github_token config) ''ghp_''
                       \<and> \<not> startsWith (github_token config) ''github_pat_''
                    then errors @ [''GITHUB_TOKEN appears to be invalid (should start with ghp_ or github_pat_)'']
                    else errors)
      in errors)"

definition getValidatedConfig :: "process_env \<Rightarrow> js_error + AppConfig" where
  "getValidatedConfig env =
     (let config = getConfig env;
          errors = validateConfig config
      in if length errors > 0
         then Inl (Error (''Configuration validation failed:'' @ newline @ join newline errors))
         else Inr config)"

section \<open>markdown.ts: the title of a document\<close>

type_synonym js_string = "16 word list"

definition js :: "string \<Rightarrow> js_string" where
  "js s = map of_char s"

text \<open>The code units that \<^verbatim>\<open>trim\<close> strips: white space and line terminators.\<close>

definition is_space :: "16 word \<Rightarrow> bool" where
  "is_space c = (c = 0x09 \<or> c = 0x0A \<or> c = 0x0B \<or> c = 0x0C \<or> c = 0x0D \<or> c = 0x20
       \<or> c = 0xA0 \<or> c = 0x1680 \<or> (0x2000 \<le> c \<and> c \<le> 0x200A) \<or> c = 0x2028 \<or> c = 0x2029
       \<or> c = 0x202F \<or> c = 0x205F \<or> c = 0x3000 \<or> c = 0xFEFF)"

definition trim :: "js_string \<Rightarrow> js_string" where
  "trim s = rev (dropWhile is_space (rev (dropWhile is_space s)))"

text \<open>\<^verbatim>\<open>s.split('\n')\<close>: never empty, one more line than there are line feeds.\<close>

fun split_lines :: "js_string \<Rightarrow> js_string list" where
  "split_lines [] = [[]]"
| "split_lines (c # cs) =
     (if c = 0x0A then [] # split_lines cs
      else (c # hd (split_lines cs)) # tl (split_lines cs))"

text \<open>The first loop of \<^verbatim>\<open>extractMarkdownTitle\<close>; \<open>None\<close> when it ends without a return.\<close>

fun heading_loop :: "js_string list \<Rightarrow> js_string option" where
  "heading_loop [] = None"
| "heading_loop (line # lines) =
     (let trimmed = trim line in
      if startsWith trimmed (js ''# '') then Some (trim (drop 2 trimmed))
      else heading_loop lines)"

text \<open>The second loop.\<close>

fun text_loop :: "js_string list \<Rightarrow> js_string option" where
  "text_loop [] = None"
| "text_loop (line # lines) =
     (let trimmed = trim line in
      if trimmed \<noteq> [] \<and> \<not> startsWith trimmed (js ''---'') then Some (take 100 trimmed)
      else text_loop lines)"

definition extractMarkdownTitle :: "js_string \<Rightarrow> js_string" where
  "extractMarkdownTitle markdownContent =
     (let lines = split_lines markdownContent in
      case heading_loop lines of
        Some title \<Rightarrow> title
      | None \<Rightarrow> (case text_loop lines of
                   Some title \<Rightarrow> title
                 | None \<Rightarrow> js ''Untitled''))"

text \<open>
  The title as the specification words it: the first top-level heading line, else the
  first non-empty line that is not the separator \<^verbatim>\<open>---\<close>, cut to 100, else the fallback.
\<close>

definition spec_extractTitle :: "js_string \<Rightarrow> js_string" where
  "spec_extractTitle rawMarkup =
     (case find (\<lambda>l. startsWith (trim l) (js ''# '')) (split_lines rawMarkup) of
        Some l \<Rightarrow> trim (drop 2 (trim l))
      | None \<Rightarrow>
         (case find (\<lambda>l. trim l \<noteq> [] \<and> trim l \<noteq> js ''---'') (split_lines rawMarkup) of
            Some l \<Rightarrow> take 100 (trim l)
          | None \<Rightarrow> js ''Untitled''))"

section \<open>Promises over an explicit remote state\<close>

text \<open>
  An asynchronous call takes the state of the world outside the process (the remote
  repository, seen through the HTTP client) and returns a value or a thrown error
  together with the state it leaves behind. \<open>await\<close> sequences two calls and lets a
  rejection propagate; \<open>try_catch\<close> runs the handler on a rejection.
\<close>

type_synonym ('s, 'a) promise = "'s \<Rightarrow> (js_error + 'a) \<times> 's"

definition resolve :: "'a \<Rightarrow> ('s, 'a) promise" where
  "resolve a = (\<lambda>s. (Inr a, s))"

definition reject :: "js_error \<Rightarrow> ('s, 'a) promise" where
  "reject e = (\<lambda>s. (Inl e, s))"

definition await :: "('s, 'a) promise \<Rightarrow> ('a \<Rightarrow> ('s, 'b) promise) \<Rightarrow> ('s, 'b) promise" where
  "await p k = (\<lambda>s. case p s of (Inl e, s') \<Rightarrow> (Inl e, s') | (Inr a, s') \<Rightarrow> k a s')"

definition try_catch :: "('s, 'a) promise \<Rightarrow> (js_error \<Rightarrow> ('s, 'a) promise) \<Rightarrow> ('s, 'a) promise" where
  "try_catch p h = (\<lambda>s. case p s of (Inl e, s') \<Rightarrow> h e s' | (Inr a, s') \<Rightarrow> (Inr a, s'))"

text \<open>
  \<^verbatim>\<open>Promise.all(xs.map(async ...))\<close>: every call is started, in list order, whether or
  not an earlier one fails; the result is the list of values, or a rejection when any
  call was rejected (the first in list order here; both callers discard which).
\<close>

fun promise_all :: "('s, 'a) promise list \<Rightarrow> ('s, 'a list) promise" where
  "promise_all [] = (\<lambda>s. (Inr [], s))"
| "promise_all (p # ps) =
     (\<lambda>s. case p s of (r, s1) \<Rightarrow>
        (case promise_all ps s1 of (rs, s2) \<Rightarrow>
           ((case r of
               Inl e \<Rightarrow> Inl e
             | Inr a \<Rightarrow> (case rs of Inl e \<Rightarrow> Inl e | Inr as \<Rightarrow> Inr (a # as))), s2)))"

section \<open>github.ts: the client of the remote repository\<close>

record GitHubConfig =
  owner :: string
  repo :: string
  token :: string
  branch :: "string option"

record GitHubFile =
  name :: string
  content :: string
  sha :: "string option"

text \<open>
  \<open>Base64 t\<close> is the base64 text of the UTF-8 bytes of \<open>t\<close>: what
  \<^verbatim>\<open>Buffer.from(t, 'utf8').toString('base64')\<close> produces and what
  \<^verbatim>\<open>Buffer.from(b, 'base64').toString('utf8')\<close> reads back.
\<close>

datatype base64 = Base64 string

fun from_base64 :: "base64 \<Rightarrow> string" where
  "from_base64 (Base64 t) = t"

record dir_item =
  item_type :: string
  item_name :: string
  item_path :: string

text \<open>
  The data of a get-content response: an object with \<^verbatim>\<open>content\<close> and \<^verbatim>\<open>sha\<close> (a file),
  an object with \<^verbatim>\<open>sha\<close> and no \<^verbatim>\<open>content\<close> (a symlink or submodule), or an array (a
  directory).
\<close>

datatype content_data =
    FileData base64 string
  | OtherData string
  | DirData "dir_item list"

record commit_data =
  commit_sha :: string
  commit_tree_sha :: string

record tree_entry =
  entry_path :: string
  entry_mode :: string
  entry_type :: string
  entry_sha :: string

text \<open>
  The methods of the HTTP client that the service calls, each with the arguments the
  service passes, in the order: owner, repo, then the rest as named in the source.
\<close>

record 's Octokit =
  repos_getContent :: "string \<Rightarrow> string \<Rightarrow> string \<Rightarrow> string \<Rightarrow> ('s, content_data) promise"
  repos_createOrUpdateFileContents ::
    "string \<Rightarrow> string \<Rightarrow> string \<Rightarrow> string \<Rightarrow> base64 \<Rightarrow> string \<Rightarrow> string option \<Rightarrow> ('s, unit) promise"
  git_getRef :: "string \<Rightarrow> string \<Rightarrow> string \<Rightarrow> ('s, string) promise"
  git_getCommit :: "string \<Rightarrow> string \<Rightarrow> string \<Rightarrow> ('s, commit_data) promise"
  git_createBlob :: "string \<Rightarrow> string \<Rightarrow> base64 \<Rightarrow> string \<Rightarrow> ('s, string) promise"
  git_createTree :: "string \<Rightarrow> string \<Rightarrow> string \<Rightarrow> tree_entry list \<Rightarrow> ('s, string) promise"
  git_createCommit :: "string \<Rightarrow> string \<Rightarrow> string \<Rightarrow> string \<Rightarrow> string list \<Rightarrow> ('s, string) promise"
  git_updateRef :: "string \<Rightarrow> string \<Rightarrow> string \<Rightarrow> string \<Rightarrow> ('s, unit) promise"

definition fetchMarkdownFile :: "'s Octokit \<Rightarrow> GitHubConfig \<Rightarrow> string \<Rightarrow> ('s, string) promise" where
  "fetchMarkdownFile octokit config filePath =
     try_catch
       (await (repos_getContent octokit (owner config) (repo config) filePath
                 (or_else (branch config) ''main''))
          (\<lambda>data. case data of
                     FileData b s \<Rightarrow> resolve (from_base64 b)
                   | OtherData s \<Rightarrow> reject (Error ''File not found or is not a file'')
                   | DirData items \<Rightarrow> reject (Error ''File not found or is not a file'')))
       (\<lambda>error. reject (Error (''Failed to fetch file: '' @ filePath)))"

definition getFileSha :: "'s Octokit \<Rightarrow> GitHubConfig \<Rightarrow> string \<Rightarrow> ('s, string option) promise" where
  "getFileSha octokit config filePath =
     try_catch
       (await (repos_getContent octokit (owner config) (repo config) filePath
                 (or_else (branch config) ''main''))
          (\<lambda>data. case data of
                     FileData b s \<Rightarrow> resolve (Some s)
                   | OtherData s \<Rightarrow> resolve (Some s)
                   | DirData items \<Rightarrow> resolve None))
       (\<lambda>error. case error of
                    RequestError st m \<Rightarrow> if st = 404 then resolve None else reject error
                  | Error m \<Rightarrow> reject error)"

text \<open>
  An optional string that is truthy: present and not empty. In
  \<^verbatim>\<open>...(existingSha && { sha: existingSha })\<close> the field is sent when the sha is truthy.
\<close>

definition truthy :: "string option \<Rightarrow> string option" where
  "truthy v = (case v of None \<Rightarrow> None | Some s \<Rightarrow> if s = [] then None else Some s)"

definition commitFile :: "'s Octokit \<Rightarrow> GitHubConfig \<Rightarrow> string \<Rightarrow> string \<Rightarrow> string \<Rightarrow> ('s, unit) promise" where
  "commitFile octokit config filePath content' message =
     try_catch
       (await (getFileSha octokit config filePath)
          (\<lambda>existingSha.
             repos_createOrUpdateFileContents octokit (owner config) (repo config) filePath message
               (Base64 content') (or_else (branch config) ''main'') (truthy existingSha)))
       (\<lambda>error. reject (Error (''Failed to commit file: '' @ filePath)))"

definition commitMultipleFiles :: "'s Octokit \<Rightarrow> GitHubConfig \<Rightarrow> GitHubFile list \<Rightarrow> string \<Rightarrow> ('s, unit) promise" where
  "commitMultipleFiles octokit config files message =
     try_catch
       (await (git_getRef octokit (owner config) (repo config)
                 (''heads/'' @ or_else (branch config) ''main''))
          (\<lambda>ref.
        await (git_getCommit octokit (owner config) (repo config) ref)
          (\<lambda>commit.
        await (promise_all
                 (map (\<lambda>file.
                         await (git_createBlob octokit (owner config) (repo config)
                                  (Base64 (content file)) ''base64'')
                           (\<lambda>blob. resolve \<lparr> entry_path = name file, entry_mode = ''100644'',
                                               entry_type = ''blob'', entry_sha = blob \<rparr>))
                    files))
          (\<lambda>blobs.
        await (git_createTree octokit (owner config) (repo config) (commit_tree_sha commit) blobs)
          (\<lambda>tree.
        await (git_createCommit octokit (owner config) (repo config) message tree
                 [commit_sha commit])
          (\<lambda>newCommit.
        git_updateRef octokit (owner config) (repo config)
          (''heads/'' @ or_else (branch config) ''main'') newCommit))))))
       (\<lambda>error. reject (Error ''Failed to commit multiple files''))"

definition listMarkdownFiles :: "'s Octokit \<Rightarrow> GitHubConfig \<Rightarrow> string \<Rightarrow> ('s, string list) promise" where
  "listMarkdownFiles octokit config directory =
     try_catch
       (await (repos_getContent octokit (owner config) (repo config) directory
                 (or_else (branch config) ''main''))
          (\<lambda>data. case data of
                     DirData items \<Rightarrow>
                       resolve (map item_path
                                  (filter (\<lambda>item. item_type item = ''file''
                                                   \<and> endsWith (item_name item) ''.md'') items))
                   | FileData b s \<Rightarrow> resolve []
                   | OtherData s \<Rightarrow> resolve []))
       (\<lambda>error. resolve [])"

section \<open>markdown.ts: rendering\<close>

text \<open>
  The two libraries are parameters: \<open>marked\<close> is the markdown parser, called with the
  options \<^verbatim>\<open>gfm\<close> and \<^verbatim>\<open>breaks\<close>; \<open>purify\<close> is the sanitizer, called with its configuration.
  Either may throw.
\<close>

record purify_config =
  ALLOWED_TAGS :: "string list"
  ALLOWED_ATTR :: "string list"
  ALLOW_DATA_ATTR :: bool

definition sanitize_config :: purify_config where
  "sanitize_config =
     \<lparr> ALLOWED_TAGS =
         [''h1'', ''h2'', ''h3'', ''h4'', ''h5'', ''h6'',
          ''p'', ''br'', ''hr'',
          ''strong'', ''em'', ''u'', ''del'', ''code'',
          ''pre'', ''blockquote'',
          ''ul'', ''ol'', ''li'',
          ''table'', ''thead'', ''tbody'', ''tr'', ''th'', ''td'',
          ''a'', ''img'',
          ''div'', ''span''],
       ALLOWED_ATTR =
         [''href'', ''title'', ''alt'', ''src'',
          ''class'', ''id'',
          ''target'', ''rel''],
       ALLOW_DATA_ATTR = False \<rparr>"

definition parseMarkdown :: "(bool \<Rightarrow> bool \<Rightarrow> string \<Rightarrow> js_error + string) \<Rightarrow> string \<Rightarrow> string" where
  "parseMarkdown marked markdownContent =
     (case marked True True markdownContent of
        Inr htmlContent \<Rightarrow> htmlContent
      | Inl error \<Rightarrow> ''<p>Error parsing markdown content</p>'')"

definition sanitizeHTML :: "(purify_config \<Rightarrow> string \<Rightarrow> js_error + string) \<Rightarrow> string \<Rightarrow> string" where
  "sanitizeHTML purify htmlContent =
     (case purify sanitize_config htmlContent of
        Inr cleanHTML \<Rightarrow> cleanHTML
      | Inl error \<Rightarrow> ''<p>Error processing content</p>'')"

definition markdownToHTML ::
  "(bool \<Rightarrow> bool \<Rightarrow> string \<Rightarrow> js_error + string) \<Rightarrow> (purify_config \<Rightarrow> string \<Rightarrow> js_error + string)
     \<Rightarrow> string \<Rightarrow> string" where
  "markdownToHTML marked purify markdownContent =
     (let htmlContent = parseMarkdown marked markdownContent in sanitizeHTML purify htmlContent)"

section \<open>The API routes\<close>

datatype json =
    JString string
  | JNumber nat
  | JBool bool
  | JArray "json list"
  | JObject "(string \<times> json) list"

text \<open>\<^verbatim>\<open>NextResponse.json(body, { status })\<close>; the status is 200 when none is given.\<close>

record http_response =
  status :: nat
  body :: json

definition config_invalid :: http_response where
  "config_invalid =
     \<lparr> status = 500,
       body = JObject [(''error'', JString ''GitHub configuration is invalid or missing'')] \<rparr>"

definition failure :: "string \<Rightarrow> js_error \<Rightarrow> http_response" where
  "failure what error =
     \<lparr> status = 500,
       body = JObject [(''error'', JString what), (''details'', JString (error_message error))] \<rparr>"

definition bad_request :: "string \<Rightarrow> http_response" where
  "bad_request what = \<lparr> status = 400, body = JObject [(''error'', JString what)] \<rparr>"

text \<open>The configuration object every route builds for \<^verbatim>\<open>createGitHubService\<close>.\<close>

definition service_config :: "AppConfig \<Rightarrow> GitHubConfig" where
  "service_config config =
     \<lparr> owner = github_owner config, repo = github_repo config,
       token = github_token config, branch = Some (github_branch config) \<rparr>"

text \<open>A synchronous computation that may throw, inside an asynchronous function.\<close>

definition settle :: "js_error + 'a \<Rightarrow> ('s, 'a) promise" where
  "settle r = (\<lambda>s. (r, s))"

text \<open>
  \<open>new_Octokit\<close> is the client's constructor, applied to the token. In every route the
  outer \<^verbatim>\<open>try\<close> turns whatever is thrown into a 500 response.
\<close>

definition list_GET :: "process_env \<Rightarrow> (string \<Rightarrow> 's Octokit) \<Rightarrow> string option \<Rightarrow> ('s, http_response) promise" where
  "list_GET env new_Octokit directory_param =
     try_catch
       (let directory = or_else directory_param ''content'' in
        case getValidatedConfig env of
          Inl error \<Rightarrow> resolve config_invalid
        | Inr config \<Rightarrow>
            await (listMarkdownFiles (new_Octokit (github_token config)) (service_config config)
                     directory)
              (\<lambda>markdownFiles. resolve
                 \<lparr> status = 200,
                   body = JObject [(''success'', JBool True),
                            (''data'', JObject [(''files'', JArray (map JString markdownFiles)),
                               (''directory'', JString directory),
                               (''total'', JNumber (length markdownFiles))])] \<rparr>))
       (\<lambda>error. resolve (failure ''Failed to list files from GitHub'' error))"

record Draft =
  draft_id :: string
  draft_title :: string
  draft_body :: string
  draft_createdAt :: string
  draft_updatedAt :: string

text \<open>
  What \<^verbatim>\<open>await request.json()\<close> resolved to, as the handlers read it: the JSON value
  \<^verbatim>\<open>null\<close>, or any other value, given by the fields that the handler destructures (a
  field that the value does not have is \<^verbatim>\<open>undefined\<close>). Destructuring \<^verbatim>\<open>null\<close> throws a
  TypeError, which the handler's outer \<^verbatim>\<open>catch\<close> receives; its message is the engine's,
  not the source's, so the error is the parameter \<open>type_error\<close> of the handlers.
\<close>

datatype 'fields json_body = JsonNull | JsonFields 'fields

definition destructure :: "js_error \<Rightarrow> 'fields json_body \<Rightarrow> js_error + 'fields" where
  "destructure type_error body' =
     (case body' of JsonNull \<Rightarrow> Inl type_error | JsonFields parsed \<Rightarrow> Inr parsed)"

text \<open>
  The fields of a publish request: \<open>drafts\<close> is \<open>None\<close> when the field is absent, falsy or
  not an array.
\<close>

record publish_body =
  drafts :: "Draft list option"
  directory :: "string option"

record update_body =
  draft :: "Draft option"
  update_directory :: "string option"
  filePath :: "string option"

text \<open>\<^verbatim>\<open>xs.map(f)\<close> where \<open>f\<close> may throw: the first throw ends the map.\<close>

fun map_throwing :: "('a \<Rightarrow> js_error + 'b) \<Rightarrow> 'a list \<Rightarrow> js_error + 'b list" where
  "map_throwing f [] = Inr []"
| "map_throwing f (x # xs) =
     (case f x of
        Inl e \<Rightarrow> Inl e
      | Inr y \<Rightarrow> (case map_throwing f xs of Inl e \<Rightarrow> Inl e | Inr ys \<Rightarrow> Inr (y # ys)))"

function show_nat :: "nat \<Rightarrow> string" where
  "show_nat n =
     (if n < 10 then [char_of (48 + n)] else show_nat (n div 10) @ [char_of (48 + n mod 10)])"
  by pat_completeness auto
termination
  by (relation "measure (\<lambda>n. n)") auto

text \<open>
  \<open>draftToMarkdown\<close> and \<open>generateDraftFilename\<close> of drafts.ts format dates through the
  date libraries and throw on an invalid date; the routes only pass their results on, so
  both are parameters here.
\<close>

definition publish_POST ::
  "process_env \<Rightarrow> (string \<Rightarrow> 's Octokit) \<Rightarrow> (Draft \<Rightarrow> js_error + string)
     \<Rightarrow> (Draft \<Rightarrow> string \<Rightarrow> js_error + string) \<Rightarrow> js_error
     \<Rightarrow> js_error + publish_body json_body \<Rightarrow> ('s, http_response) promise" where
  "publish_POST env new_Octokit draftToMarkdown generateDraftFilename type_error request_json =
     try_catch
       (await (settle request_json)
          (\<lambda>body'.
           await (settle (destructure type_error body'))
          (\<lambda>parsed.
             let directory' = (case directory parsed of None \<Rightarrow> ''content'' | Some d \<Rightarrow> d) in
             case drafts parsed of
               None \<Rightarrow> resolve (bad_request ''Drafts array is required and must not be empty'')
             | Some ds \<Rightarrow>
                 if length ds = 0
                 then resolve (bad_request ''Drafts array is required and must not be empty'')
                 else
                   (case getValidatedConfig env of
                      Inl error \<Rightarrow> resolve config_invalid
                    | Inr config \<Rightarrow>
                        await (settle (map_throwing
                                 (\<lambda>d. case draftToMarkdown d of
                                         Inl e \<Rightarrow> Inl e
                                       | Inr markdownContent \<Rightarrow>
                                           (case generateDraftFilename d directory' of
                                              Inl e \<Rightarrow> Inl e
                                            | Inr filename \<Rightarrow>
                                                Inr \<lparr> name = filename, content = markdownContent,
                                                      sha = None \<rparr>))
                                 ds))
                          (\<lambda>githubFiles.
                             let commitMessage =
                                   ''Publish '' @ show_nat (length ds) @ '' draft''
                                   @ (if length ds > 1 then ''s'' else [])
                                   @ '': '' @ join '', '' (map draft_title ds)
                             in await (commitMultipleFiles (new_Octokit (github_token config))
                                         (service_config config) githubFiles commitMessage)
                                  (\<lambda>u. resolve
                                     \<lparr> status = 200,
                                       body = JObject [(''success'', JBool True),
                                         (''data'', JObject
                                            [(''published'', JArray (map (\<lambda>file. JString (name file)) githubFiles)),
                                             (''total'', JNumber (length ds)),
                                             (''commitMessage'', JString commitMessage),
                                             (''repository'', JString (github_owner config @ ''/'' @ github_repo config)),
                                             (''branch'', JString (github_branch config))])] \<rparr>))))))
       (\<lambda>error. resolve (failure ''Failed to publish drafts to GitHub'' error))"

definition publish_PUT ::
  "process_env \<Rightarrow> (string \<Rightarrow> 's Octokit) \<Rightarrow> (Draft \<Rightarrow> js_error + string)
     \<Rightarrow> (Draft \<Rightarrow> string \<Rightarrow> js_error + string) \<Rightarrow> js_error
     \<Rightarrow> js_error + update_body json_body \<Rightarrow> ('s, http_response) promise" where
  "publish_PUT env new_Octokit draftToMarkdown generateDraftFilename type_error request_json =
     try_catch
       (await (settle request_json)
          (\<lambda>body'.
           await (settle (destructure type_error body'))
          (\<lambda>parsed.
             let directory' = (case update_directory parsed of None \<Rightarrow> ''content'' | Some d \<Rightarrow> d) in
             case draft parsed of
               None \<Rightarrow> resolve (bad_request ''Draft is required'')
             | Some d \<Rightarrow>
                 (case getValidatedConfig env of
                    Inl error \<Rightarrow> resolve config_invalid
                  | Inr config \<Rightarrow>
                      await (settle (draftToMarkdown d))
                        (\<lambda>markdownContent.
                      await (settle (case truthy (filePath parsed) of
                                       Some p \<Rightarrow> Inr p
                                     | None \<Rightarrow> generateDraftFilename d directory'))
                        (\<lambda>filename.
                           let commitMessage = ''Update: '' @ draft_title d in
                           await (commitFile (new_Octokit (github_token config))
                                    (service_config config) filename markdownContent commitMessage)
                             (\<lambda>u. resolve
                                \<lparr> status = 200,
                                  body = JObject [(''success'', JBool True),
                                    (''data'', JObject
                                       [(''published'', JString filename),
                                        (''title'', JString (draft_title d)),
                                        (''commitMessage'', JString commitMessage),
                                        (''repository'', JString (github_owner config @ ''/'' @ github_repo config)),
                                        (''branch'', JString (github_branch config))])] \<rparr>)))))))
       (\<lambda>error. resolve (failure ''Failed to publish draft to GitHub'' error))"

definition fetch_GET ::
  "process_env \<Rightarrow> (string \<Rightarrow> 's Octokit) \<Rightarrow> (string \<Rightarrow> string) \<Rightarrow> string option
     \<Rightarrow> ('s, http_response) promise" where
  "fetch_GET env new_Octokit toHTML path_param =
     try_catch
       (case truthy path_param of
          None \<Rightarrow> resolve (bad_request ''File path is required'')
        | Some filePath' \<Rightarrow>
            (case getValidatedConfig env of
               Inl error \<Rightarrow> resolve config_invalid
             | Inr config \<Rightarrow>
                 await (fetchMarkdownFile (new_Octokit (github_token config))
                          (service_config config) filePath')
                   (\<lambda>markdownContent.
                      let htmlContent = toHTML markdownContent in
                      resolve
                        \<lparr> status = 200,
                          body = JObject [(''success'', JBool True),
                            (''data'', JObject
                               [(''markdownContent'', JString markdownContent),
                                (''htmlContent'', JString htmlContent),
                                (''filePath'', JString filePath')])] \<rparr>)))
       (\<lambda>error. resolve (failure ''Failed to fetch content from GitHub'' error))"

text \<open>\<^verbatim>\<open>Promise.allSettled\<close>: every call is started and every outcome is kept.\<close>

fun all_settled :: "('s, 'a) promise list \<Rightarrow> 's \<Rightarrow> (js_error + 'a) list \<times> 's" where
  "all_settled [] s = ([], s)"
| "all_settled (p # ps) s =
     (case p s of (r, s1) \<Rightarrow> (case all_settled ps s1 of (rs, s2) \<Rightarrow> (r # rs, s2)))"

text \<open>
  The one field of a multi-fetch request: \<open>None\<close> when \<^verbatim>\<open>paths\<close> is absent, falsy or not
  an array. The failed entries are numbered by their position among the failures, and that
  position indexes \<^verbatim>\<open>paths\<close>, as in the source.
\<close>

definition fetch_POST ::
  "process_env \<Rightarrow> (string \<Rightarrow> 's Octokit) \<Rightarrow> (string \<Rightarrow> string) \<Rightarrow> js_error
     \<Rightarrow> js_error + string list option json_body \<Rightarrow> ('s, http_response) promise" where
  "fetch_POST env new_Octokit toHTML type_error request_json =
     try_catch
       (await (settle request_json)
          (\<lambda>body'.
           await (settle (destructure type_error body'))
          (\<lambda>paths_field.
             case paths_field of
               None \<Rightarrow> resolve (bad_request ''Paths array is required'')
             | Some paths \<Rightarrow>
                 (case getValidatedConfig env of
                    Inl error \<Rightarrow> resolve config_invalid
                  | Inr config \<Rightarrow>
                      (\<lambda>s. case all_settled
                                  (map (\<lambda>path.
                                          await (fetchMarkdownFile (new_Octokit (github_token config))
                                                   (service_config config) path)
                                            (\<lambda>markdownContent.
                                               resolve (path, markdownContent, toHTML markdownContent)))
                                     paths) s of
                         (results, s') \<Rightarrow>
                           let successful =
                                 concat (map (\<lambda>result. case result of
                                                Inr (path, markdownContent, htmlContent) \<Rightarrow>
                                                  [JObject [(''path'', JString path),
                                                     (''markdownContent'', JString markdownContent),
                                                     (''htmlContent'', JString htmlContent)]]
                                              | Inl reason \<Rightarrow> []) results);
                               rejected =
                                 concat (map (\<lambda>result. case result of
                                                Inr v \<Rightarrow> [] | Inl reason \<Rightarrow> [reason]) results);
                               failed =
                                 map (\<lambda>(reason, index).
                                        JObject [(''path'', JString (paths ! index)),
                                          (''error'', JString (error_message reason))])
                                   (zip rejected [0 ..< length rejected])
                           in (Inr \<lparr> status = 200,
                                     body = JObject [(''success'', JBool True),
                                       (''data'', JObject
                                          [(''successful'', JArray successful),
                                           (''failed'', JArray failed),
                                           (''total'', JNumber (length paths))])] \<rparr>, s'))))))
       (\<lambda>error. resolve (failure ''Failed to fetch files from GitHub'' error))"

section \<open>A client that records its exchanges\<close>

text \<open>
  To say which requests an operation issues, any client is wrapped so that every call
  appends the request and its outcome to a log kept beside the remote state.
\<close>

datatype request =
    GetContent string string string string
  | CreateOrUpdateFileContents string string string string base64 string "string option"
  | GetRef string string string
  | GetCommit string string string
  | CreateBlob string string base64 string
  | CreateTree string string string "tree_entry list"
  | CreateCommit string string string string "string list"
  | UpdateRef string string string string

datatype response = Content content_data | Sha string | Commit commit_data | Done

type_synonym exchange = "request \<times> (js_error + response)"

definition recorded ::
  "request \<Rightarrow> ('a \<Rightarrow> response) \<Rightarrow> ('s, 'a) promise \<Rightarrow> ('s \<times> exchange list, 'a) promise" where
  "recorded rq wrap p =
     (\<lambda>(s, log). case p s of (r, s') \<Rightarrow> (r, (s', log @ [(rq, map_sum id wrap r)])))"

definition logged :: "'s Octokit \<Rightarrow> ('s \<times> exchange list) Octokit" where
  "logged api =
     \<lparr> repos_getContent = (\<lambda>ow rp p ref.
         recorded (GetContent ow rp p ref) Content (repos_getContent api ow rp p ref)),
       repos_createOrUpdateFileContents = (\<lambda>ow rp p m c b sh.
         recorded (CreateOrUpdateFileContents ow rp p m c b sh) (\<lambda>u. Done)
           (repos_createOrUpdateFileContents api ow rp p m c b sh)),
       git_getRef = (\<lambda>ow rp ref. recorded (GetRef ow rp ref) Sha (git_getRef api ow rp ref)),
       git_getCommit = (\<lambda>ow rp c. recorded (GetCommit ow rp c) Commit (git_getCommit api ow rp c)),
       git_createBlob = (\<lambda>ow rp c enc.
         recorded (CreateBlob ow rp c enc) Sha (git_createBlob api ow rp c enc)),
       git_createTree = (\<lambda>ow rp base entries.
         recorded (CreateTree ow rp base entries) Sha (git_createTree api ow rp base entries)),
       git_createCommit = (\<lambda>ow rp m t ps.
         recorded (CreateCommit ow rp m t ps) Sha (git_createCommit api ow rp m t ps)),
       git_updateRef = (\<lambda>ow rp ref c.
         recorded (UpdateRef ow rp ref c) (\<lambda>u. Done) (git_updateRef api ow rp ref c)) \<rparr>"

definition is_write :: "request \<Rightarrow> bool" where
  "is_write rq =
     (case rq of
        GetContent ow rp p ref \<Rightarrow> False
      | GetRef ow rp ref \<Rightarrow> False
      | GetCommit ow rp c \<Rightarrow> False
      | CreateOrUpdateFileContents ow rp p m c b sh \<Rightarrow> True
      | CreateBlob ow rp c enc \<Rightarrow> True
      | CreateTree ow rp base entries \<Rightarrow> True
      | CreateCommit ow rp m t ps \<Rightarrow> True
      | UpdateRef ow rp ref c \<Rightarrow> True)"

definition is_ref_update :: "request \<Rightarrow> bool" where
  "is_ref_update rq = (case rq of UpdateRef ow rp ref c \<Rightarrow> True | _ \<Rightarrow> False)"

section \<open>The remote repository\<close>

text \<open>
  Modelled from the spec: the remote store is an external service, and the sources hold
  only its client. The model follows the glossary and sections 4.1 and 5 of the
  specification: a blob is a content-addressed object holding a file's bytes; a tree maps
  paths to blob ids; a commit points to one tree and its parent commits; a branch pointer
  is a mutable name resolving to a head commit id. Creating a tree on a base overlays the
  given entries on the base tree. Moving a branch pointer is a compare-and-swap: with no
  expected head in the request, the store compares the branch's current head with the
  parents recorded in the new commit, and refuses the move otherwise. Writing one file is a
  compare-and-swap on the blob id of the path's live version. The store keeps a log of
  every accepted move of a branch pointer, with who moved it, from where and to where.
  Object ids are opaque to the client; here a blob's id is built from its content and
  tree and commit ids are fresh strings.
\<close>

datatype actor = Client | Other

record commit_object =
  object_tree :: string
  object_parents :: "string list"
  object_message :: string

record ref_move =
  moved_by :: actor
  moved_ref :: string
  moved_from :: string
  moved_to :: string

record remote =
  remote_blobs :: "string list"
  remote_trees :: "(string \<times> (string \<times> string) list) list"
  remote_commits :: "(string \<times> commit_object) list"
  remote_heads :: "(string \<times> string) list"
  remote_reflog :: "ref_move list"
  remote_served :: nat

definition blob_id :: "string \<Rightarrow> string" where
  "blob_id content' = CHR ''b'' # content'"

definition blob_at :: "remote \<Rightarrow> string \<Rightarrow> string option" where
  "blob_at s sha' =
     (case sha' of
        [] \<Rightarrow> None
      | c # rest \<Rightarrow> if c = CHR ''b'' \<and> rest \<in> set (remote_blobs s) then Some rest else None)"

definition tree_at :: "remote \<Rightarrow> string \<Rightarrow> (string \<times> string) list option" where
  "tree_at s sha' = map_of (remote_trees s) sha'"

definition commit_at :: "remote \<Rightarrow> string \<Rightarrow> commit_object option" where
  "commit_at s sha' = map_of (remote_commits s) sha'"

definition head_of :: "remote \<Rightarrow> string \<Rightarrow> string option" where
  "head_of s ref = map_of (remote_heads s) ref"

text \<open>An id longer than every id in use.\<close>

definition fresh_id :: "char \<Rightarrow> string list \<Rightarrow> string" where
  "fresh_id c used = replicate (Suc (foldr (\<lambda>k n. max (length k) n) used 0)) c"

definition not_found :: js_error where
  "not_found = RequestError 404 ''Not Found''"

definition unprocessable :: "string \<Rightarrow> js_error" where
  "unprocessable m = RequestError 422 m"

definition store_getRef :: "string \<Rightarrow> (remote, string) promise" where
  "store_getRef ref s =
     (case head_of s ref of None \<Rightarrow> (Inl not_found, s) | Some c \<Rightarrow> (Inr c, s))"

definition store_getCommit :: "string \<Rightarrow> (remote, commit_data) promise" where
  "store_getCommit sha' s =
     (case commit_at s sha' of
        None \<Rightarrow> (Inl not_found, s)
      | Some c \<Rightarrow> (Inr \<lparr> commit_sha = sha', commit_tree_sha = object_tree c \<rparr>, s))"

definition store_createBlob :: "base64 \<Rightarrow> (remote, string) promise" where
  "store_createBlob b s =
     (Inr (blob_id (from_base64 b)),
      s \<lparr> remote_blobs := List.insert (from_base64 b) (remote_blobs s) \<rparr>)"

definition overlay :: "tree_entry list \<Rightarrow> (string \<times> string) list \<Rightarrow> (string \<times> string) list" where
  "overlay entries base = rev (map (\<lambda>e. (entry_path e, entry_sha e)) entries) @ base"

definition store_createTree :: "string \<Rightarrow> tree_entry list \<Rightarrow> (remote, string) promise" where
  "store_createTree base entries s =
     (case tree_at s base of
        None \<Rightarrow> (Inl (unprocessable ''base_tree is not a valid tree''), s)
      | Some t \<Rightarrow>
          if list_ex (\<lambda>e. blob_at s (entry_sha e) = None) entries
          then (Inl (unprocessable ''tree.sha is not a valid blob''), s)
          else let tree = fresh_id CHR ''t'' (map fst (remote_trees s))
               in (Inr tree, s \<lparr> remote_trees := (tree, overlay entries t) # remote_trees s \<rparr>))"

definition store_createCommit :: "string \<Rightarrow> string \<Rightarrow> string list \<Rightarrow> (remote, string) promise" where
  "store_createCommit message tree parents s =
     (if tree_at s tree = None \<or> list_ex (\<lambda>p. commit_at s p = None) parents
      then (Inl (unprocessable ''tree or parent is not a valid object''), s)
      else let commit = fresh_id CHR ''c'' (map fst (remote_commits s))
           in (Inr commit,
               s \<lparr> remote_commits :=
                     (commit, \<lparr> object_tree = tree, object_parents = parents,
                                object_message = message \<rparr>) # remote_commits s \<rparr>))"

definition move_head :: "actor \<Rightarrow> string \<Rightarrow> string \<Rightarrow> string \<Rightarrow> remote \<Rightarrow> remote" where
  "move_head who ref from to s =
     s \<lparr> remote_heads := (ref, to) # remote_heads s,
         remote_reflog := remote_reflog s
           @ [\<lparr> moved_by = who, moved_ref = ref, moved_from = from, moved_to = to \<rparr>] \<rparr>"

definition store_updateRef :: "actor \<Rightarrow> string \<Rightarrow> string \<Rightarrow> (remote, unit) promise" where
  "store_updateRef who ref sha' s =
     (case head_of s ref of
        None \<Rightarrow> (Inl (unprocessable ''Reference does not exist''), s)
      | Some current \<Rightarrow>
          (case commit_at s sha' of
             None \<Rightarrow> (Inl (unprocessable ''Object does not exist''), s)
           | Some c \<Rightarrow>
               if current \<in> set (object_parents c)
               then (Inr (), move_head who ref current sha' s)
               else (Inl (unprocessable ''Update is not a fast forward''), s)))"

text \<open>The tree of a branch's head commit.\<close>

definition head_tree :: "remote \<Rightarrow> string \<Rightarrow> (string \<times> string) list option" where
  "head_tree s ref =
     (case head_of s ref of
        None \<Rightarrow> None
      | Some c \<Rightarrow> (case commit_at s c of None \<Rightarrow> None | Some co \<Rightarrow> tree_at s (object_tree co)))"

text \<open>
  The entries right under a directory: a file for a path that ends there, a directory for
  a longer one.
\<close>

definition dir_items :: "string \<Rightarrow> (string \<times> string) list \<Rightarrow> dir_item list" where
  "dir_items d t =
     (let prefix = (if d = [] then [] else d @ ''/'') in
      remdups (concat (map (\<lambda>p.
        if startsWith p prefix \<and> length prefix < length p
        then let rest = drop (length prefix) p;
                 nm = takeWhile (\<lambda>c. c \<noteq> CHR ''/'') rest
             in [\<lparr> item_type = (if nm = rest then ''file'' else ''dir''),
                    item_name = nm, item_path = prefix @ nm \<rparr>]
        else []) (remdups (map fst t)))))"

definition store_getContent :: "string \<Rightarrow> string \<Rightarrow> (remote, content_data) promise" where
  "store_getContent path' ref s =
     (case head_tree s (''heads/'' @ ref) of
        None \<Rightarrow> (Inl not_found, s)
      | Some t \<Rightarrow>
          (case map_of t path' of
             Some b \<Rightarrow>
               (case blob_at s b of
                  None \<Rightarrow> (Inl not_found, s)
                | Some content' \<Rightarrow> (Inr (FileData (Base64 content') b), s))
           | None \<Rightarrow>
               if dir_items path' t = [] then (Inl not_found, s)
               else (Inr (DirData (dir_items path' t)), s)))"

definition store_createOrUpdateFileContents ::
  "actor \<Rightarrow> string \<Rightarrow> string \<Rightarrow> base64 \<Rightarrow> string \<Rightarrow> string option \<Rightarrow> (remote, unit) promise" where
  "store_createOrUpdateFileContents who path' message b branch' sha' s =
     (case head_of s (''heads/'' @ branch') of
        None \<Rightarrow> (Inl not_found, s)
      | Some current \<Rightarrow>
          (case head_tree s (''heads/'' @ branch') of
             None \<Rightarrow> (Inl not_found, s)
           | Some t \<Rightarrow>
               if map_of t path' \<noteq> sha'
               then (if sha' = None
                     then (Inl (unprocessable ''sha was not supplied''), s)
                     else (Inl (RequestError 409 ''sha does not match''), s))
               else
                 let s1 = s \<lparr> remote_blobs := List.insert (from_base64 b) (remote_blobs s) \<rparr>;
                     tree = fresh_id CHR ''t'' (map fst (remote_trees s1));
                     s2 = s1 \<lparr> remote_trees :=
                                 (tree, (path', blob_id (from_base64 b)) # t) # remote_trees s1 \<rparr>;
                     commit = fresh_id CHR ''c'' (map fst (remote_commits s2));
                     s3 = s2 \<lparr> remote_commits :=
                                 (commit, \<lparr> object_tree = tree, object_parents = [current],
                                            object_message = message \<rparr>) # remote_commits s2 \<rparr>
                 in (Inr (), move_head who (''heads/'' @ branch') current commit s3)))"

text \<open>The store's operations as a client, for a given actor; owner and repo name the one repository.\<close>

definition direct :: "actor \<Rightarrow> remote Octokit" where
  "direct who =
     \<lparr> repos_getContent = (\<lambda>ow rp p ref. store_getContent p ref),
       repos_createOrUpdateFileContents = (\<lambda>ow rp p m c b sh.
         store_createOrUpdateFileContents who p m c b sh),
       git_getRef = (\<lambda>ow rp ref. store_getRef ref),
       git_getCommit = (\<lambda>ow rp c. store_getCommit c),
       git_createBlob = (\<lambda>ow rp c enc. store_createBlob c),
       git_createTree = (\<lambda>ow rp base entries. store_createTree base entries),
       git_createCommit = (\<lambda>ow rp m t ps. store_createCommit m t ps),
       git_updateRef = (\<lambda>ow rp ref c. store_updateRef who ref c) \<rparr>"

text \<open>
  Other writers run the same service against the same store. Between two requests of
  the client under study, the store serves the whole operations that the schedule lists
  for that moment; a request may also fail before reaching the store (transport or
  authentication), as the fault plan says.
\<close>

datatype rival =
    RivalCommit GitHubConfig "GitHubFile list" string
  | RivalPut GitHubConfig string string string

fun run_rival :: "rival \<Rightarrow> remote \<Rightarrow> remote" where
  "run_rival (RivalCommit config files message) s =
     snd (commitMultipleFiles (direct Other) config files message s)"
| "run_rival (RivalPut config filePath' content' message) s =
     snd (commitFile (direct Other) config filePath' content' message s)"

definition arrive :: "(nat \<Rightarrow> rival list) \<Rightarrow> remote \<Rightarrow> remote" where
  "arrive schedule s =
     (fold run_rival (schedule (remote_served s)) s) \<lparr> remote_served := Suc (remote_served s) \<rparr>"

definition serve ::
  "(nat \<Rightarrow> rival list) \<Rightarrow> (nat \<Rightarrow> js_error option) \<Rightarrow> (remote, 'a) promise \<Rightarrow> (remote, 'a) promise" where
  "serve schedule fault op s =
     (case fault (remote_served s) of
        Some e \<Rightarrow> (Inl e, arrive schedule s)
      | None \<Rightarrow> op (arrive schedule s))"

definition github :: "(nat \<Rightarrow> rival list) \<Rightarrow> (nat \<Rightarrow> js_error option) \<Rightarrow> remote Octokit" where
  "github schedule fault =
     \<lparr> repos_getContent = (\<lambda>ow rp p ref. serve schedule fault (store_getContent p ref)),
       repos_createOrUpdateFileContents = (\<lambda>ow rp p m c b sh.
         serve schedule fault (store_createOrUpdateFileContents Client p m c b sh)),
       git_getRef = (\<lambda>ow rp ref. serve schedule fault (store_getRef ref)),
       git_getCommit = (\<lambda>ow rp c. serve schedule fault (store_getCommit c)),
       git_createBlob = (\<lambda>ow rp c enc. serve schedule fault (store_createBlob c)),
       git_createTree = (\<lambda>ow rp base entries. serve schedule fault (store_createTree base entries)),
       git_createCommit = (\<lambda>ow rp m t ps. serve schedule fault (store_createCommit m t ps)),
       git_updateRef = (\<lambda>ow rp ref c. serve schedule fault (store_updateRef Client ref c)) \<rparr>"

text \<open>The client's own moves in the store's log.\<close>

definition own_moves :: "remote \<Rightarrow> ref_move list" where
  "own_moves s = filter (\<lambda>m. moved_by m = Client) (remote_reflog s)"

text \<open>No rivals, no faults.\<close>

definition alone :: "nat \<Rightarrow> rival list" where
  "alone n = []"

definition healthy :: "nat \<Rightarrow> js_error option" where
  "healthy n = None"

section \<open>Concrete instances\<close>

definition bad_env :: process_env where
  "bad_env = \<lparr> GITHUB_TOKEN = Some ''token123'', GITHUB_OWNER = Some ''acme'',
      GITHUB_REPO = Some ''site'', GITHUB_BRANCH = None, NODE_ENV = None \<rparr>"

definition good_env :: process_env where
  "good_env = \<lparr> GITHUB_TOKEN = Some ''ghp_abc'', GITHUB_OWNER = Some ''acme'',
      GITHUB_REPO = Some ''site'', GITHUB_BRANCH = None, NODE_ENV = None \<rparr>"

text \<open>
  A repository whose branch \<^verbatim>\<open>main\<close> holds one commit with three files under
  \<^verbatim>\<open>content\<close>, all with the content \<^verbatim>\<open>old\<close>.
\<close>

definition example_store :: remote where
  "example_store =
     \<lparr> remote_blobs = [''old''],
       remote_trees = [(''t'', [(''content/a.md'', ''bold''), (''content/b.md'', ''bold''),
                                (''content/notes.txt'', ''bold'')])],
       remote_commits = [(''c'', \<lparr> object_tree = ''t'', object_parents = [],
                                    object_message = ''init'' \<rparr>)],
       remote_heads = [(''heads/main'', ''c'')],
       remote_reflog = [],
       remote_served = 0 \<rparr>"

definition example_config :: GitHubConfig where
  "example_config = \<lparr> owner = ''acme'', repo = ''site'', token = ''ghp_abc'', branch = Some ''main'' \<rparr>"

definition file_a :: GitHubFile where
  "file_a = \<lparr> name = ''content/a.md'', content = ''A'', sha = None \<rparr>"

definition file_c :: GitHubFile where
  "file_c = \<lparr> name = ''content/c.md'', content = ''C'', sha = None \<rparr>"

definition file_c_stale :: GitHubFile where
  "file_c_stale = \<lparr> name = ''content/c.md'', content = ''C'', sha = Some ''stale'' \<rparr>"

text \<open>Every request is refused for bad credentials.\<close>

definition unauthorized :: "nat \<Rightarrow> js_error option" where
  "unauthorized n = Some (RequestError 401 ''Bad credentials'')"

text \<open>Another writer commits one file just before the request numbered \<open>k\<close> is served.\<close>

definition rival_before :: "nat \<Rightarrow> rival \<Rightarrow> nat \<Rightarrow> rival list" where
  "rival_before k w n = (if n = k then [w] else [])"

text \<open>An error standing for the engine's TypeError in the examples.\<close>

definition null_body_error :: js_error where
  "null_body_error = Error ''Cannot destructure null''"

section \<open>Notions used in the proofs about the store\<close>

text \<open>
  None of these is part of the sources or of the store: they name what the proofs track
  from one state of the repository to a later one.
\<close>

text \<open>No request of the log is an update-ref.\<close>

definition no_ref_update :: "exchange list \<Rightarrow> bool" where
  "no_ref_update log = list_all (\<lambda>x. \<not> is_ref_update (fst x)) log"

text \<open>Every commit object of the earlier state is in the later one, unchanged.\<close>

definition commits_kept :: "remote \<Rightarrow> remote \<Rightarrow> bool" where
  "commits_kept s s' \<longleftrightarrow> (\<forall>c x. commit_at s c = Some x \<longrightarrow> commit_at s' c = Some x)"

text \<open>The client has moved no branch between the two states; others may have.\<close>

definition quiet :: "remote \<Rightarrow> remote \<Rightarrow> bool" where
  "quiet s s' \<longleftrightarrow> own_moves s' = own_moves s \<and> commits_kept s s'"

text \<open>Nobody has moved a branch between the two states.\<close>

definition still :: "remote \<Rightarrow> remote \<Rightarrow> bool" where
  "still s s' \<longleftrightarrow> remote_heads s' = remote_heads s \<and> remote_reflog s' = remote_reflog s
     \<and> commits_kept s s'"

definition quiet_promise :: "(remote, 'a) promise \<Rightarrow> bool" where
  "quiet_promise p \<longleftrightarrow> (\<forall>s. quiet s (snd (p s)))"

text \<open>
  A relation between states that holds across the arrival of the other writers of a
  schedule and across the creation of a blob, a tree or a commit.
\<close>

definition preserved :: "(nat \<Rightarrow> rival list) \<Rightarrow> (remote \<Rightarrow> remote \<Rightarrow> bool) \<Rightarrow> bool" where
  "preserved sched Q \<longleftrightarrow>
     (\<forall>a. Q a a) \<and> (\<forall>a b c. Q a b \<longrightarrow> Q b c \<longrightarrow> Q a c)
     \<and> (\<forall>a b. Q a b \<longrightarrow> commits_kept a b)
     \<and> (\<forall>a. Q a (arrive sched a))
     \<and> (\<forall>a b. Q a (snd (store_createBlob b a)))
     \<and> (\<forall>a base es. Q a (snd (store_createTree base es a)))
     \<and> (\<forall>a m t ps. Q a (snd (store_createCommit m t ps a)))"

text \<open>The two states have the same trees, commits, branch pointers and log.\<close>

definition same_graph :: "remote \<Rightarrow> remote \<Rightarrow> bool" where
  "same_graph s s' \<longleftrightarrow> remote_trees s' = remote_trees s \<and> remote_commits s' = remote_commits s
     \<and> remote_heads s' = remote_heads s \<and> remote_reflog s' = remote_reflog s"

section \<open>Properties of the pure functions\<close>

lemmas promise_defs = await_def try_catch_def resolve_def reject_def settle_def

subsection \<open>Configuration\<close>

lemma validateConfig_bad_prefix:
  assumes "github_token c \<noteq> []" "github_owner c \<noteq> []" "github_repo c \<noteq> []"
    and "\<not> startsWith (github_token c) ''ghp_''" "\<not> startsWith (github_token c) ''github_pat_''"
  shows "validateConfig c = [''GITHUB_TOKEN appears to be invalid (should start with ghp_ or github_pat_)'']"
  using assms by (simp add: validateConfig_def)

lemma getValidatedConfig_bad_prefix:
  assumes "or_else (GITHUB_TOKEN env) [] \<noteq> []" "or_else (GITHUB_OWNER env) [] \<noteq> []"
    "or_else (GITHUB_REPO env) [] \<noteq> []"
    and "\<not> startsWith (or_else (GITHUB_TOKEN env) []) ''ghp_''"
    and "\<not> startsWith (or_else (GITHUB_TOKEN env) []) ''github_pat_''"
  shows "getValidatedConfig env =
     Inl (Error (''Configuration validation failed:'' @ newline @
        ''GITHUB_TOKEN appears to be invalid (should start with ghp_ or github_pat_)''))"
proof -
  have "validateConfig (getConfig env) = [''GITHUB_TOKEN appears to be invalid (should start with ghp_ or github_pat_)'']"
    by (rule validateConfig_bad_prefix) (use assms in \<open>simp_all add: getConfig_def Let_def\<close>)
  then show ?thesis by (simp add: getValidatedConfig_def Let_def)
qed

lemma list_GET_invalid:
  "getValidatedConfig env = Inl e \<Longrightarrow> list_GET env new_Octokit d s = (Inr config_invalid, s)"
  by (simp add: list_GET_def promise_defs Let_def)

lemma publish_POST_invalid:
  "getValidatedConfig env = Inl e \<Longrightarrow>
   publish_POST env new_Octokit dm gf te rq s =
     (Inr (case rq of
             Inl err \<Rightarrow> failure ''Failed to publish drafts to GitHub'' err
           | Inr JsonNull \<Rightarrow> failure ''Failed to publish drafts to GitHub'' te
           | Inr (JsonFields b) \<Rightarrow>
               (case drafts b of
                  None \<Rightarrow> bad_request ''Drafts array is required and must not be empty''
                | Some ds \<Rightarrow> if ds = [] then bad_request ''Drafts array is required and must not be empty''
                             else config_invalid)), s)"
  by (simp add: publish_POST_def destructure_def promise_defs Let_def
      split: sum.splits option.splits json_body.splits)

lemma publish_PUT_invalid:
  "getValidatedConfig env = Inl e \<Longrightarrow>
   publish_PUT env new_Octokit dm gf te rq s =
     (Inr (case rq of
             Inl err \<Rightarrow> failure ''Failed to publish draft to GitHub'' err
           | Inr JsonNull \<Rightarrow> failure ''Failed to publish draft to GitHub'' te
           | Inr (JsonFields b) \<Rightarrow>
               (case draft b of
                  None \<Rightarrow> bad_request ''Draft is required''
                | Some d \<Rightarrow> config_invalid)), s)"
  by (simp add: publish_PUT_def destructure_def promise_defs Let_def
      split: sum.splits option.splits json_body.splits)

lemma fetch_GET_invalid:
  "getValidatedConfig env = Inl e \<Longrightarrow>
   fetch_GET env new_Octokit toHTML p s =
     (Inr (case truthy p of None \<Rightarrow> bad_request ''File path is required'' | Some q \<Rightarrow> config_invalid), s)"
  by (simp add: fetch_GET_def promise_defs Let_def split: sum.splits option.splits)

lemma fetch_POST_invalid:
  "getValidatedConfig env = Inl e \<Longrightarrow>
   fetch_POST env new_Octokit toHTML te rq s =
     (Inr (case rq of
             Inl err \<Rightarrow> failure ''Failed to fetch files from GitHub'' err
           | Inr JsonNull \<Rightarrow> failure ''Failed to fetch files from GitHub'' te
           | Inr (JsonFields None) \<Rightarrow> bad_request ''Paths array is required''
           | Inr (JsonFields (Some ps)) \<Rightarrow> config_invalid), s)"
  by (simp add: fetch_POST_def destructure_def promise_defs Let_def
      split: sum.splits option.splits json_body.splits)

text \<open>
  Against claim C10 as stated. In the environment \<open>bad_env\<close>, whose token is
  \<^verbatim>\<open>token123\<close>, three requests are not answered with the 500 configuration-invalid
  response, because each handler looks at its request before it looks at the
  configuration: a publish request with an empty array of drafts and a fetch request with
  no path are answered 400, and an update request whose body is \<^verbatim>\<open>null\<close> is answered
  with the handler's own 500.
\<close>

theorem invalid_token_route_counterexample:
  "fst (publish_POST bad_env (\<lambda>t. github alone healthy) (\<lambda>d. Inr (draft_body d))
          (\<lambda>d dir. Inr (dir @ ''/'' @ draft_title d @ ''.md'')) null_body_error
          (Inr (JsonFields \<lparr> drafts = Some [], directory = None \<rparr>)) example_store)
     = Inr \<lparr> status = 400,
             body = JObject [(''error'',
                      JString ''Drafts array is required and must not be empty'')] \<rparr>
   \<and> fst (fetch_GET bad_env (\<lambda>t. github alone healthy) (\<lambda>md. md) None example_store)
     = Inr \<lparr> status = 400, body = JObject [(''error'', JString ''File path is required'')] \<rparr>
   \<and> fst (publish_PUT bad_env (\<lambda>t. github alone healthy) (\<lambda>d. Inr (draft_body d))
          (\<lambda>d dir. Inr (dir @ ''/'' @ draft_title d @ ''.md'')) null_body_error
          (Inr JsonNull) example_store)
     = Inr \<lparr> status = 500,
             body = JObject [(''error'', JString ''Failed to publish draft to GitHub''),
                             (''details'', JString ''Cannot destructure null'')] \<rparr>
   \<and> config_invalid
     = \<lparr> status = 500,
         body = JObject [(''error'', JString ''GitHub configuration is invalid or missing'')] \<rparr>"
  by code_simp

text \<open>
  Claim C10, amended. When the token, the owner and the repository of the environment are
  all non-empty and the token starts with neither \<^verbatim>\<open>ghp_\<close> nor \<^verbatim>\<open>github_pat_\<close>,
  \<open>getValidatedConfig\<close> throws the validation error, and no handler makes a single call
  to the store, whatever the client is (the remote state comes back as it went in). The
  list route answers with the 500 configuration-invalid response; the publish and fetch
  handlers answer with it for every request that passes the handler's own check of the
  request, which comes first: a request that fails that check is answered 400, and a
  request whose body cannot be read as JSON, or is \<^verbatim>\<open>null\<close>, is answered with the
  handler's own 500.
\<close>

theorem invalid_token_prefix_rejected:
  assumes "GITHUB_TOKEN env = Some t" "t \<noteq> []"
    and "\<not> startsWith t ''ghp_''" "\<not> startsWith t ''github_pat_''"
    and "GITHUB_OWNER env = Some ow" "ow \<noteq> []" "GITHUB_REPO env = Some rp" "rp \<noteq> []"
  shows "getValidatedConfig env =
           Inl (Error (''Configuration validation failed:'' @ newline @
             ''GITHUB_TOKEN appears to be invalid (should start with ghp_ or github_pat_)''))
       \<and> list_GET env new_Octokit d s = (Inr config_invalid, s)
       \<and> publish_POST env new_Octokit dm gf te rq s =
           (Inr (case rq of
                   Inl err \<Rightarrow> failure ''Failed to publish drafts to GitHub'' err
                 | Inr JsonNull \<Rightarrow> failure ''Failed to publish drafts to GitHub'' te
                 | Inr (JsonFields b) \<Rightarrow>
                     (case drafts b of
                        None \<Rightarrow> bad_request ''Drafts array is required and must not be empty''
                      | Some ds \<Rightarrow>
                          if ds = [] then bad_request ''Drafts array is required and must not be empty''
                          else config_invalid)), s)
       \<and> publish_PUT env new_Octokit dm gf te rq' s =
           (Inr (case rq' of
                   Inl err \<Rightarrow> failure ''Failed to publish draft to GitHub'' err
                 | Inr JsonNull \<Rightarrow> failure ''Failed to publish draft to GitHub'' te
                 | Inr (JsonFields b) \<Rightarrow>
                     (case draft b of None \<Rightarrow> bad_request ''Draft is required''
                      | Some d \<Rightarrow> config_invalid)), s)
       \<and> fetch_GET env new_Octokit toHTML p s =
           (Inr (case truthy p of None \<Rightarrow> bad_request ''File path is required''
                 | Some q \<Rightarrow> config_invalid), s)
       \<and> fetch_POST env new_Octokit toHTML te rq'' s =
           (Inr (case rq'' of
                   Inl err \<Rightarrow> failure ''Failed to fetch files from GitHub'' err
                 | Inr JsonNull \<Rightarrow> failure ''Failed to fetch files from GitHub'' te
                 | Inr (JsonFields None) \<Rightarrow> bad_request ''Paths array is required''
                 | Inr (JsonFields (Some ps)) \<Rightarrow> config_invalid), s)"
proof -
  have bad: "getValidatedConfig env =
           Inl (Error (''Configuration validation failed:'' @ newline @
             ''GITHUB_TOKEN appears to be invalid (should start with ghp_ or github_pat_)''))"
    by (rule getValidatedConfig_bad_prefix) (use assms in \<open>simp_all add: or_else_def\<close>)
  show ?thesis
    by (intro conjI bad list_GET_invalid [OF bad] publish_POST_invalid [OF bad]
        publish_PUT_invalid [OF bad] fetch_GET_invalid [OF bad] fetch_POST_invalid [OF bad])
qed

text \<open>
  The theorem at the environment \<open>bad_env\<close>: validation throws, the list route answers
  with the configuration-invalid response and an empty log of requests, and so does the
  publish route for a request with one draft.
\<close>

theorem invalid_token_prefix_rejected_witness:
  "getValidatedConfig bad_env =
           Inl (Error (''Configuration validation failed:'' @ newline @
             ''GITHUB_TOKEN appears to be invalid (should start with ghp_ or github_pat_)''))
   \<and> list_GET bad_env (\<lambda>t. logged (github alone healthy)) (Some ''content'') (example_store, [])
       = (Inr config_invalid, (example_store, []))
   \<and> publish_POST bad_env (\<lambda>t. logged (github alone healthy)) (\<lambda>d. Inr (draft_body d))
        (\<lambda>d dir. Inr (dir @ ''/'' @ draft_title d @ ''.md'')) null_body_error
        (Inr (JsonFields \<lparr> drafts = Some [\<lparr> draft_id = ''1'', draft_title = ''Hello'',
                 draft_body = ''text'', draft_createdAt = ''2024-01-01'',
                 draft_updatedAt = ''2024-01-02'' \<rparr>], directory = None \<rparr>))
        (example_store, [])
       = (Inr config_invalid, (example_store, []))"
  using invalid_token_prefix_rejected [where env = bad_env and t = "''token123''"
      and ow = "''acme''" and rp = "''site''"
      and new_Octokit = "\<lambda>t. logged (github alone healthy)" and d = "Some ''content''"
      and s = "(example_store, [])" and dm = "\<lambda>d. Inr (draft_body d)"
      and gf = "\<lambda>d dir. Inr (dir @ ''/'' @ draft_title d @ ''.md'')" and te = null_body_error
      and rq = "Inr (JsonFields \<lparr> drafts = Some [\<lparr> draft_id = ''1'', draft_title = ''Hello'',
                 draft_body = ''text'', draft_createdAt = ''2024-01-01'',
                 draft_updatedAt = ''2024-01-02'' \<rparr>], directory = None \<rparr>)"]
  by (simp add: bad_env_def startsWith_def)

subsection \<open>The title of a document\<close>

lemma heading_loop_find:
  "heading_loop ls =
     map_option (\<lambda>l. trim (drop 2 (trim l))) (find (\<lambda>l. startsWith (trim l) (js ''# '')) ls)"
  by (induction ls) (simp_all add: Let_def)

lemma text_loop_find:
  "text_loop ls =
     map_option (\<lambda>l. take 100 (trim l))
       (find (\<lambda>l. trim l \<noteq> [] \<and> \<not> startsWith (trim l) (js ''---'')) ls)"
  by (induction ls) (simp_all add: Let_def)

lemma extractMarkdownTitle_find:
  "extractMarkdownTitle m =
     (case find (\<lambda>l. startsWith (trim l) (js ''# '')) (split_lines m) of
        Some l \<Rightarrow> trim (drop 2 (trim l))
      | None \<Rightarrow>
         (case find (\<lambda>l. trim l \<noteq> [] \<and> \<not> startsWith (trim l) (js ''---'')) (split_lines m) of
            Some l \<Rightarrow> take 100 (trim l)
          | None \<Rightarrow> js ''Untitled''))"
  by (simp add: extractMarkdownTitle_def Let_def heading_loop_find text_loop_find
      split: option.splits)

lemma split_lines_append:
  "0x0A \<notin> set xs \<Longrightarrow> split_lines (xs @ 0x0A # ys) = xs # split_lines ys"
  by (induction xs) auto

lemma last_trim: "trim s \<noteq> [] \<Longrightarrow> \<not> is_space (last (trim s))"
  unfolding trim_def by (simp add: last_rev hd_dropWhile)

lemma trim_fixed_last: "trim t = t \<Longrightarrow> t \<noteq> [] \<Longrightarrow> \<not> is_space (last t)"
  using last_trim [of t] by simp

lemma trim_no_space:
  assumes "s \<noteq> []" "\<not> is_space (hd s)" "\<not> is_space (last s)"
  shows "trim s = s"
proof -
  from assms have d: "dropWhile is_space s = s" by (cases s) auto
  from assms have "rev s \<noteq> []" "\<not> is_space (hd (rev s))" by (simp_all add: hd_rev)
  then have "dropWhile is_space (rev s) = rev s" by (cases "rev s") auto
  with d show ?thesis by (simp add: trim_def)
qed

lemma hash_not_space: "\<not> is_space 0x23"
  by (simp add: is_space_def)

lemma js_hash: "js ''# '' = [0x23, 0x20]"
  by (simp add: js_def)

lemma js_simps: "js [] = []" "js (c # cs) = of_char c # js cs"
  by (simp_all add: js_def)

lemma heading_round_trip:
  assumes "T \<noteq> []" "trim T = T" "0x0A \<notin> set T"
  shows "extractMarkdownTitle (js ''# '' @ T @ [0x0A, 0x0A] @ rest) = T"
proof -
  have nl: "0x0A \<notin> set (js ''# '' @ T)" using assms by (simp add: js_hash)
  have sp: "split_lines (js ''# '' @ T @ [0x0A, 0x0A] @ rest)
              = (js ''# '' @ T) # split_lines (0x0A # rest)"
    using split_lines_append [OF nl, of "0x0A # rest"] by simp
  have "last (js ''# '' @ T) = last T" using assms by simp
  then have tr: "trim (js ''# '' @ T) = js ''# '' @ T"
    using trim_no_space [of "js ''# '' @ T"] trim_fixed_last [of T] assms hash_not_space
    by (simp add: js_hash)
  have tr2: "trim (0x23 # 0x20 # T) = 0x23 # 0x20 # T"
    using tr by (simp add: js_hash)
  have "heading_loop ((js ''# '' @ T) # ls) = Some T" for ls
    by (simp add: Let_def js_hash tr2 startsWith_def assms)
  then show ?thesis
    unfolding extractMarkdownTitle_def sp by (simp add: Let_def)
qed

text \<open>
  Against claim C9 as stated. The line \<^verbatim>\<open>--- x\<close> is not empty and is not the separator
  \<^verbatim>\<open>---\<close>, yet the source skips it, because it skips every line that begins with
  \<^verbatim>\<open>---\<close>: the title of the two lines \<^verbatim>\<open>--- x\<close>, \<^verbatim>\<open>Hello\<close> is \<^verbatim>\<open>Hello\<close>. And for the
  empty title the document \<^verbatim>\<open># \<close>, blank line, \<^verbatim>\<open>body\<close> has the title \<^verbatim>\<open>#\<close>, not the
  empty string: its first line is trimmed to \<^verbatim>\<open>#\<close> before the heading test.
\<close>

theorem extractMarkdownTitle_separator_counterexample:
  "extractMarkdownTitle (js ''--- x'' @ [0x0A] @ js ''Hello'') = js ''Hello''
   \<and> spec_extractTitle (js ''--- x'' @ [0x0A] @ js ''Hello'') = js ''--- x''
   \<and> extractMarkdownTitle (js ''--- x'' @ [0x0A] @ js ''Hello'')
       \<noteq> spec_extractTitle (js ''--- x'' @ [0x0A] @ js ''Hello'')
   \<and> extractMarkdownTitle (js ''# '' @ [] @ [0x0A, 0x0A] @ js ''body'') = js ''#''
   \<and> extractMarkdownTitle (js ''# '' @ [] @ [0x0A, 0x0A] @ js ''body'') \<noteq> []"
  by (simp add: extractMarkdownTitle_def spec_extractTitle_def js_simps trim_def is_space_def
      startsWith_def)

text \<open>
  Claim C9, amended. For every input the title is the text of the first line that, once
  trimmed, begins with \<^verbatim>\<open># \<close> (what follows the two characters, trimmed); when there is
  no such line, the first line that, once trimmed, is not empty and does not begin with
  \<^verbatim>\<open>---\<close>, cut to its first 100 code units; otherwise \<^verbatim>\<open>Untitled\<close>. In particular,
  for a title \<open>T\<close> that is not empty, has no line feed and no surrounding white space,
  the title of \<^verbatim>\<open># T\<close>, a blank line and any body is exactly \<open>T\<close>.
\<close>

theorem extractMarkdownTitle_result:
  "extractMarkdownTitle m =
     (case find (\<lambda>l. startsWith (trim l) (js ''# '')) (split_lines m) of
        Some l \<Rightarrow> trim (drop 2 (trim l))
      | None \<Rightarrow>
         (case find (\<lambda>l. trim l \<noteq> [] \<and> \<not> startsWith (trim l) (js ''---'')) (split_lines m) of
            Some l \<Rightarrow> take 100 (trim l)
          | None \<Rightarrow> js ''Untitled''))
   \<and> (T \<noteq> [] \<and> trim T = T \<and> 0x0A \<notin> set T
        \<longrightarrow> extractMarkdownTitle (js ''# '' @ T @ [0x0A, 0x0A] @ rest) = T)"
  using extractMarkdownTitle_find [of m] heading_round_trip [of T rest] by blast

theorem extractMarkdownTitle_result_witness:
  "js ''My Post'' \<noteq> [] \<and> trim (js ''My Post'') = js ''My Post'' \<and> 0x0A \<notin> set (js ''My Post'')
   \<and> extractMarkdownTitle (js ''# '' @ js ''My Post'' @ [0x0A, 0x0A] @ js ''Some text.'')
       = js ''My Post''"
proof -
  have h: "js ''My Post'' \<noteq> [] \<and> trim (js ''My Post'') = js ''My Post''
           \<and> 0x0A \<notin> set (js ''My Post'')"
    by (simp add: js_simps trim_def is_space_def)
  with extractMarkdownTitle_result [of "[]" "js ''My Post''" "js ''Some text.''"]
  show ?thesis by blast
qed

section \<open>Properties of the service, for every client\<close>

subsection \<open>The batch commit does not read the files' tokens\<close>

lemma map_name_content:
  "map (\<lambda>f. G (name f) (content f)) fs
     = map (\<lambda>(n, c). G n c) (zip (map name fs) (map content fs))"
  by (induction fs) auto

lemma commitMultipleFiles_sha_free:
  assumes "map name fs = map name gs" "map content fs = map content gs"
  shows "commitMultipleFiles api cfg fs m s = commitMultipleFiles api cfg gs m s"
proof -
  let ?G = "\<lambda>n c. await (git_createBlob api (owner cfg) (repo cfg) (Base64 c) ''base64'')
                           (\<lambda>blob. resolve \<lparr> entry_path = n, entry_mode = ''100644'',
                                               entry_type = ''blob'', entry_sha = blob \<rparr>)"
  have "map (\<lambda>f. ?G (name f) (content f)) fs = map (\<lambda>f. ?G (name f) (content f)) gs"
    unfolding map_name_content [where G = ?G] using assms by simp
  then show ?thesis
    unfolding commitMultipleFiles_def by simp
qed

text \<open>
  Claim C8. Two batches with the same paths and the same contents, file by file, differ at
  most in the files' \<^verbatim>\<open>sha\<close> fields. On such batches \<open>commitMultipleFiles\<close> returns the
  same result and leaves the same remote state, for every client and every starting state;
  with the recording client, the state holds the log, so the store receives the same
  requests and gives the same answers.
\<close>

theorem commitMultipleFiles_ignores_sha:
  assumes "map name fs = map name gs" "map content fs = map content gs"
  shows "commitMultipleFiles api cfg fs m s = commitMultipleFiles api cfg gs m s
       \<and> commitMultipleFiles (logged api) cfg fs m (s, log)
           = commitMultipleFiles (logged api) cfg gs m (s, log)"
  by (intro conjI commitMultipleFiles_sha_free assms)

theorem commitMultipleFiles_ignores_sha_witness:
  "commitMultipleFiles (github alone healthy) example_config [file_c] ''publish'' example_store
     = commitMultipleFiles (github alone healthy) example_config [file_c_stale] ''publish''
         example_store
   \<and> commitMultipleFiles (logged (github alone healthy)) example_config [file_c] ''publish''
         (example_store, [])
     = commitMultipleFiles (logged (github alone healthy)) example_config [file_c_stale]
         ''publish'' (example_store, [])"
  using commitMultipleFiles_ignores_sha [of "[file_c]" "[file_c_stale]"
      "github alone healthy" example_config "''publish''" example_store "[]"]
  by (simp add: file_c_def file_c_stale_def)

subsection \<open>Evaluating the concrete instances\<close>

lemmas store_defs = store_getContent_def store_getRef_def store_getCommit_def store_createBlob_def
  store_createTree_def store_createCommit_def store_updateRef_def store_createOrUpdateFileContents_def
  head_tree_def head_of_def commit_at_def tree_at_def blob_at_def blob_id_def fresh_id_def
  move_head_def overlay_def dir_items_def not_found_def unprocessable_def

lemmas run_defs = github_def direct_def serve_def arrive_def alone_def healthy_def unauthorized_def
  rival_before_def logged_def recorded_def

lemma good_env_config:
  "getValidatedConfig good_env = Inr \<lparr> github_token = ''ghp_abc'', github_owner = ''acme'',
      github_repo = ''site'', github_branch = ''main'', app_nodeEnv = ''development'',
      app_isDev = True, app_isProd = False \<rparr>"
  by (simp add: getValidatedConfig_def getConfig_def validateConfig_def good_env_def or_else_def
      startsWith_def Let_def)

subsection \<open>Fetching a file\<close>



lemma fetchMarkdownFile_cases:
  "fetchMarkdownFile api cfg p s =
     (case repos_getContent api (owner cfg) (repo cfg) p (or_else (branch cfg) ''main'') s of
        (Inr (FileData b sh), s') \<Rightarrow> (Inr (from_base64 b), s')
      | (Inr (OtherData sh), s') \<Rightarrow> (Inl (Error (''Failed to fetch file: '' @ p)), s')
      | (Inr (DirData items), s') \<Rightarrow> (Inl (Error (''Failed to fetch file: '' @ p)), s')
      | (Inl e, s') \<Rightarrow> (Inl (Error (''Failed to fetch file: '' @ p)), s'))"
  by (simp add: fetchMarkdownFile_def promise_defs split: prod.splits sum.splits content_data.splits)

lemma fetchMarkdownFile_error:
  "fetchMarkdownFile api cfg p s = (Inl e, s') \<Longrightarrow> e = Error (''Failed to fetch file: '' @ p)"
  unfolding fetchMarkdownFile_cases
  by (auto split: prod.splits sum.splits content_data.splits)

lemma fetchMarkdownFile_not_file:
  assumes "\<forall>b sh. fst (repos_getContent api (owner cfg) (repo cfg) p (or_else (branch cfg) ''main'') s) \<noteq> Inr (FileData b sh)"
  shows "fst (fetchMarkdownFile api cfg p s) = Inl (Error (''Failed to fetch file: '' @ p))"
  using assms unfolding fetchMarkdownFile_cases
  by (auto split: prod.splits sum.splits content_data.splits)

lemma fetch_GET_failure:
  assumes c: "getValidatedConfig env = Inr config" and q: "truthy q = Some p"
    and a3: "fst (fetchMarkdownFile (new_Octokit (github_token config)) (service_config config) p s) = Inl e"
  shows "fst (fetch_GET env new_Octokit toHTML q s) =
           Inr \<lparr> status = 500,
                 body = JObject [(''error'', JString ''Failed to fetch content from GitHub''),
                                 (''details'', JString (''Failed to fetch file: '' @ p))] \<rparr>"
proof -
  obtain r s' where rs: "fetchMarkdownFile (new_Octokit (github_token config)) (service_config config) p s = (r, s')"
    by (cases "fetchMarkdownFile (new_Octokit (github_token config)) (service_config config) p s")
  from rs a3 have "r = Inl e" by simp
  with rs have f: "fetchMarkdownFile (new_Octokit (github_token config)) (service_config config) p s = (Inl e, s')"
    by simp
  have e: "e = Error (''Failed to fetch file: '' @ p)"
    by (rule fetchMarkdownFile_error [OF f])
  show ?thesis
    using c q f e by (simp add: fetch_GET_def promise_defs failure_def)
qed

lemma fetch_POST_failure:
  assumes c: "getValidatedConfig env = Inr config"
    and a3: "fst (fetchMarkdownFile (new_Octokit (github_token config)) (service_config config) p s) = Inl e"
  shows "fst (fetch_POST env new_Octokit toHTML te (Inr (JsonFields (Some [p]))) s) =
           Inr \<lparr> status = 200,
                 body = JObject [(''success'', JBool True),
                   (''data'', JObject
                      [(''successful'', JArray []),
                       (''failed'', JArray [JObject [(''path'', JString p),
                          (''error'', JString (''Failed to fetch file: '' @ p))]]),
                       (''total'', JNumber 1)])] \<rparr>"
proof -
  obtain r s' where rs: "fetchMarkdownFile (new_Octokit (github_token config)) (service_config config) p s = (r, s')"
    by (cases "fetchMarkdownFile (new_Octokit (github_token config)) (service_config config) p s")
  from rs a3 have "r = Inl e" by simp
  with rs have f: "fetchMarkdownFile (new_Octokit (github_token config)) (service_config config) p s = (Inl e, s')"
    by simp
  have e: "e = Error (''Failed to fetch file: '' @ p)"
    by (rule fetchMarkdownFile_error [OF f])
  show ?thesis
    using c f e by (simp add: fetch_POST_def destructure_def promise_defs Let_def)
qed

lemma fetch_POST_status:
  assumes c: "getValidatedConfig env = Inr config"
  shows "\<exists>data. fst (fetch_POST env new_Octokit toHTML te (Inr (JsonFields (Some paths))) s) =
           Inr \<lparr> status = 200, body = JObject [(''success'', JBool True), (''data'', data)] \<rparr>"
  using c by (simp add: fetch_POST_def destructure_def promise_defs Let_def split: prod.splits)

text \<open>
  Claim C5, amended. For every path, \<open>fetchMarkdownFile\<close> throws one and the same error,
  \<^verbatim>\<open>Failed to fetch file: <path>\<close>, whatever made it fail, for every client: it
  fails so whenever the store's answer is not a file, be it a rejection of any kind (path
  missing, transport, authentication) or a directory or another object. The caller cannot
  tell the failures apart. The GET handler of the fetch route answers each of them with
  status 500; the POST handler of the same route answers 200 whatever the fetches did,
  and a request for one failing path gets that path and the same error under
  \<^verbatim>\<open>data.failed\<close>.
\<close>

theorem fetchMarkdownFile_one_failure:
  "(\<forall>e s'. fetchMarkdownFile api cfg p s = (Inl e, s') \<longrightarrow> e = Error (''Failed to fetch file: '' @ p))
   \<and> ((\<forall>b sh. fst (repos_getContent api (owner cfg) (repo cfg) p (or_else (branch cfg) ''main'') s)
              \<noteq> Inr (FileData b sh))
        \<longrightarrow> fst (fetchMarkdownFile api cfg p s) = Inl (Error (''Failed to fetch file: '' @ p)))
   \<and> (getValidatedConfig env = Inr config \<and> truthy q = Some p'
        \<and> fst (fetchMarkdownFile (new_Octokit (github_token config)) (service_config config) p' s) = Inl err
        \<longrightarrow> fst (fetch_GET env new_Octokit toHTML q s) =
              Inr \<lparr> status = 500,
                    body = JObject [(''error'', JString ''Failed to fetch content from GitHub''),
                                    (''details'', JString (''Failed to fetch file: '' @ p'))] \<rparr>)
   \<and> (getValidatedConfig env = Inr config
        \<longrightarrow> (\<exists>data. fst (fetch_POST env new_Octokit toHTML te (Inr (JsonFields (Some paths))) s) =
                Inr \<lparr> status = 200,
                      body = JObject [(''success'', JBool True), (''data'', data)] \<rparr>))
   \<and> (getValidatedConfig env = Inr config
        \<and> fst (fetchMarkdownFile (new_Octokit (github_token config)) (service_config config) p' s) = Inl err
        \<longrightarrow> fst (fetch_POST env new_Octokit toHTML te (Inr (JsonFields (Some [p']))) s) =
              Inr \<lparr> status = 200,
                    body = JObject [(''success'', JBool True),
                      (''data'', JObject
                         [(''successful'', JArray []),
                          (''failed'', JArray [JObject [(''path'', JString p'),
                             (''error'', JString (''Failed to fetch file: '' @ p'))]]),
                          (''total'', JNumber 1)])] \<rparr>)"
proof (intro conjI allI impI)
  fix e s' assume "fetchMarkdownFile api cfg p s = (Inl e, s')"
  then show "e = Error (''Failed to fetch file: '' @ p)" by (rule fetchMarkdownFile_error)
next
  assume "\<forall>b sh. fst (repos_getContent api (owner cfg) (repo cfg) p (or_else (branch cfg) ''main'') s)
              \<noteq> Inr (FileData b sh)"
  then show "fst (fetchMarkdownFile api cfg p s) = Inl (Error (''Failed to fetch file: '' @ p))"
    by (rule fetchMarkdownFile_not_file)
next
  assume h: "getValidatedConfig env = Inr config \<and> truthy q = Some p'
        \<and> fst (fetchMarkdownFile (new_Octokit (github_token config)) (service_config config) p' s) = Inl err"
  show "fst (fetch_GET env new_Octokit toHTML q s) =
              Inr \<lparr> status = 500,
                    body = JObject [(''error'', JString ''Failed to fetch content from GitHub''),
                                    (''details'', JString (''Failed to fetch file: '' @ p'))] \<rparr>"
    by (rule fetch_GET_failure [of env config q p' new_Octokit s err]) (use h in \<open>simp_all only:\<close>)
next
  assume "getValidatedConfig env = Inr config"
  then show "\<exists>data. fst (fetch_POST env new_Octokit toHTML te (Inr (JsonFields (Some paths))) s) =
                Inr \<lparr> status = 200,
                      body = JObject [(''success'', JBool True), (''data'', data)] \<rparr>"
    by (rule fetch_POST_status)
next
  assume h: "getValidatedConfig env = Inr config
        \<and> fst (fetchMarkdownFile (new_Octokit (github_token config)) (service_config config) p' s) = Inl err"
  show "fst (fetch_POST env new_Octokit toHTML te (Inr (JsonFields (Some [p']))) s) =
              Inr \<lparr> status = 200,
                    body = JObject [(''success'', JBool True),
                      (''data'', JObject
                         [(''successful'', JArray []),
                          (''failed'', JArray [JObject [(''path'', JString p'),
                             (''error'', JString (''Failed to fetch file: '' @ p'))]]),
                          (''total'', JNumber 1)])] \<rparr>"
    by (rule fetch_POST_failure [where env = env and config = config and new_Octokit = new_Octokit
          and p = p' and s = s and e = err, OF h [THEN conjunct1] h [THEN conjunct2]])
qed


text \<open>
  Against claim C5 as stated. On the example repository a missing path, served by a healthy
  store, and the same path on a store that refuses the credentials give the same error
  value, and the GET handler of the fetch route answers the missing path with status 500,
  not 404.
\<close>

theorem fetchMarkdownFile_not_found_counterexample:
  "fst (fetchMarkdownFile (github alone healthy) example_config ''content/zzz.md'' example_store)
     = Inl (Error ''Failed to fetch file: content/zzz.md'')
   \<and> fst (fetchMarkdownFile (github alone unauthorized) example_config ''content/zzz.md'' example_store)
     = Inl (Error ''Failed to fetch file: content/zzz.md'')
   \<and> fst (fetch_GET good_env (\<lambda>t. github alone healthy) (\<lambda>md. md) (Some ''content/zzz.md'')
          example_store)
     = Inr \<lparr> status = 500,
             body = JObject [(''error'', JString ''Failed to fetch content from GitHub''),
                             (''details'', JString ''Failed to fetch file: content/zzz.md'')] \<rparr>"
  by code_simp

text \<open>
  The theorem at a directory path on the healthy store, and at an existing file on the
  store that refuses the credentials, asked for through either handler.
\<close>

theorem fetchMarkdownFile_one_failure_witness:
  "fst (fetchMarkdownFile (github alone healthy) example_config ''content'' example_store)
     = Inl (Error ''Failed to fetch file: content'')
   \<and> fst (fetch_GET good_env (\<lambda>t. github alone unauthorized) (\<lambda>md. md) (Some ''content/a.md'')
          example_store)
     = Inr \<lparr> status = 500,
             body = JObject [(''error'', JString ''Failed to fetch content from GitHub''),
                             (''details'', JString ''Failed to fetch file: content/a.md'')] \<rparr>
   \<and> fst (fetch_POST good_env (\<lambda>t. github alone unauthorized) (\<lambda>md. md) null_body_error
          (Inr (JsonFields (Some [''content/a.md'']))) example_store)
     = Inr \<lparr> status = 200,
             body = JObject [(''success'', JBool True),
               (''data'', JObject
                  [(''successful'', JArray []),
                   (''failed'', JArray [JObject [(''path'', JString ''content/a.md''),
                      (''error'', JString ''Failed to fetch file: content/a.md'')]]),
                   (''total'', JNumber 1)])] \<rparr>"
proof -
  let ?config = "\<lparr> github_token = ''ghp_abc'', github_owner = ''acme'',
      github_repo = ''site'', github_branch = ''main'', app_nodeEnv = ''development'',
      app_isDev = True, app_isProd = False \<rparr>"
  have dir: "fst (repos_getContent (github alone healthy) (owner example_config) (repo example_config)
                ''content'' (or_else (branch example_config) ''main'') example_store)
      = Inr (DirData [\<lparr> item_type = ''file'', item_name = ''a.md'', item_path = ''content/a.md'' \<rparr>,
                      \<lparr> item_type = ''file'', item_name = ''b.md'', item_path = ''content/b.md'' \<rparr>,
                      \<lparr> item_type = ''file'', item_name = ''notes.txt'', item_path = ''content/notes.txt'' \<rparr>])"
    by code_simp
  have h2: "\<forall>b sh. fst (repos_getContent (github alone healthy) (owner example_config)
                (repo example_config) ''content'' (or_else (branch example_config) ''main'')
                example_store) \<noteq> Inr (FileData b sh)"
    unfolding dir by simp
  have h3a: "truthy (Some ''content/a.md'') = Some ''content/a.md''"
    by code_simp
  have h3b: "fst (fetchMarkdownFile (github alone unauthorized) (service_config ?config)
                 ''content/a.md'' example_store) = Inl (Error ''Failed to fetch file: content/a.md'')"
    by code_simp
  note t = fetchMarkdownFile_one_failure [where api = "github alone healthy"
      and cfg = example_config and p = "''content''" and s = example_store and env = good_env
      and config = ?config and q = "Some ''content/a.md''" and p' = "''content/a.md''"
      and new_Octokit = "\<lambda>t. github alone unauthorized"
      and err = "Error ''Failed to fetch file: content/a.md''" and toHTML = "\<lambda>md. md"
      and te = null_body_error and paths = "[''content/a.md'']"]
  have a: "fst (fetchMarkdownFile (github alone healthy) example_config ''content'' example_store)
     = Inl (Error ''Failed to fetch file: content'')"
    using t [THEN conjunct2, THEN conjunct1, THEN mp, OF h2] by simp
  have g: "getValidatedConfig good_env = Inr ?config \<and> truthy (Some ''content/a.md'') = Some ''content/a.md''
        \<and> fst (fetchMarkdownFile (github alone unauthorized) (service_config ?config) ''content/a.md''
             example_store) = Inl (Error ''Failed to fetch file: content/a.md'')"
    by (intro conjI good_env_config h3a h3b)
  have g': "getValidatedConfig good_env = Inr ?config
        \<and> fst (fetchMarkdownFile (github alone unauthorized) (service_config ?config) ''content/a.md''
             example_store) = Inl (Error ''Failed to fetch file: content/a.md'')"
    by (intro conjI good_env_config h3b)
  have b: "fst (fetch_GET good_env (\<lambda>t. github alone unauthorized) (\<lambda>md. md) (Some ''content/a.md'')
          example_store)
     = Inr \<lparr> status = 500,
             body = JObject [(''error'', JString ''Failed to fetch content from GitHub''),
                             (''details'', JString ''Failed to fetch file: content/a.md'')] \<rparr>"
    using t [THEN conjunct2, THEN conjunct2, THEN conjunct1, THEN mp, OF g] by simp
  have c: "fst (fetch_POST good_env (\<lambda>t. github alone unauthorized) (\<lambda>md. md) null_body_error
          (Inr (JsonFields (Some [''content/a.md'']))) example_store)
     = Inr \<lparr> status = 200,
             body = JObject [(''success'', JBool True),
               (''data'', JObject
                  [(''successful'', JArray []),
                   (''failed'', JArray [JObject [(''path'', JString ''content/a.md''),
                      (''error'', JString ''Failed to fetch file: content/a.md'')]]),
                   (''total'', JNumber 1)])] \<rparr>"
    using t [THEN conjunct2, THEN conjunct2, THEN conjunct2, THEN conjunct2, THEN mp, OF g'] by simp
  show ?thesis by (intro conjI a b c)
qed


subsection \<open>Listing a directory\<close>

lemma listMarkdownFiles_directory:
  "repos_getContent api (owner cfg) (repo cfg) d (or_else (branch cfg) ''main'') s = (Inr (DirData items), s')
   \<Longrightarrow> listMarkdownFiles api cfg d s =
        (Inr (map item_path (filter (\<lambda>item. item_type item = ''file'' \<and> endsWith (item_name item) ''.md'') items)), s')"
  by (simp add: listMarkdownFiles_def promise_defs)

lemma listMarkdownFiles_absent:
  "repos_getContent api (owner cfg) (repo cfg) d (or_else (branch cfg) ''main'') s = (Inl (RequestError 404 m), s')
   \<Longrightarrow> listMarkdownFiles api cfg d s = (Inr [], s')"
  by (simp add: listMarkdownFiles_def promise_defs)

text \<open>
  Claim C7, amended. When the store answers with a directory listing, \<open>listMarkdownFiles\<close>
  returns exactly the paths of the entries that are files whose names end in \<^verbatim>\<open>.md\<close>, in
  the order of the listing; when the store answers that the directory does not exist
  (status 404), it returns the empty list and does not throw. This holds for every
  client.
\<close>

theorem listMarkdownFiles_result:
  "(repos_getContent api (owner cfg) (repo cfg) d (or_else (branch cfg) ''main'') s = (Inr (DirData items), s')
      \<longrightarrow> listMarkdownFiles api cfg d s =
            (Inr (map item_path (filter (\<lambda>item. item_type item = ''file''
                                               \<and> endsWith (item_name item) ''.md'') items)), s'))
   \<and> (repos_getContent api (owner cfg) (repo cfg) d (or_else (branch cfg) ''main'') s
         = (Inl (RequestError 404 m), s'')
      \<longrightarrow> listMarkdownFiles api cfg d s = (Inr [], s''))"
  by (intro conjI impI listMarkdownFiles_directory listMarkdownFiles_absent)

text \<open>
  The theorem on the example repository: the directory \<^verbatim>\<open>content\<close> holds
  \<^verbatim>\<open>a.md\<close>, \<^verbatim>\<open>b.md\<close> and \<^verbatim>\<open>notes.txt\<close>; the directory \<^verbatim>\<open>drafts\<close> does not exist.
\<close>

theorem listMarkdownFiles_result_witness:
  "fst (listMarkdownFiles (github alone healthy) example_config ''content'' example_store)
     = Inr [''content/a.md'', ''content/b.md'']
   \<and> fst (listMarkdownFiles (github alone healthy) example_config ''drafts'' example_store) = Inr []"
proof -
  let ?served = "example_store \<lparr> remote_served := 1 \<rparr>"
  have dir: "repos_getContent (github alone healthy) (owner example_config) (repo example_config)
                ''content'' (or_else (branch example_config) ''main'') example_store
      = (Inr (DirData [\<lparr> item_type = ''file'', item_name = ''a.md'', item_path = ''content/a.md'' \<rparr>,
                      \<lparr> item_type = ''file'', item_name = ''b.md'', item_path = ''content/b.md'' \<rparr>,
                      \<lparr> item_type = ''file'', item_name = ''notes.txt'', item_path = ''content/notes.txt'' \<rparr>]),
         ?served)"
    by code_simp
  have absent: "repos_getContent (github alone healthy) (owner example_config) (repo example_config)
                ''drafts'' (or_else (branch example_config) ''main'') example_store
      = (Inl (RequestError 404 ''Not Found''), ?served)"
    by code_simp
  note t1 = listMarkdownFiles_result [of "github alone healthy" example_config "''content''"
      example_store _ ?served "''Not Found''" ?served, THEN conjunct1, THEN mp, OF dir]
  note t2 = listMarkdownFiles_result [of "github alone healthy" example_config "''drafts''"
      example_store "[]" ?served "''Not Found''" ?served, THEN conjunct2, THEN mp, OF absent]
  show ?thesis
    unfolding t1 t2 by (simp add: endsWith_def)
qed

text \<open>
  Against claim C7 as stated. When the store refuses the credentials (status 401), the
  listing is the empty list, not a failure, and the list route answers 200 with no files.
\<close>

theorem listMarkdownFiles_swallows_counterexample:
  "fst (repos_getContent (github alone unauthorized) ''acme'' ''site'' ''content'' ''main'' example_store)
     = Inl (RequestError 401 ''Bad credentials'')
   \<and> fst (listMarkdownFiles (github alone unauthorized) example_config ''content'' example_store)
     = Inr []
   \<and> fst (list_GET good_env (\<lambda>t. github alone unauthorized) (Some ''content'') example_store)
     = Inr \<lparr> status = 200,
             body = JObject [(''success'', JBool True),
                      (''data'', JObject [(''files'', JArray []),
                         (''directory'', JString ''content''),
                         (''total'', JNumber 0)])] \<rparr>"
  by code_simp

subsection \<open>Writing one file\<close>

lemma commitFile_logged_cases:
  "commitFile (logged api) cfg p c m (s, log) =
     (case repos_getContent api (owner cfg) (repo cfg) p (or_else (branch cfg) ''main'') s of
        (g, s1) \<Rightarrow>
          (case (case g of
                   Inr (FileData b sh) \<Rightarrow> Some (truthy (Some sh))
                 | Inr (OtherData sh) \<Rightarrow> Some (truthy (Some sh))
                 | Inr (DirData items) \<Rightarrow> Some None
                 | Inl (RequestError st x) \<Rightarrow> if st = 404 then Some None else None
                 | Inl (Error x) \<Rightarrow> None) of
             None \<Rightarrow>
               (Inl (Error (''Failed to commit file: '' @ p)),
                (s1, log @ [(GetContent (owner cfg) (repo cfg) p (or_else (branch cfg) ''main''),
                             map_sum id Content g)]))
           | Some tok \<Rightarrow>
               (case repos_createOrUpdateFileContents api (owner cfg) (repo cfg) p m (Base64 c)
                       (or_else (branch cfg) ''main'') tok s1 of
                  (w, s2) \<Rightarrow>
                    ((case w of Inl e \<Rightarrow> Inl (Error (''Failed to commit file: '' @ p)) | Inr u \<Rightarrow> Inr u),
                     (s2, log @ [(GetContent (owner cfg) (repo cfg) p (or_else (branch cfg) ''main''),
                                  map_sum id Content g),
                                 (CreateOrUpdateFileContents (owner cfg) (repo cfg) p m (Base64 c)
                                    (or_else (branch cfg) ''main'') tok,
                                  map_sum id (\<lambda>u. Done) w)])))))"
  by (simp add: commitFile_def getFileSha_def logged_def recorded_def promise_defs truthy_def
      split: prod.splits sum.splits content_data.splits js_error.splits option.splits)

lemma commitFile_cases:
  "commitFile api cfg p c m s =
     (case repos_getContent api (owner cfg) (repo cfg) p (or_else (branch cfg) ''main'') s of
        (g, s1) \<Rightarrow>
          (case (case g of
                   Inr (FileData b sh) \<Rightarrow> Some (truthy (Some sh))
                 | Inr (OtherData sh) \<Rightarrow> Some (truthy (Some sh))
                 | Inr (DirData items) \<Rightarrow> Some None
                 | Inl (RequestError st x) \<Rightarrow> if st = 404 then Some None else None
                 | Inl (Error x) \<Rightarrow> None) of
             None \<Rightarrow> (Inl (Error (''Failed to commit file: '' @ p)), s1)
           | Some tok \<Rightarrow>
               (case repos_createOrUpdateFileContents api (owner cfg) (repo cfg) p m (Base64 c)
                       (or_else (branch cfg) ''main'') tok s1 of
                  (w, s2) \<Rightarrow>
                    ((case w of Inl e \<Rightarrow> Inl (Error (''Failed to commit file: '' @ p)) | Inr u \<Rightarrow> Inr u),
                     s2))))"
  by (simp add: commitFile_def getFileSha_def promise_defs truthy_def
      split: prod.splits sum.splits content_data.splits js_error.splits option.splits)

lemma commitFile_logged_transparent:
  "fst (commitFile (logged api) cfg p c m (s, log)) = fst (commitFile api cfg p c m s)
   \<and> fst (snd (commitFile (logged api) cfg p c m (s, log))) = snd (commitFile api cfg p c m s)"
  by (simp only: commitFile_logged_cases)
     (simp add: commitFile_cases split: prod.splits sum.splits content_data.splits js_error.splits option.splits)

lemma commitFile_error:
  "fst (commitFile (logged api) cfg p c m (s, log)) = Inl e \<Longrightarrow> e = Error (''Failed to commit file: '' @ p)"
  unfolding commitFile_logged_cases
  by (simp split: prod.splits sum.splits content_data.splits js_error.splits option.splits if_splits)

lemma commitFile_one_write:
  "length (filter (\<lambda>x. is_write (fst x)) (snd (snd (commitFile (logged api) cfg p c m (s, []))))) \<le> 1"
  unfolding commitFile_logged_cases
  by (simp add: is_write_def split: prod.splits sum.splits content_data.splits js_error.splits option.splits)

lemma commitFile_reads_first:
  "snd (snd (commitFile (logged api) cfg p c m (s, []))) \<noteq> []
   \<and> fst (hd (snd (snd (commitFile (logged api) cfg p c m (s, [])))))
       = GetContent (owner cfg) (repo cfg) p (or_else (branch cfg) ''main'')"
  unfolding commitFile_logged_cases
  by (simp split: prod.splits sum.splits content_data.splits js_error.splits option.splits)

lemma commitFile_absent_creates:
  "repos_getContent api (owner cfg) (repo cfg) p (or_else (branch cfg) ''main'') s
     = (Inl (RequestError 404 x), s1) \<Longrightarrow>
   snd (snd (commitFile (logged api) cfg p c m (s, []))) =
     [(GetContent (owner cfg) (repo cfg) p (or_else (branch cfg) ''main''), Inl (RequestError 404 x)),
      (CreateOrUpdateFileContents (owner cfg) (repo cfg) p m (Base64 c)
         (or_else (branch cfg) ''main'') None,
       map_sum id (\<lambda>u. Done)
         (fst (repos_createOrUpdateFileContents api (owner cfg) (repo cfg) p m (Base64 c)
                 (or_else (branch cfg) ''main'') None s1)))]"
  unfolding commitFile_logged_cases
  by (simp split: prod.splits)

lemma commitFile_present_carries_sha:
  "repos_getContent api (owner cfg) (repo cfg) p (or_else (branch cfg) ''main'') s
     = (Inr (FileData b sh), s1) \<Longrightarrow> sh \<noteq> [] \<Longrightarrow>
   snd (snd (commitFile (logged api) cfg p c m (s, []))) =
     [(GetContent (owner cfg) (repo cfg) p (or_else (branch cfg) ''main''),
       Inr (Content (FileData b sh))),
      (CreateOrUpdateFileContents (owner cfg) (repo cfg) p m (Base64 c)
         (or_else (branch cfg) ''main'') (Some sh),
       map_sum id (\<lambda>u. Done)
         (fst (repos_createOrUpdateFileContents api (owner cfg) (repo cfg) p m (Base64 c)
                 (or_else (branch cfg) ''main'') (Some sh) s1)))]"
  unfolding commitFile_logged_cases
  by (simp add: truthy_def split: prod.splits)

lemma commitFile_rejected_write:
  "is_write rq \<Longrightarrow> (rq, Inl e) \<in> set (snd (snd (commitFile (logged api) cfg p c m (s, [])))) \<Longrightarrow>
   fst (commitFile (logged api) cfg p c m (s, [])) = Inl (Error (''Failed to commit file: '' @ p))"
  unfolding commitFile_logged_cases
  by (auto simp add: is_write_def split: prod.splits sum.splits content_data.splits js_error.splits option.splits if_splits)

text \<open>
  Against claim C4 as stated. Another writer replaces \<^verbatim>\<open>content/a.md\<close> between the read
  of the token and the write. The store refuses the write with status 409, and
  \<open>commitFile\<close> throws \<^verbatim>\<open>Failed to commit file: content/a.md\<close>, the very error it throws
  when the store refuses the credentials.
\<close>

theorem commitFile_conflict_counterexample:
  "snd (snd (commitFile
         (logged (github (rival_before 1 (RivalPut example_config ''content/a.md'' ''theirs'' ''their change''))
                    healthy))
         example_config ''content/a.md'' ''mine'' ''my change'' (example_store, [])))
     = [(GetContent ''acme'' ''site'' ''content/a.md'' ''main'',
         Inr (Content (FileData (Base64 ''old'') ''bold''))),
        (CreateOrUpdateFileContents ''acme'' ''site'' ''content/a.md'' ''my change'' (Base64 ''mine'')
           ''main'' (Some ''bold''),
         Inl (RequestError 409 ''sha does not match''))]
   \<and> fst (commitFile
         (github (rival_before 1 (RivalPut example_config ''content/a.md'' ''theirs'' ''their change''))
            healthy)
         example_config ''content/a.md'' ''mine'' ''my change'' example_store)
     = Inl (Error ''Failed to commit file: content/a.md'')
   \<and> fst (commitFile (github alone unauthorized)
         example_config ''content/a.md'' ''mine'' ''my change'' example_store)
     = Inl (Error ''Failed to commit file: content/a.md'')"
  by code_simp

text \<open>
  Claim C4, amended. For every client, \<open>commitFile\<close> first asks the store for the path
  (the first request is the get-content), and issues at most one write, so it never
  retries. When the store answers that the path does not exist (status 404), the write is
  sent without a token: a create. When the store answers with a file and its token, the
  write carries that token. When the store rejects the write, for any reason, a stale
  token included, \<open>commitFile\<close> throws the generic error \<^verbatim>\<open>Failed to commit file: <path>\<close>,
  which is the only error it ever throws. Recording the exchanges changes neither the
  result nor the remote state.
\<close>

theorem commitFile_protocol:
  "(\<forall>e. fst (commitFile (logged api) cfg p c m (s, [])) = Inl e
        \<longrightarrow> e = Error (''Failed to commit file: '' @ p))
   \<and> fst (commitFile (logged api) cfg p c m (s, [])) = fst (commitFile api cfg p c m s)
   \<and> fst (snd (commitFile (logged api) cfg p c m (s, []))) = snd (commitFile api cfg p c m s)
   \<and> snd (snd (commitFile (logged api) cfg p c m (s, []))) \<noteq> []
   \<and> fst (hd (snd (snd (commitFile (logged api) cfg p c m (s, [])))))
       = GetContent (owner cfg) (repo cfg) p (or_else (branch cfg) ''main'')
   \<and> length (filter (\<lambda>x. is_write (fst x))
         (snd (snd (commitFile (logged api) cfg p c m (s, []))))) \<le> 1
   \<and> (\<forall>x s1. repos_getContent api (owner cfg) (repo cfg) p (or_else (branch cfg) ''main'') s
                = (Inl (RequestError 404 x), s1)
        \<longrightarrow> snd (snd (commitFile (logged api) cfg p c m (s, []))) =
             [(GetContent (owner cfg) (repo cfg) p (or_else (branch cfg) ''main''),
               Inl (RequestError 404 x)),
              (CreateOrUpdateFileContents (owner cfg) (repo cfg) p m (Base64 c)
                 (or_else (branch cfg) ''main'') None,
               map_sum id (\<lambda>u. Done)
                 (fst (repos_createOrUpdateFileContents api (owner cfg) (repo cfg) p m (Base64 c)
                         (or_else (branch cfg) ''main'') None s1)))])
   \<and> (\<forall>b sh s1. repos_getContent api (owner cfg) (repo cfg) p (or_else (branch cfg) ''main'') s
                = (Inr (FileData b sh), s1) \<and> sh \<noteq> []
        \<longrightarrow> snd (snd (commitFile (logged api) cfg p c m (s, []))) =
             [(GetContent (owner cfg) (repo cfg) p (or_else (branch cfg) ''main''),
               Inr (Content (FileData b sh))),
              (CreateOrUpdateFileContents (owner cfg) (repo cfg) p m (Base64 c)
                 (or_else (branch cfg) ''main'') (Some sh),
               map_sum id (\<lambda>u. Done)
                 (fst (repos_createOrUpdateFileContents api (owner cfg) (repo cfg) p m (Base64 c)
                         (or_else (branch cfg) ''main'') (Some sh) s1)))])
   \<and> (\<forall>rq e. is_write rq
          \<and> (rq, Inl e) \<in> set (snd (snd (commitFile (logged api) cfg p c m (s, []))))
        \<longrightarrow> fst (commitFile (logged api) cfg p c m (s, []))
              = Inl (Error (''Failed to commit file: '' @ p)))"
proof (intro conjI allI impI)
  fix e assume "fst (commitFile (logged api) cfg p c m (s, [])) = Inl e"
  then show "e = Error (''Failed to commit file: '' @ p)" by (rule commitFile_error)
next
  show "fst (commitFile (logged api) cfg p c m (s, [])) = fst (commitFile api cfg p c m s)"
    by (rule commitFile_logged_transparent [THEN conjunct1])
next
  show "fst (snd (commitFile (logged api) cfg p c m (s, []))) = snd (commitFile api cfg p c m s)"
    by (rule commitFile_logged_transparent [THEN conjunct2])
next
  show "snd (snd (commitFile (logged api) cfg p c m (s, []))) \<noteq> []"
    by (rule commitFile_reads_first [THEN conjunct1])
next
  show "fst (hd (snd (snd (commitFile (logged api) cfg p c m (s, [])))))
       = GetContent (owner cfg) (repo cfg) p (or_else (branch cfg) ''main'')"
    by (rule commitFile_reads_first [THEN conjunct2])
next
  show "length (filter (\<lambda>x. is_write (fst x))
         (snd (snd (commitFile (logged api) cfg p c m (s, []))))) \<le> 1"
    by (rule commitFile_one_write)
next
  fix x s1
  assume "repos_getContent api (owner cfg) (repo cfg) p (or_else (branch cfg) ''main'') s
                = (Inl (RequestError 404 x), s1)"
  then show "snd (snd (commitFile (logged api) cfg p c m (s, []))) =
             [(GetContent (owner cfg) (repo cfg) p (or_else (branch cfg) ''main''),
               Inl (RequestError 404 x)),
              (CreateOrUpdateFileContents (owner cfg) (repo cfg) p m (Base64 c)
                 (or_else (branch cfg) ''main'') None,
               map_sum id (\<lambda>u. Done)
                 (fst (repos_createOrUpdateFileContents api (owner cfg) (repo cfg) p m (Base64 c)
                         (or_else (branch cfg) ''main'') None s1)))]"
    by (rule commitFile_absent_creates)
next
  fix b sh s1
  assume h: "repos_getContent api (owner cfg) (repo cfg) p (or_else (branch cfg) ''main'') s
                = (Inr (FileData b sh), s1) \<and> sh \<noteq> []"
  show "snd (snd (commitFile (logged api) cfg p c m (s, []))) =
             [(GetContent (owner cfg) (repo cfg) p (or_else (branch cfg) ''main''),
               Inr (Content (FileData b sh))),
              (CreateOrUpdateFileContents (owner cfg) (repo cfg) p m (Base64 c)
                 (or_else (branch cfg) ''main'') (Some sh),
               map_sum id (\<lambda>u. Done)
                 (fst (repos_createOrUpdateFileContents api (owner cfg) (repo cfg) p m (Base64 c)
                         (or_else (branch cfg) ''main'') (Some sh) s1)))]"
    by (rule commitFile_present_carries_sha [OF h [THEN conjunct1] h [THEN conjunct2]])
next
  fix rq e
  assume h: "is_write rq
          \<and> (rq, Inl e) \<in> set (snd (snd (commitFile (logged api) cfg p c m (s, []))))"
  show "fst (commitFile (logged api) cfg p c m (s, []))
              = Inl (Error (''Failed to commit file: '' @ p))"
    by (rule commitFile_rejected_write [OF h [THEN conjunct1] h [THEN conjunct2]])
qed

text \<open>
  The theorem on the example repository, for a new path and for an existing file.
\<close>

theorem commitFile_protocol_witness:
  "snd (snd (commitFile (logged (github alone healthy)) example_config ''content/new.md'' ''N'' ''add''
               (example_store, [])))
     = [(GetContent ''acme'' ''site'' ''content/new.md'' ''main'', Inl (RequestError 404 ''Not Found'')),
        (CreateOrUpdateFileContents ''acme'' ''site'' ''content/new.md'' ''add'' (Base64 ''N'') ''main'' None,
         Inr Done)]
   \<and> snd (snd (commitFile (logged (github alone healthy)) example_config ''content/a.md'' ''N'' ''edit''
               (example_store, [])))
     = [(GetContent ''acme'' ''site'' ''content/a.md'' ''main'',
         Inr (Content (FileData (Base64 ''old'') ''bold''))),
        (CreateOrUpdateFileContents ''acme'' ''site'' ''content/a.md'' ''edit'' (Base64 ''N'') ''main''
           (Some ''bold''),
         Inr Done)]"
proof -
  let ?served = "example_store \<lparr> remote_served := 1 \<rparr>"
  have absent: "repos_getContent (github alone healthy) (owner example_config) (repo example_config)
                ''content/new.md'' (or_else (branch example_config) ''main'') example_store
      = (Inl (RequestError 404 ''Not Found''), ?served)"
    by code_simp
  have present: "repos_getContent (github alone healthy) (owner example_config) (repo example_config)
                ''content/a.md'' (or_else (branch example_config) ''main'') example_store
      = (Inr (FileData (Base64 ''old'') ''bold''), ?served) \<and> ''bold'' \<noteq> []"
    by code_simp
  have w1: "map_sum id (\<lambda>u. Done)
       (fst (repos_createOrUpdateFileContents (github alone healthy) (owner example_config)
          (repo example_config) ''content/new.md'' ''add'' (Base64 ''N'')
          (or_else (branch example_config) ''main'') None ?served)) = Inr Done"
    by code_simp
  have w2: "map_sum id (\<lambda>u. Done)
       (fst (repos_createOrUpdateFileContents (github alone healthy) (owner example_config)
          (repo example_config) ''content/a.md'' ''edit'' (Base64 ''N'')
          (or_else (branch example_config) ''main'') (Some ''bold'') ?served)) = Inr Done"
    by code_simp
  have c: "owner example_config = ''acme''" "repo example_config = ''site''"
    "or_else (branch example_config) ''main'' = ''main''"
    by (simp_all add: example_config_def or_else_def)
  note t1 = commitFile_protocol [of "github alone healthy" example_config "''content/new.md''" "''N''"
      "''add''" example_store]
  note t2 = commitFile_protocol [of "github alone healthy" example_config "''content/a.md''" "''N''"
      "''edit''" example_store]
  from t1 have a: "snd (snd (commitFile (logged (github alone healthy)) example_config ''content/new.md'' ''N'' ''add''
               (example_store, [])))
     = [(GetContent ''acme'' ''site'' ''content/new.md'' ''main'', Inl (RequestError 404 ''Not Found'')),
        (CreateOrUpdateFileContents ''acme'' ''site'' ''content/new.md'' ''add'' (Base64 ''N'') ''main'' None,
         Inr Done)]"
    using absent w1 by (simp add: c)
  from t2 have b: "snd (snd (commitFile (logged (github alone healthy)) example_config ''content/a.md'' ''N'' ''edit''
               (example_store, [])))
     = [(GetContent ''acme'' ''site'' ''content/a.md'' ''main'',
         Inr (Content (FileData (Base64 ''old'') ''bold''))),
        (CreateOrUpdateFileContents ''acme'' ''site'' ''content/a.md'' ''edit'' (Base64 ''N'') ''main''
           (Some ''bold''),
         Inr Done)]"
    using present w2 by (simp add: c)
  from a b show ?thesis by (rule conjI)
qed

subsection \<open>The empty batch\<close>

lemma commitMultipleFiles_error:
  "fst (commitMultipleFiles api cfg fs m s) = Inl e \<Longrightarrow> e = Error ''Failed to commit multiple files''"
  unfolding commitMultipleFiles_def try_catch_def reject_def
  by (simp split: prod.splits sum.splits)

lemma publish_POST_empty:
  "drafts b = None \<or> drafts b = Some [] \<Longrightarrow>
   publish_POST env new_Octokit dm gf te (Inr (JsonFields b)) s =
     (Inr \<lparr> status = 400,
            body = JObject [(''error'', JString ''Drafts array is required and must not be empty'')] \<rparr>, s)"
  by (auto simp add: publish_POST_def destructure_def promise_defs bad_request_def Let_def)

lemma publish_POST_null:
  "publish_POST env new_Octokit dm gf te (Inr JsonNull) s =
     (Inr \<lparr> status = 500,
            body = JObject [(''error'', JString ''Failed to publish drafts to GitHub''),
                            (''details'', JString (error_message te))] \<rparr>, s)"
  by (simp add: publish_POST_def destructure_def promise_defs failure_def)

lemma commitMultipleFiles_empty_writes:
  assumes "git_getRef api (owner cfg) (repo cfg) (''heads/'' @ or_else (branch cfg) ''main'') s = (Inr ref, s1)"
    and "git_getCommit api (owner cfg) (repo cfg) ref s1 = (Inr commit, s2)"
  shows "(CreateTree (owner cfg) (repo cfg) (commit_tree_sha commit) [],
          map_sum id Sha (fst (git_createTree api (owner cfg) (repo cfg) (commit_tree_sha commit) [] s2)))
         \<in> set (snd (snd (commitMultipleFiles (logged api) cfg [] m (s, []))))"
  using assms
  by (simp add: commitMultipleFiles_def logged_def recorded_def promise_defs
      split: prod.splits sum.splits)

text \<open>
  Against claim C2 as stated. With an empty list and a healthy store,
  \<open>commitMultipleFiles\<close> succeeds: it issues a create-tree with no entries, a
  create-commit and an update-ref, and the branch moves from \<^verbatim>\<open>c\<close> to the new commit.
\<close>

theorem commitMultipleFiles_empty_counterexample:
  "fst (commitMultipleFiles (logged (github alone healthy)) example_config [] ''empty''
          (example_store, [])) = Inr ()
   \<and> map fst (snd (snd (commitMultipleFiles (logged (github alone healthy)) example_config []
          ''empty'' (example_store, []))))
      = [GetRef ''acme'' ''site'' ''heads/main'', GetCommit ''acme'' ''site'' ''c'',
         CreateTree ''acme'' ''site'' ''t'' [], CreateCommit ''acme'' ''site'' ''empty'' ''tt'' [''c''],
         UpdateRef ''acme'' ''site'' ''heads/main'' ''cc'']
   \<and> head_of example_store ''heads/main'' = Some ''c''
   \<and> head_of (snd (commitMultipleFiles (github alone healthy) example_config [] ''empty''
          example_store)) ''heads/main'' = Some ''cc''"
  by code_simp

text \<open>
  Claim C2, amended. The empty batch is rejected by the publish route: a request whose
  body is any JSON value other than \<^verbatim>\<open>null\<close> and whose drafts are absent, not an array
  or an empty array is answered with status 400 and
  \<^verbatim>\<open>Drafts array is required and must not be empty\<close>; a request whose body is
  \<^verbatim>\<open>null\<close> fails where the handler destructures it and is answered with status 500 and
  \<^verbatim>\<open>Failed to publish drafts to GitHub\<close>. In both cases no request reaches the store
  (the log and the remote state are unchanged, for every client). \<open>commitMultipleFiles\<close>
  itself has no check for the empty list: once it has read the head it issues a create-tree
  with no entries, and the only error it ever throws is the generic
  \<^verbatim>\<open>Failed to commit multiple files\<close>.
\<close>

theorem empty_batch_rejected_by_route:
  "((drafts b = None \<or> drafts b = Some [])
      \<longrightarrow> publish_POST env (\<lambda>t. logged (new_Octokit t)) dm gf te (Inr (JsonFields b)) (s, log) =
           (Inr \<lparr> status = 400,
                  body = JObject [(''error'',
                           JString ''Drafts array is required and must not be empty'')] \<rparr>,
            (s, log)))
   \<and> publish_POST env (\<lambda>t. logged (new_Octokit t)) dm gf te (Inr JsonNull) (s, log) =
       (Inr \<lparr> status = 500,
              body = JObject [(''error'', JString ''Failed to publish drafts to GitHub''),
                              (''details'', JString (error_message te))] \<rparr>,
        (s, log))
   \<and> (\<forall>e. fst (commitMultipleFiles api cfg [] m s') = Inl e
          \<longrightarrow> e = Error ''Failed to commit multiple files'')
   \<and> (\<forall>ref s1 commit s2.
         git_getRef api (owner cfg) (repo cfg) (''heads/'' @ or_else (branch cfg) ''main'') s'
           = (Inr ref, s1)
         \<and> git_getCommit api (owner cfg) (repo cfg) ref s1 = (Inr commit, s2)
       \<longrightarrow> (CreateTree (owner cfg) (repo cfg) (commit_tree_sha commit) [],
             map_sum id Sha
               (fst (git_createTree api (owner cfg) (repo cfg) (commit_tree_sha commit) [] s2)))
            \<in> set (snd (snd (commitMultipleFiles (logged api) cfg [] m (s', [])))))"
proof (intro conjI allI impI)
  assume "drafts b = None \<or> drafts b = Some []"
  then show "publish_POST env (\<lambda>t. logged (new_Octokit t)) dm gf te (Inr (JsonFields b)) (s, log) =
           (Inr \<lparr> status = 400,
                  body = JObject [(''error'',
                           JString ''Drafts array is required and must not be empty'')] \<rparr>,
            (s, log))"
    by (rule publish_POST_empty)
next
  show "publish_POST env (\<lambda>t. logged (new_Octokit t)) dm gf te (Inr JsonNull) (s, log) =
       (Inr \<lparr> status = 500,
              body = JObject [(''error'', JString ''Failed to publish drafts to GitHub''),
                              (''details'', JString (error_message te))] \<rparr>,
        (s, log))"
    by (rule publish_POST_null)
next
  fix e assume "fst (commitMultipleFiles api cfg [] m s') = Inl e"
  then show "e = Error ''Failed to commit multiple files''" by (rule commitMultipleFiles_error)
next
  fix ref s1 commit s2
  assume h: "git_getRef api (owner cfg) (repo cfg) (''heads/'' @ or_else (branch cfg) ''main'') s'
           = (Inr ref, s1)
         \<and> git_getCommit api (owner cfg) (repo cfg) ref s1 = (Inr commit, s2)"
  show "(CreateTree (owner cfg) (repo cfg) (commit_tree_sha commit) [],
             map_sum id Sha
               (fst (git_createTree api (owner cfg) (repo cfg) (commit_tree_sha commit) [] s2)))
            \<in> set (snd (snd (commitMultipleFiles (logged api) cfg [] m (s', []))))"
    by (rule commitMultipleFiles_empty_writes [OF h [THEN conjunct1] h [THEN conjunct2]])
qed

text \<open>
  The route at a request with an empty array of drafts, and at a request whose body is
  \<^verbatim>\<open>null\<close>.
\<close>

theorem empty_batch_rejected_by_route_witness:
  "publish_POST good_env (\<lambda>t. logged (github alone healthy)) (\<lambda>d. Inr (draft_body d))
       (\<lambda>d dir. Inr (dir @ ''/'' @ draft_title d @ ''.md'')) null_body_error
       (Inr (JsonFields \<lparr> drafts = Some [], directory = None \<rparr>)) (example_store, []) =
     (Inr \<lparr> status = 400,
            body = JObject [(''error'',
                     JString ''Drafts array is required and must not be empty'')] \<rparr>,
      (example_store, []))
   \<and> publish_POST good_env (\<lambda>t. logged (github alone healthy)) (\<lambda>d. Inr (draft_body d))
       (\<lambda>d dir. Inr (dir @ ''/'' @ draft_title d @ ''.md'')) null_body_error
       (Inr JsonNull) (example_store, []) =
     (Inr \<lparr> status = 500,
            body = JObject [(''error'', JString ''Failed to publish drafts to GitHub''),
                            (''details'', JString (error_message null_body_error))] \<rparr>,
      (example_store, []))"
proof -
  have h: "drafts \<lparr> drafts = Some [], directory = None \<rparr> = None
           \<or> drafts \<lparr> drafts = Some [], directory = None \<rparr> = Some []"
    by simp
  note t = empty_batch_rejected_by_route [where b = "\<lparr> drafts = Some [], directory = None \<rparr>"
      and env = good_env and new_Octokit = "\<lambda>t. github alone healthy"
      and dm = "\<lambda>d. Inr (draft_body d)"
      and gf = "\<lambda>d dir. Inr (dir @ ''/'' @ draft_title d @ ''.md'')"
      and te = null_body_error and s = example_store and log = "[]"]
  show ?thesis
    by (rule conjI [OF t [THEN conjunct1, THEN mp, OF h] t [THEN conjunct2, THEN conjunct1]])
qed

section \<open>The batch commit\<close>

subsection \<open>The requests it issues, for every client\<close>

lemma await_cases:
  assumes "await p k s = (r, s')"
  obtains (rejected) e where "p s = (Inl e, s')" "r = Inl e"
        | (resolved) a s1 where "p s = (Inr a, s1)" "k a s1 = (r, s')"
  using assms by (auto simp: await_def split: prod.splits sum.splits)

lemma recorded_run:
  "recorded rq wrap p (s, log) = (r, st) \<Longrightarrow>
     \<exists>s'. p s = (r, s') \<and> st = (s', log @ [(rq, map_sum id wrap r)])"
  by (auto simp: recorded_def split: prod.splits)

lemma blob_step:
  "await (recorded rq Sha g) (\<lambda>blob. resolve (F blob)) (s, log) = (r1, (s1, log1)) \<Longrightarrow>
     \<exists>b0. log1 = log @ [(rq, map_sum id Sha b0)]
        \<and> r1 = (case b0 of Inl e \<Rightarrow> Inl e | Inr blob \<Rightarrow> Inr (F blob))"
  by (auto simp: await_def resolve_def recorded_def split: prod.splits sum.splits)

lemma promise_all_Cons:
  "promise_all (p # ps) s = (r, s') \<Longrightarrow>
     \<exists>r1 s1 rs. p s = (r1, s1) \<and> promise_all ps s1 = (rs, s')
        \<and> r = (case r1 of Inl e \<Rightarrow> Inl e
                 | Inr a \<Rightarrow> (case rs of Inl e \<Rightarrow> Inl e | Inr as \<Rightarrow> Inr (a # as)))"
  by (auto split: prod.splits)

lemma blob_loop_logged:
  "promise_all (map (\<lambda>file. await (recorded (CreateBlob ow rp (Base64 (content file)) enc) Sha (gb file))
                               (\<lambda>blob. resolve (E file blob))) files) (s, log) = (r, (s', log'))
   \<Longrightarrow> \<exists>xs. log' = log @ xs \<and> no_ref_update xs
         \<and> (\<forall>entries. r = Inr entries \<longrightarrow>
               (\<exists>ids. length ids = length files \<and> entries = map2 E files ids
                  \<and> xs = map2 (\<lambda>f b. (CreateBlob ow rp (Base64 (content f)) enc, Inr (Sha b))) files ids))"
proof (induction files arbitrary: s log r s' log')
  case Nil
  then have "log' = log" "r = Inr []" by simp_all
  then show ?case by (simp add: no_ref_update_def)
next
  case (Cons f fs)
  let ?ps = "map (\<lambda>file. await (recorded (CreateBlob ow rp (Base64 (content file)) enc) Sha (gb file))
                               (\<lambda>blob. resolve (E file blob))) fs"
  let ?x = "\<lambda>b0. (CreateBlob ow rp (Base64 (content f)) enc, map_sum id Sha b0)"
  from Cons.prems have "promise_all (await (recorded (CreateBlob ow rp (Base64 (content f)) enc) Sha (gb f))
                               (\<lambda>blob. resolve (E f blob)) # ?ps) (s, log) = (r, (s', log'))"
    by simp
  from promise_all_Cons [OF this] obtain r1 st1 rs where
    p: "await (recorded (CreateBlob ow rp (Base64 (content f)) enc) Sha (gb f))
                               (\<lambda>blob. resolve (E f blob)) (s, log) = (r1, st1)"
    and ps: "promise_all ?ps st1 = (rs, (s', log'))"
    and r: "r = (case r1 of Inl e \<Rightarrow> Inl e
                 | Inr a \<Rightarrow> (case rs of Inl e \<Rightarrow> Inl e | Inr as \<Rightarrow> Inr (a # as)))"
    by blast
  obtain s1 log1 where st1: "st1 = (s1, log1)" by (cases st1)
  from blob_step [OF p [unfolded st1]] obtain b0 where
    log1: "log1 = log @ [?x b0]"
    and r1: "r1 = (case b0 of Inl e \<Rightarrow> Inl e | Inr blob \<Rightarrow> Inr (E f blob))"
    by blast
  from Cons.IH [OF ps [unfolded st1]] obtain xs where xs: "log' = log1 @ xs" "no_ref_update xs"
    and ent: "\<forall>entries. rs = Inr entries \<longrightarrow>
               (\<exists>ids. length ids = length fs \<and> entries = map2 E fs ids
                  \<and> xs = map2 (\<lambda>f b. (CreateBlob ow rp (Base64 (content f)) enc, Inr (Sha b))) fs ids)"
    by blast
  have l: "log' = log @ (?x b0 # xs)" using xs(1) log1 by simp
  have n: "no_ref_update (?x b0 # xs)" using xs(2) by (simp add: no_ref_update_def is_ref_update_def)
  have e: "\<forall>entries. r = Inr entries \<longrightarrow>
               (\<exists>ids. length ids = length (f # fs) \<and> entries = map2 E (f # fs) ids
                  \<and> ?x b0 # xs = map2 (\<lambda>f b. (CreateBlob ow rp (Base64 (content f)) enc, Inr (Sha b))) (f # fs) ids)"
  proof (intro allI impI)
    fix entries assume re: "r = Inr entries"
    from re r obtain a as where r1a: "r1 = Inr a" and rs: "rs = Inr as" and en: "entries = a # as"
      by (cases r1; cases rs) simp_all
    from r1a r1 obtain blob where b0: "b0 = Inr blob" and a: "a = E f blob"
      by (cases b0) simp_all
    from ent rs obtain ids where ids: "length ids = length fs" "as = map2 E fs ids"
      "xs = map2 (\<lambda>f b. (CreateBlob ow rp (Base64 (content f)) enc, Inr (Sha b))) fs ids"
      by blast
    show "\<exists>ids. length ids = length (f # fs) \<and> entries = map2 E (f # fs) ids
                  \<and> ?x b0 # xs = map2 (\<lambda>f b. (CreateBlob ow rp (Base64 (content f)) enc, Inr (Sha b))) (f # fs) ids"
      by (rule exI [of _ "blob # ids"]) (simp add: ids en b0 a)
  qed
  show ?case
    by (rule exI [of _ "?x b0 # xs"]) (intro conjI l n e)
qed

lemma try_catch_reject_cases:
  "try_catch p (\<lambda>e. reject E) s = (r, s') \<Longrightarrow>
     \<exists>rb. p s = (rb, s') \<and> r = (case rb of Inl e \<Rightarrow> Inl E | Inr a \<Rightarrow> Inr a)"
  by (auto simp: try_catch_def reject_def split: prod.splits sum.splits)

lemma logged_simps:
  "git_getRef (logged api) ow rp ref = recorded (GetRef ow rp ref) Sha (git_getRef api ow rp ref)"
  "git_getCommit (logged api) ow rp c = recorded (GetCommit ow rp c) Commit (git_getCommit api ow rp c)"
  "git_createBlob (logged api) ow rp b enc = recorded (CreateBlob ow rp b enc) Sha (git_createBlob api ow rp b enc)"
  "git_createTree (logged api) ow rp base entries
     = recorded (CreateTree ow rp base entries) Sha (git_createTree api ow rp base entries)"
  "git_createCommit (logged api) ow rp m t ps
     = recorded (CreateCommit ow rp m t ps) Sha (git_createCommit api ow rp m t ps)"
  "git_updateRef (logged api) ow rp ref c
     = recorded (UpdateRef ow rp ref c) (\<lambda>u. Done) (git_updateRef api ow rp ref c)"
  by (simp_all add: logged_def)

lemma no_ref_update_append:
  "no_ref_update (xs @ ys) = (no_ref_update xs \<and> no_ref_update ys)"
  by (simp add: no_ref_update_def)

lemma no_ref_update_single:
  "no_ref_update [(rq, a)] = (\<not> is_ref_update rq)"
  by (simp add: no_ref_update_def)

lemma no_ref_update_Nil: "no_ref_update []"
  by (simp add: no_ref_update_def)

lemma no_ref_update_Cons:
  "no_ref_update (x # xs) = (\<not> is_ref_update (fst x) \<and> no_ref_update xs)"
  by (simp add: no_ref_update_def)

lemma trace_shape:
  assumes run: "commitMultipleFiles (logged api) cfg files m (s, []) = (r, (s', log))"
  shows "(r = Inl (Error ''Failed to commit multiple files'') \<and> no_ref_update log)
       \<or> (\<exists>ref commit ids tree newCommit (w :: js_error + unit).
            length ids = length files
          \<and> log = [(GetRef (owner cfg) (repo cfg) (''heads/'' @ or_else (branch cfg) ''main''), Inr (Sha ref)),
                   (GetCommit (owner cfg) (repo cfg) ref, Inr (Commit commit))]
                  @ map2 (\<lambda>f b. (CreateBlob (owner cfg) (repo cfg) (Base64 (content f)) ''base64'',
                                   Inr (Sha b))) files ids
                  @ [(CreateTree (owner cfg) (repo cfg) (commit_tree_sha commit)
                        (map2 (\<lambda>f b. \<lparr> entry_path = name f, entry_mode = ''100644'',
                                        entry_type = ''blob'', entry_sha = b \<rparr>) files ids),
                      Inr (Sha tree)),
                     (CreateCommit (owner cfg) (repo cfg) m tree [commit_sha commit], Inr (Sha newCommit)),
                     (UpdateRef (owner cfg) (repo cfg) (''heads/'' @ or_else (branch cfg) ''main'') newCommit,
                      map_sum id (\<lambda>u. Done) w)]
          \<and> r = (case w of Inl e \<Rightarrow> Inl (Error ''Failed to commit multiple files'') | Inr u \<Rightarrow> Inr ()))"
    (is "?fail \<or> ?reached")
proof -
  let ?R = "''heads/'' @ or_else (branch cfg) ''main''"
  let ?E = "\<lambda>f b. \<lparr> entry_path = name f, entry_mode = ''100644'', entry_type = ''blob'', entry_sha = b \<rparr>"
  let ?k5 = "\<lambda>newCommit. git_updateRef (logged api) (owner cfg) (repo cfg) ?R newCommit"
  let ?k4 = "\<lambda>commit tree. await (git_createCommit (logged api) (owner cfg) (repo cfg) m tree [commit_sha commit]) ?k5"
  let ?k3 = "\<lambda>commit blobs. await (git_createTree (logged api) (owner cfg) (repo cfg) (commit_tree_sha commit) blobs) (?k4 commit)"
  let ?loop = "promise_all (map (\<lambda>file. await (git_createBlob (logged api) (owner cfg) (repo cfg)
                                  (Base64 (content file)) ''base64'') (\<lambda>blob. resolve (?E file blob))) files)"
  let ?k2 = "\<lambda>commit. await ?loop (?k3 commit)"
  let ?k1 = "\<lambda>ref. await (git_getCommit (logged api) (owner cfg) (repo cfg) ref) ?k2"
  from run have "try_catch (await (git_getRef (logged api) (owner cfg) (repo cfg) ?R) ?k1)
      (\<lambda>error. reject (Error ''Failed to commit multiple files'')) (s, []) = (r, (s', log))"
    by (simp add: commitMultipleFiles_def)
  from try_catch_reject_cases [OF this] obtain rb where
    body: "await (git_getRef (logged api) (owner cfg) (repo cfg) ?R) ?k1 (s, []) = (rb, (s', log))"
    and r: "r = (case rb of Inl e \<Rightarrow> Inl (Error ''Failed to commit multiple files'') | Inr a \<Rightarrow> Inr a)"
    by blast
  from body show ?thesis
  proof (cases rule: await_cases)
    case (rejected e)
    from recorded_run [OF rejected(1) [unfolded logged_simps]]
    have "no_ref_update log" by (auto simp: no_ref_update_single is_ref_update_def)
    with r rejected(2) show ?thesis by simp
  next
    case (resolved ref st1)
    from recorded_run [OF resolved(1) [unfolded logged_simps]] obtain s1 where
      st1: "st1 = (s1, [(GetRef (owner cfg) (repo cfg) ?R, Inr (Sha ref))])"
      by auto
    from resolved(2) show ?thesis
    proof (cases rule: await_cases)
      case (rejected e)
      from recorded_run [OF rejected(1) [unfolded logged_simps st1]]
      have "no_ref_update log"
        by (auto simp: no_ref_update_def is_ref_update_def)
      with r rejected(2) show ?thesis by simp
    next
      case (resolved commit st2)
      from recorded_run [OF resolved(1) [unfolded logged_simps st1]] obtain s2 where
        st2: "st2 = (s2, [(GetRef (owner cfg) (repo cfg) ?R, Inr (Sha ref)),
                          (GetCommit (owner cfg) (repo cfg) ref, Inr (Commit commit))])"
        by auto
      let ?log2 = "[(GetRef (owner cfg) (repo cfg) ?R, Inr (Sha ref)),
                          (GetCommit (owner cfg) (repo cfg) ref, Inr (Commit commit))]"
      have n2: "no_ref_update ?log2" by (simp add: no_ref_update_def is_ref_update_def)
      from resolved(2) show ?thesis
      proof (cases rule: await_cases)
        case (rejected e)
        from blob_loop_logged [OF rejected(1) [unfolded logged_simps st2]]
        obtain xs where "log = ?log2 @ xs" "no_ref_update xs" by blast
        with n2 have "no_ref_update log" by (simp only: no_ref_update_append)
        with r rejected(2) show ?thesis by simp
      next
        case (resolved blobs st3)
        obtain s3 log3 where st3: "st3 = (s3, log3)" by (cases st3)
        from blob_loop_logged [OF resolved(1) [unfolded logged_simps st2 st3]]
        obtain xs ids where log3: "log3 = ?log2 @ xs" and nx: "no_ref_update xs"
          and ids: "length ids = length files" "blobs = map2 ?E files ids"
            "xs = map2 (\<lambda>f b. (CreateBlob (owner cfg) (repo cfg) (Base64 (content f)) ''base64'',
                                   Inr (Sha b))) files ids"
          by blast
        have n3: "no_ref_update log3" using n2 nx log3 by (simp only: no_ref_update_append)
        from resolved(2) show ?thesis
        proof (cases rule: await_cases)
          case (rejected e)
          from recorded_run [OF rejected(1) [unfolded logged_simps st3]]
          have "log = log3 @ [(CreateTree (owner cfg) (repo cfg) (commit_tree_sha commit) blobs, map_sum id Sha (Inl e))]"
            by auto
          with n3 have "no_ref_update log"
            by (simp add: no_ref_update_append no_ref_update_Cons no_ref_update_Nil is_ref_update_def)
          with r rejected(2) show ?thesis by simp
        next
          case (resolved tree st4)
          from recorded_run [OF resolved(1) [unfolded logged_simps st3]] obtain s4 where
            st4: "st4 = (s4, log3 @ [(CreateTree (owner cfg) (repo cfg) (commit_tree_sha commit) blobs, Inr (Sha tree))])"
            by auto
          let ?log4 = "log3 @ [(CreateTree (owner cfg) (repo cfg) (commit_tree_sha commit) blobs, Inr (Sha tree))]"
          have n4: "no_ref_update ?log4" using n3
            by (simp add: no_ref_update_append no_ref_update_Cons no_ref_update_Nil is_ref_update_def)
          from resolved(2) show ?thesis
          proof (cases rule: await_cases)
            case (rejected e)
            from recorded_run [OF rejected(1) [unfolded logged_simps st4]]
            have "log = ?log4 @ [(CreateCommit (owner cfg) (repo cfg) m tree [commit_sha commit], map_sum id Sha (Inl e))]"
              by auto
            with n4 have "no_ref_update log"
              by (simp add: no_ref_update_append no_ref_update_Cons no_ref_update_Nil is_ref_update_def)
            with r rejected(2) show ?thesis by simp
          next
            case (resolved newCommit st5)
            from recorded_run [OF resolved(1) [unfolded logged_simps st4]] obtain s5 where
              st5: "st5 = (s5, ?log4 @ [(CreateCommit (owner cfg) (repo cfg) m tree [commit_sha commit], Inr (Sha newCommit))])"
              by auto
            from recorded_run [OF resolved(2) [unfolded logged_simps st5]]
            have lg: "log = (?log4 @ [(CreateCommit (owner cfg) (repo cfg) m tree [commit_sha commit], Inr (Sha newCommit))])
                    @ [(UpdateRef (owner cfg) (repo cfg) ?R newCommit, map_sum id (\<lambda>u. Done) rb)]"
              by auto
            have "?reached"
            proof (intro exI conjI)
              show "length ids = length files" by (rule ids(1))
              show "log = [(GetRef (owner cfg) (repo cfg) ?R, Inr (Sha ref)),
                   (GetCommit (owner cfg) (repo cfg) ref, Inr (Commit commit))]
                  @ map2 (\<lambda>f b. (CreateBlob (owner cfg) (repo cfg) (Base64 (content f)) ''base64'',
                                   Inr (Sha b))) files ids
                  @ [(CreateTree (owner cfg) (repo cfg) (commit_tree_sha commit)
                        (map2 ?E files ids), Inr (Sha tree)),
                     (CreateCommit (owner cfg) (repo cfg) m tree [commit_sha commit], Inr (Sha newCommit)),
                     (UpdateRef (owner cfg) (repo cfg) ?R newCommit, map_sum id (\<lambda>u. Done) rb)]"
                by (simp add: lg log3 ids(2,3))
              show "r = (case rb of Inl e \<Rightarrow> Inl (Error ''Failed to commit multiple files'') | Inr u \<Rightarrow> Inr ())"
                by (simp add: r split: sum.splits)
            qed
            then show ?thesis ..
          qed
        qed
      qed
    qed
  qed
qed

subsection \<open>What the store keeps while others write\<close>

lemma commits_kept_refl: "commits_kept s s"
  by (simp add: commits_kept_def)

lemma commits_kept_trans: "commits_kept a b \<Longrightarrow> commits_kept b c \<Longrightarrow> commits_kept a c"
  by (simp add: commits_kept_def)

lemma commits_kept_same: "remote_commits s' = remote_commits s \<Longrightarrow> commits_kept s s'"
  by (simp add: commits_kept_def commit_at_def)

lemma longest_bound: "k \<in> set used \<Longrightarrow> length k \<le> foldr (\<lambda>k n. max (length k) n) used 0"
  by (induction used) auto

lemma fresh_id_fresh: "fresh_id c used \<notin> set used"
proof
  assume "fresh_id c used \<in> set used"
  from longest_bound [OF this] show False by (simp add: fresh_id_def)
qed

lemma commits_kept_fresh:
  assumes "remote_commits s' = (fresh_id c (map fst (remote_commits s)), obj) # remote_commits s"
  shows "commits_kept s s'"
  unfolding commits_kept_def commit_at_def
proof (intro allI impI)
  fix k x assume h: "map_of (remote_commits s) k = Some x"
  then have "(k, x) \<in> set (remote_commits s)" by (rule map_of_SomeD)
  then have "fst (k, x) \<in> fst ` set (remote_commits s)" by (rule imageI)
  then have kin: "k \<in> set (map fst (remote_commits s))" by simp
  have "fresh_id c (map fst (remote_commits s)) \<notin> set (map fst (remote_commits s))"
    by (rule fresh_id_fresh)
  with kin have "k \<noteq> fresh_id c (map fst (remote_commits s))"
    by blast
  with h assms show "map_of (remote_commits s') k = Some x" by simp
qed

lemma quiet_refl: "quiet s s"
  by (simp add: quiet_def commits_kept_refl)

lemma quiet_trans: "quiet a b \<Longrightarrow> quiet b c \<Longrightarrow> quiet a c"
  using commits_kept_trans by (auto simp: quiet_def)

lemma still_refl: "still s s"
  by (simp add: still_def commits_kept_refl)

lemma still_trans: "still a b \<Longrightarrow> still b c \<Longrightarrow> still a c"
  using commits_kept_trans by (auto simp: still_def)

lemma still_quiet: "still a b \<Longrightarrow> quiet a b"
  by (simp add: still_def quiet_def own_moves_def)

lemma getRef_run:
  "store_getRef ref t = (r, t') \<Longrightarrow> t' = t \<and> (\<forall>c. r = Inr c \<longrightarrow> head_of t ref = Some c)"
  by (auto simp: store_getRef_def split: option.splits)

lemma getCommit_run:
  "store_getCommit c t = (r, t') \<Longrightarrow> t' = t \<and> (\<forall>d. r = Inr d \<longrightarrow> commit_sha d = c)"
  by (auto simp: store_getCommit_def split: option.splits)

lemma createBlob_still: "still t (snd (store_createBlob b t))"
  by (simp add: store_createBlob_def still_def commits_kept_same)

lemma createTree_still: "still t (snd (store_createTree base es t))"
  by (simp add: store_createTree_def still_def commits_kept_same commits_kept_refl Let_def
      split: option.splits)

lemma createCommit_still: "still t (snd (store_createCommit m tr ps t))"
  by (simp add: store_createCommit_def still_def commits_kept_fresh commits_kept_refl Let_def)

lemma createCommit_run:
  "store_createCommit m tr ps t = (Inr n, t') \<Longrightarrow>
     commit_at t' n = Some \<lparr> object_tree = tr, object_parents = ps, object_message = m \<rparr>"
  by (auto simp: store_createCommit_def commit_at_def Let_def split: if_splits)

lemma updateRef_run:
  "store_updateRef who ref n t = (r, t') \<Longrightarrow>
     (\<forall>e. r = Inl e \<longrightarrow> t' = t)
     \<and> (r = Inr () \<longrightarrow> (\<exists>cur co. head_of t ref = Some cur \<and> commit_at t n = Some co
            \<and> cur \<in> set (object_parents co) \<and> t' = move_head who ref cur n t))"
  by (auto simp: store_updateRef_def split: option.splits if_splits)

lemma move_head_facts:
  "head_of (move_head who ref cur n t) ref = Some n"
  "commit_at (move_head who ref cur n t) = commit_at t"
  "own_moves (move_head Client ref cur n t)
     = own_moves t @ [\<lparr> moved_by = Client, moved_ref = ref, moved_from = cur, moved_to = n \<rparr>]"
  "own_moves (move_head Other ref cur n t) = own_moves t"
  by (auto simp: move_head_def head_of_def commit_at_def own_moves_def)

lemma move_head_other_quiet: "quiet t (move_head Other ref cur n t)"
  by (simp add: quiet_def move_head_facts commits_kept_def)

lemma quiet_promiseI: "(\<And>s. quiet s (snd (p s))) \<Longrightarrow> quiet_promise p"
  by (simp add: quiet_promise_def)

lemma quiet_promiseD: "quiet_promise p \<Longrightarrow> p s = (r, s') \<Longrightarrow> quiet s s'"
  by (metis quiet_promise_def snd_conv)

lemma quiet_resolve: "quiet_promise (resolve a)"
  by (simp add: quiet_promise_def resolve_def quiet_refl)

lemma quiet_reject: "quiet_promise (reject e)"
  by (simp add: quiet_promise_def reject_def quiet_refl)

lemma quiet_await:
  assumes "quiet_promise p" "\<And>a. quiet_promise (k a)"
  shows "quiet_promise (await p k)"
proof (rule quiet_promiseI)
  fix s
  obtain r s1 where p: "p s = (r, s1)" by (cases "p s")
  from quiet_promiseD [OF assms(1) p] have q1: "quiet s s1" .
  show "quiet s (snd (await p k s))"
  proof (cases r)
    case (Inl e)
    with p q1 show ?thesis by (simp add: await_def)
  next
    case (Inr a)
    obtain r2 s2 where k: "k a s1 = (r2, s2)" by (cases "k a s1")
    from quiet_promiseD [OF assms(2) k] have "quiet s1 s2" .
    with q1 have "quiet s s2" by (rule quiet_trans)
    with p Inr k show ?thesis by (simp add: await_def)
  qed
qed

lemma quiet_try_catch:
  assumes "quiet_promise p" "\<And>e. quiet_promise (h e)"
  shows "quiet_promise (try_catch p h)"
proof (rule quiet_promiseI)
  fix s
  obtain r s1 where p: "p s = (r, s1)" by (cases "p s")
  from quiet_promiseD [OF assms(1) p] have q1: "quiet s s1" .
  show "quiet s (snd (try_catch p h s))"
  proof (cases r)
    case (Inr a)
    with p q1 show ?thesis by (simp add: try_catch_def)
  next
    case (Inl e)
    obtain r2 s2 where k: "h e s1 = (r2, s2)" by (cases "h e s1")
    from quiet_promiseD [OF assms(2) k] have "quiet s1 s2" .
    with q1 have "quiet s s2" by (rule quiet_trans)
    with p Inl k show ?thesis by (simp add: try_catch_def)
  qed
qed

lemma quiet_promise_all_map:
  assumes "\<And>x. quiet_promise (f x)"
  shows "quiet_promise (promise_all (map f xs))"
proof (induction xs)
  case Nil
  show ?case by (simp add: quiet_promise_def quiet_refl)
next
  case (Cons x xs)
  show ?case
  proof (rule quiet_promiseI)
    fix s
    obtain r s1 where p: "f x s = (r, s1)" by (cases "f x s")
    obtain rs s2 where ps: "promise_all (map f xs) s1 = (rs, s2)" by (cases "promise_all (map f xs) s1")
    from quiet_promiseD [OF assms p] quiet_promiseD [OF Cons.IH ps] have "quiet s s2"
      by (rule quiet_trans)
    with p ps show "quiet s (snd (promise_all (map f (x # xs)) s))" by simp
  qed
qed

lemma quiet_getRef: "quiet_promise (store_getRef ref)"
  by (simp add: quiet_promise_def store_getRef_def quiet_refl split: option.splits)

lemma quiet_getCommit: "quiet_promise (store_getCommit c)"
  by (simp add: quiet_promise_def store_getCommit_def quiet_refl split: option.splits)

lemma quiet_getContent: "quiet_promise (store_getContent p ref)"
  by (simp add: quiet_promise_def store_getContent_def quiet_refl split: option.splits)

lemma quiet_createBlob: "quiet_promise (store_createBlob b)"
  by (simp add: quiet_promise_def still_quiet createBlob_still)

lemma quiet_createTree: "quiet_promise (store_createTree base es)"
  by (simp add: quiet_promise_def still_quiet createTree_still)

lemma quiet_createCommit: "quiet_promise (store_createCommit m t ps)"
  by (simp add: quiet_promise_def still_quiet createCommit_still)

lemma quiet_updateRef_other: "quiet_promise (store_updateRef Other ref n)"
  by (simp add: quiet_promise_def store_updateRef_def quiet_refl move_head_other_quiet
      split: option.splits)

lemma quiet_createOrUpdate_other:
  "quiet_promise (store_createOrUpdateFileContents Other p m b br sh)"
proof (rule quiet_promiseI)
  fix s
  show "quiet s (snd (store_createOrUpdateFileContents Other p m b br sh s))"
  proof (cases "\<exists>cur t. head_of s (''heads/'' @ br) = Some cur \<and> head_tree s (''heads/'' @ br) = Some t
                  \<and> map_of t p = sh")
    case False
    then have "snd (store_createOrUpdateFileContents Other p m b br sh s) = s"
      by (auto simp: store_createOrUpdateFileContents_def split: option.splits)
    then show ?thesis by (simp add: quiet_refl)
  next
    case True
    then obtain cur t where h: "head_of s (''heads/'' @ br) = Some cur"
      "head_tree s (''heads/'' @ br) = Some t" "map_of t p = sh" by blast
    let ?s1 = "s \<lparr> remote_blobs := List.insert (from_base64 b) (remote_blobs s) \<rparr>"
    let ?tree = "fresh_id CHR ''t'' (map fst (remote_trees ?s1))"
    let ?s2 = "?s1 \<lparr> remote_trees := (?tree, (p, blob_id (from_base64 b)) # t) # remote_trees ?s1 \<rparr>"
    let ?commit = "fresh_id CHR ''c'' (map fst (remote_commits ?s2))"
    let ?s3 = "?s2 \<lparr> remote_commits :=
                 (?commit, \<lparr> object_tree = ?tree, object_parents = [cur], object_message = m \<rparr>)
                 # remote_commits ?s2 \<rparr>"
    have res: "snd (store_createOrUpdateFileContents Other p m b br sh s)
          = move_head Other (''heads/'' @ br) cur ?commit ?s3"
      using h by (simp add: store_createOrUpdateFileContents_def Let_def)
    have k: "commits_kept s ?s3"
      by (rule commits_kept_fresh [where c = "CHR ''c''"]) simp
    have "own_moves ?s3 = own_moves s" by (simp add: own_moves_def)
    with k have "quiet s ?s3" by (simp add: quiet_def)
    from this move_head_other_quiet have "quiet s (move_head Other (''heads/'' @ br) cur ?commit ?s3)"
      by (rule quiet_trans)
    with res show ?thesis by simp
  qed
qed

lemma quiet_rival_commit: "quiet_promise (commitMultipleFiles (direct Other) cfg files m)"
  unfolding commitMultipleFiles_def
  by (intro quiet_try_catch quiet_await quiet_promise_all_map quiet_reject quiet_resolve)
     (simp_all add: direct_def quiet_getRef quiet_getCommit quiet_createBlob quiet_createTree
        quiet_createCommit quiet_updateRef_other)

lemma quiet_getFileSha_other: "quiet_promise (getFileSha (direct Other) cfg p)"
  unfolding getFileSha_def
  by (intro quiet_try_catch quiet_await)
     (simp_all add: direct_def quiet_getContent quiet_resolve quiet_reject
        split: content_data.splits js_error.splits)

lemma quiet_rival_put: "quiet_promise (commitFile (direct Other) cfg p c m)"
  unfolding commitFile_def
  by (intro quiet_try_catch quiet_await quiet_getFileSha_other quiet_reject)
     (simp_all add: direct_def quiet_createOrUpdate_other)

lemma quiet_run_rival: "quiet s (run_rival w s)"
proof (cases w)
  case (RivalCommit cfg files m)
  obtain r s' where "commitMultipleFiles (direct Other) cfg files m s = (r, s')"
    by (cases "commitMultipleFiles (direct Other) cfg files m s")
  with quiet_promiseD [OF quiet_rival_commit this] RivalCommit show ?thesis by simp
next
  case (RivalPut cfg p c m)
  obtain r s' where "commitFile (direct Other) cfg p c m s = (r, s')"
    by (cases "commitFile (direct Other) cfg p c m s")
  with quiet_promiseD [OF quiet_rival_put this] RivalPut show ?thesis by simp
qed

lemma quiet_rivals: "quiet s (fold run_rival ws s)"
proof (induction ws arbitrary: s)
  case Nil
  show ?case by (simp add: quiet_refl)
next
  case (Cons w ws)
  from quiet_run_rival [of s w] Cons.IH [of "run_rival w s"]
  have "quiet s (fold run_rival ws (run_rival w s))" by (rule quiet_trans)
  then show ?case by simp
qed

lemma quiet_arrive: "quiet s (arrive sched s)"
proof -
  have "quiet (fold run_rival (sched (remote_served s)) s)
          ((fold run_rival (sched (remote_served s)) s) \<lparr> remote_served := Suc (remote_served s) \<rparr>)"
    by (simp add: quiet_def own_moves_def commits_kept_same)
  with quiet_rivals [of s "sched (remote_served s)"] show ?thesis
    unfolding arrive_def by (rule quiet_trans)
qed

lemma still_arrive_alone: "still s (arrive alone s)"
  by (simp add: arrive_def alone_def still_def commits_kept_same)

lemma serve_run:
  "serve sched fault op s = (r, s') \<Longrightarrow>
     (\<exists>e. r = Inl e \<and> s' = arrive sched s) \<or> op (arrive sched s) = (r, s')"
  by (auto simp: serve_def split: option.splits)

subsection \<open>The batch commit against the store\<close>

lemma github_simps:
  "git_getRef (github sched fault) ow rp ref = serve sched fault (store_getRef ref)"
  "git_getCommit (github sched fault) ow rp c = serve sched fault (store_getCommit c)"
  "git_createBlob (github sched fault) ow rp b enc = serve sched fault (store_createBlob b)"
  "git_createTree (github sched fault) ow rp base entries
     = serve sched fault (store_createTree base entries)"
  "git_createCommit (github sched fault) ow rp m t ps = serve sched fault (store_createCommit m t ps)"
  "git_updateRef (github sched fault) ow rp ref c = serve sched fault (store_updateRef Client ref c)"
  by (simp_all add: github_def)

lemma preserved_refl: "preserved sched Q \<Longrightarrow> Q a a"
  by (simp add: preserved_def)

lemma preserved_trans: "preserved sched Q \<Longrightarrow> Q a b \<Longrightarrow> Q b c \<Longrightarrow> Q a c"
  unfolding preserved_def by blast

lemma preserved_kept: "preserved sched Q \<Longrightarrow> Q a b \<Longrightarrow> commits_kept a b"
  unfolding preserved_def by blast

lemma preserved_arrive: "preserved sched Q \<Longrightarrow> Q a (arrive sched a)"
  by (simp add: preserved_def)

lemma preserved_blob: "preserved sched Q \<Longrightarrow> \<forall>a. Q a (snd (store_createBlob b a))"
  by (simp add: preserved_def)

lemma preserved_tree: "preserved sched Q \<Longrightarrow> \<forall>a. Q a (snd (store_createTree base es a))"
  by (simp add: preserved_def)

lemma preserved_commit: "preserved sched Q \<Longrightarrow> \<forall>a. Q a (snd (store_createCommit m t ps a))"
  by (simp add: preserved_def)

lemma preserved_getRef: "preserved sched Q \<Longrightarrow> \<forall>a. Q a (snd (store_getRef ref a))"
  by (simp add: preserved_def store_getRef_def split: option.splits)

lemma preserved_getCommit: "preserved sched Q \<Longrightarrow> \<forall>a. Q a (snd (store_getCommit c a))"
  by (simp add: preserved_def store_getCommit_def split: option.splits)

lemma preserved_quiet: "preserved sched quiet"
  unfolding preserved_def
  using quiet_refl quiet_trans quiet_arrive createBlob_still createTree_still createCommit_still
    still_quiet
  by (auto simp: quiet_def)

lemma preserved_still: "preserved alone still"
  unfolding preserved_def
  using still_refl still_trans still_arrive_alone createBlob_still createTree_still
    createCommit_still
  by (auto simp: still_def)

lemma served_step:
  assumes inv: "preserved sched Q"
    and Qop: "\<forall>a. Q a (snd (op a))"
    and run: "serve sched fault op s = (r, s')"
  shows "Q s s'"
proof -
  from serve_run [OF run] show ?thesis
  proof
    assume "\<exists>e. r = Inl e \<and> s' = arrive sched s"
    then show ?thesis using preserved_arrive [OF inv] by auto
  next
    assume o: "op (arrive sched s) = (r, s')"
    from Qop o have "Q (arrive sched s) s'" by (metis snd_conv)
    with preserved_arrive [OF inv, of s] show ?thesis by (rule preserved_trans [OF inv])
  qed
qed

lemma served_blobs:
  assumes inv: "preserved sched Q"
  shows "promise_all (map (\<lambda>file. await (serve sched fault (store_createBlob (B file)))
                                     (\<lambda>blob. resolve (E file blob))) files) s = (r, s')
         \<Longrightarrow> Q s s'"
proof (induction files arbitrary: s r s')
  case Nil
  then show ?case using preserved_refl [OF inv] by simp
next
  case (Cons f fs)
  let ?ps = "map (\<lambda>file. await (serve sched fault (store_createBlob (B file)))
                                     (\<lambda>blob. resolve (E file blob))) fs"
  from Cons.prems have "promise_all (await (serve sched fault (store_createBlob (B f)))
                                     (\<lambda>blob. resolve (E f blob)) # ?ps) s = (r, s')"
    by simp
  from promise_all_Cons [OF this] obtain r1 s1 rs where
    p: "await (serve sched fault (store_createBlob (B f))) (\<lambda>blob. resolve (E f blob)) s = (r1, s1)"
    and ps: "promise_all ?ps s1 = (rs, s')"
    by blast
  from p obtain b0 where "serve sched fault (store_createBlob (B f)) s = (b0, s1)"
    by (auto simp: await_def resolve_def split: prod.splits sum.splits)
  from served_step [OF inv preserved_blob [OF inv] this]
  have "Q s s1" .
  from this Cons.IH [OF ps] show ?case by (rule preserved_trans [OF inv])
qed

lemma model_run:
  assumes inv: "preserved sched Q"
    and run: "commitMultipleFiles (github sched fault) cfg files m s = (r, s')"
  shows "(r = Inl (Error ''Failed to commit multiple files'') \<and> Q s s')
       \<or> (r = Inr () \<and> (\<exists>H N t tree.
             head_of (arrive sched s) (''heads/'' @ or_else (branch cfg) ''main'') = Some H
           \<and> Q s t
           \<and> head_of t (''heads/'' @ or_else (branch cfg) ''main'') = Some H
           \<and> commit_at t N = Some \<lparr> object_tree = tree, object_parents = [H], object_message = m \<rparr>
           \<and> s' = move_head Client (''heads/'' @ or_else (branch cfg) ''main'') H N t))"
    (is "?fail \<or> ?moved")
proof -
  let ?R = "''heads/'' @ or_else (branch cfg) ''main''"
  let ?E = "\<lambda>f b. \<lparr> entry_path = name f, entry_mode = ''100644'', entry_type = ''blob'', entry_sha = b \<rparr>"
  let ?k5 = "\<lambda>newCommit. git_updateRef (github sched fault) (owner cfg) (repo cfg) ?R newCommit"
  let ?k4 = "\<lambda>commit tree. await (git_createCommit (github sched fault) (owner cfg) (repo cfg) m tree [commit_sha commit]) ?k5"
  let ?k3 = "\<lambda>commit blobs. await (git_createTree (github sched fault) (owner cfg) (repo cfg) (commit_tree_sha commit) blobs) (?k4 commit)"
  let ?loop = "promise_all (map (\<lambda>file. await (git_createBlob (github sched fault) (owner cfg) (repo cfg)
                                  (Base64 (content file)) ''base64'') (\<lambda>blob. resolve (?E file blob))) files)"
  let ?k2 = "\<lambda>commit. await ?loop (?k3 commit)"
  let ?k1 = "\<lambda>ref. await (git_getCommit (github sched fault) (owner cfg) (repo cfg) ref) ?k2"
  note step = served_step [OF inv]
  note Qtrans = preserved_trans [OF inv]
  note Qarrive = preserved_arrive [OF inv]
  note Qkept = preserved_kept [OF inv]
  note Qtree = preserved_tree [OF inv]
  note Qcommit = preserved_commit [OF inv]
  from run have "try_catch (await (git_getRef (github sched fault) (owner cfg) (repo cfg) ?R) ?k1)
      (\<lambda>error. reject (Error ''Failed to commit multiple files'')) s = (r, s')"
    by (simp add: commitMultipleFiles_def)
  from try_catch_reject_cases [OF this] obtain rb where
    body: "await (git_getRef (github sched fault) (owner cfg) (repo cfg) ?R) ?k1 s = (rb, s')"
    and r: "r = (case rb of Inl e \<Rightarrow> Inl (Error ''Failed to commit multiple files'') | Inr a \<Rightarrow> Inr a)"
    by blast
  note same = preserved_getRef [OF inv] preserved_getCommit [OF inv]
  from body show ?thesis
  proof (cases rule: await_cases)
    case (rejected e)
    from step [OF same(1) rejected(1) [unfolded github_simps]] have "Q s s'" .
    with r rejected(2) show ?thesis by simp
  next
    case (resolved ref s1)
    from serve_run [OF resolved(1) [unfolded github_simps]]
    have o1: "store_getRef ?R (arrive sched s) = (Inr ref, s1)" by auto
    from getRef_run [OF o1] have s1: "s1 = arrive sched s" and H: "head_of (arrive sched s) ?R = Some ref"
      by auto
    have q1: "Q s s1" using s1 Qarrive by simp
    from resolved(2) show ?thesis
    proof (cases rule: await_cases)
      case (rejected e)
      from step [OF same(2) rejected(1) [unfolded github_simps]] have "Q s1 s'" .
      with q1 have "Q s s'" by (rule Qtrans)
      with r rejected(2) show ?thesis by simp
    next
      case (resolved commit s2)
      from step [OF same(2) resolved(1) [unfolded github_simps]] have "Q s1 s2" .
      with q1 have q2: "Q s s2" by (rule Qtrans)
      from serve_run [OF resolved(1) [unfolded github_simps]]
      have "store_getCommit ref (arrive sched s1) = (Inr commit, s2)" by auto
      from getCommit_run [OF this] have cs: "commit_sha commit = ref" by auto
      from resolved(2) show ?thesis
      proof (cases rule: await_cases)
        case (rejected e)
        from served_blobs [OF inv rejected(1) [unfolded github_simps]]
        have "Q s2 s'" .
        with q2 have "Q s s'" by (rule Qtrans)
        with r rejected(2) show ?thesis by simp
      next
        case (resolved blobs s3)
        from served_blobs [OF inv resolved(1) [unfolded github_simps]]
        have "Q s2 s3" .
        with q2 have q3: "Q s s3" by (rule Qtrans)
        from resolved(2) show ?thesis
        proof (cases rule: await_cases)
          case (rejected e)
          from step [OF Qtree rejected(1) [unfolded github_simps]] have "Q s3 s'" .
          with q3 have "Q s s'" by (rule Qtrans)
          with r rejected(2) show ?thesis by simp
        next
          case (resolved tree s4)
          from step [OF Qtree resolved(1) [unfolded github_simps]] have "Q s3 s4" .
          with q3 have q4: "Q s s4" by (rule Qtrans)
          from resolved(2) show ?thesis
          proof (cases rule: await_cases)
            case (rejected e)
            from step [OF Qcommit rejected(1) [unfolded github_simps]] have "Q s4 s'" .
            with q4 have "Q s s'" by (rule Qtrans)
            with r rejected(2) show ?thesis by simp
          next
            case (resolved newCommit s5)
            from step [OF Qcommit resolved(1) [unfolded github_simps]] have "Q s4 s5" .
            with q4 have q5: "Q s s5" by (rule Qtrans)
            from serve_run [OF resolved(1) [unfolded github_simps]]
            have "store_createCommit m tree [commit_sha commit] (arrive sched s4) = (Inr newCommit, s5)"
              by auto
            from createCommit_run [OF this] cs
            have c5: "commit_at s5 newCommit
                = Some \<lparr> object_tree = tree, object_parents = [ref], object_message = m \<rparr>"
              by simp
            let ?t = "arrive sched s5"
            from Qkept [OF Qarrive [of s5]] c5
            have ct: "commit_at ?t newCommit
                = Some \<lparr> object_tree = tree, object_parents = [ref], object_message = m \<rparr>"
              by (simp add: commits_kept_def)
            from q5 Qarrive [of s5] have qt: "Q s ?t" by (rule Qtrans)
            from serve_run [OF resolved(2) [unfolded github_simps]] show ?thesis
            proof
              assume "\<exists>e. rb = Inl e \<and> s' = arrive sched s5"
              with qt r show ?thesis by auto
            next
              assume u: "store_updateRef Client ?R newCommit ?t = (rb, s')"
              show ?thesis
              proof (cases rb)
                case (Inl e)
                with updateRef_run [OF u] have "s' = ?t" by simp
                with qt r Inl show ?thesis by simp
              next
                case (Inr u')
                with updateRef_run [OF u] ct obtain cur where
                  cur: "head_of ?t ?R = Some cur" "cur \<in> set [ref]"
                  and s': "s' = move_head Client ?R cur newCommit ?t"
                  by auto
                from cur have hd: "head_of ?t ?R = Some ref" by simp
                from cur s' have s'': "s' = move_head Client ?R ref newCommit ?t" by simp
                have "?moved"
                proof (intro conjI exI)
                  show "r = Inr ()" using r Inr by simp
                  show "head_of (arrive sched s) ?R = Some ref" by (rule H)
                  show "Q s ?t" by (rule qt)
                  show "head_of ?t ?R = Some ref" by (rule hd)
                  show "commit_at ?t newCommit
                        = Some \<lparr> object_tree = tree, object_parents = [ref], object_message = m \<rparr>"
                    by (rule ct)
                  show "s' = move_head Client ?R ref newCommit ?t" by (rule s'')
                qed
                then show ?thesis ..
              qed
            qed
          qed
        qed
      qed
    qed
  qed
qed

subsection \<open>The batch commit on a store with no other writer and no fault\<close>

lemma serve_alone:
  "serve alone healthy op s = op (s \<lparr> remote_served := Suc (remote_served s) \<rparr>)"
  by (simp add: serve_def arrive_def alone_def healthy_def)

lemma bump_lookups:
  "tree_at (s \<lparr> remote_served := n \<rparr>) = tree_at s"
  "commit_at (s \<lparr> remote_served := n \<rparr>) = commit_at s"
  "head_of (s \<lparr> remote_served := n \<rparr>) = head_of s"
  "blob_at (s \<lparr> remote_served := n \<rparr>) = blob_at s"
  "own_moves (s \<lparr> remote_served := n \<rparr>) = own_moves s"
  by (auto simp: tree_at_def commit_at_def head_of_def blob_at_def own_moves_def fun_eq_iff
      split: list.splits)

lemma alone_blobs:
  "\<exists>s'. promise_all (map (\<lambda>file. await (serve alone healthy (store_createBlob (Base64 (content file))))
                                     (\<lambda>blob. resolve (E file blob))) files) s
          = (Inr (map (\<lambda>f. E f (blob_id (content f))) files), s')
        \<and> same_graph s s'
        \<and> set (remote_blobs s') = set (remote_blobs s) \<union> content ` set files"
proof (induction files arbitrary: s)
  case Nil
  show ?case by (simp add: same_graph_def)
next
  case (Cons f fs)
  let ?s1 = "s \<lparr> remote_served := Suc (remote_served s),
                 remote_blobs := List.insert (content f) (remote_blobs s) \<rparr>"
  have step: "await (serve alone healthy (store_createBlob (Base64 (content f))))
                 (\<lambda>blob. resolve (E f blob)) s = (Inr (E f (blob_id (content f))), ?s1)"
    by (simp add: serve_alone store_createBlob_def await_def resolve_def)
  from Cons.IH [of ?s1] obtain s' where
    rest: "promise_all (map (\<lambda>file. await (serve alone healthy (store_createBlob (Base64 (content file))))
                                     (\<lambda>blob. resolve (E file blob))) fs) ?s1
          = (Inr (map (\<lambda>f. E f (blob_id (content f))) fs), s')"
    and g: "same_graph ?s1 s'"
    and b: "set (remote_blobs s') = set (remote_blobs ?s1) \<union> content ` set fs"
    by blast
  show ?case
  proof (intro exI conjI)
    show "promise_all (map (\<lambda>file. await (serve alone healthy (store_createBlob (Base64 (content file))))
                                     (\<lambda>blob. resolve (E file blob))) (f # fs)) s
          = (Inr (map (\<lambda>f. E f (blob_id (content f))) (f # fs)), s')"
      using step rest by simp
    show "same_graph s s'" using g by (simp add: same_graph_def)
    show "set (remote_blobs s') = set (remote_blobs s) \<union> content ` set (f # fs)"
      using b by auto
  qed
qed

lemma createTree_ok:
  assumes "tree_at t base = Some b" "\<not> list_ex (\<lambda>e. blob_at t (entry_sha e) = None) es"
  shows "\<exists>tid t'. store_createTree base es t = (Inr tid, t')
           \<and> tree_at t' tid = Some (overlay es b)
           \<and> remote_commits t' = remote_commits t \<and> remote_heads t' = remote_heads t
           \<and> remote_reflog t' = remote_reflog t \<and> remote_blobs t' = remote_blobs t"
  using assms by (simp add: store_createTree_def tree_at_def Let_def)

lemma createCommit_ok:
  assumes "tree_at t tr = Some b" "\<not> list_ex (\<lambda>p. commit_at t p = None) ps"
  shows "\<exists>cid t'. store_createCommit m tr ps t = (Inr cid, t')
           \<and> commit_at t' cid = Some \<lparr> object_tree = tr, object_parents = ps, object_message = m \<rparr>
           \<and> commits_kept t t'
           \<and> remote_trees t' = remote_trees t \<and> remote_heads t' = remote_heads t
           \<and> remote_reflog t' = remote_reflog t \<and> remote_blobs t' = remote_blobs t"
proof -
  let ?cid = "fresh_id CHR ''c'' (map fst (remote_commits t))"
  let ?t' = "t \<lparr> remote_commits :=
                     (?cid, \<lparr> object_tree = tr, object_parents = ps, object_message = m \<rparr>)
                     # remote_commits t \<rparr>"
  have r: "store_createCommit m tr ps t = (Inr ?cid, ?t')"
    using assms by (simp add: store_createCommit_def Let_def)
  have k: "commits_kept t ?t'" by (rule commits_kept_fresh [where c = "CHR ''c''"]) simp
  show ?thesis
    by (intro exI conjI, rule r) (simp_all add: commit_at_def k)
qed

lemma updateRef_ok:
  "head_of t ref = Some H \<Longrightarrow> commit_at t n = Some co \<Longrightarrow> H \<in> set (object_parents co) \<Longrightarrow>
     store_updateRef who ref n t = (Inr (), move_head who ref H n t)"
  by (simp add: store_updateRef_def)

lemma overlay_lookup:
  "map_of (overlay es base) p =
     (case map_of (rev (map (\<lambda>e. (entry_path e, entry_sha e)) es)) p of
        Some b \<Rightarrow> Some b | None \<Rightarrow> map_of base p)"
  by (simp add: overlay_def map_add_def split: option.splits)

lemma batch_entries:
  "map (\<lambda>e. (entry_path e, entry_sha e))
     (map (\<lambda>f. \<lparr> entry_path = name f, entry_mode = md, entry_type = ty,
                  entry_sha = blob_id (content f) \<rparr>) files)
   = map (\<lambda>f. (name f, blob_id (content f))) files"
  by simp

lemma overlay_outside:
  assumes "p \<notin> name ` set files"
  shows "map_of (overlay (map (\<lambda>f. \<lparr> entry_path = name f, entry_mode = md, entry_type = ty,
                                     entry_sha = blob_id (content f) \<rparr>) files) base) p
         = map_of base p"
proof -
  have "p \<notin> fst ` set (rev (map (\<lambda>f. (name f, blob_id (content f))) files))"
    using assms by force
  then have "map_of (rev (map (\<lambda>f. (name f, blob_id (content f))) files)) p = None"
    using map_of_eq_None_iff [of "rev (map (\<lambda>f. (name f, blob_id (content f))) files)" p]
    by blast
  then show ?thesis by (simp add: overlay_lookup batch_entries del: map_map)
qed

lemma overlay_inside:
  assumes "p \<in> name ` set files"
  shows "\<exists>f \<in> set files. name f = p \<and>
           map_of (overlay (map (\<lambda>f. \<lparr> entry_path = name f, entry_mode = md, entry_type = ty,
                                     entry_sha = blob_id (content f) \<rparr>) files) base) p
         = Some (blob_id (content f))"
proof -
  let ?l = "rev (map (\<lambda>f. (name f, blob_id (content f))) files)"
  have "p \<in> fst ` set ?l" using assms by force
  then obtain b where b: "map_of ?l p = Some b"
    by (metis map_of_eq_None_iff not_Some_eq)
  from map_of_SomeD [OF b] obtain f where f: "f \<in> set files" "name f = p" "b = blob_id (content f)"
    by auto
  have "map_of (overlay (map (\<lambda>f. \<lparr> entry_path = name f, entry_mode = md, entry_type = ty,
                                     entry_sha = blob_id (content f) \<rparr>) files) base) p = Some b"
    using b by (simp add: overlay_lookup batch_entries del: map_map)
  with f show ?thesis by blast
qed

lemma same_graph_lookups:
  assumes "same_graph s s'"
  shows "tree_at s' = tree_at s" "commit_at s' = commit_at s" "head_of s' = head_of s"
    "remote_reflog s' = remote_reflog s"
  using assms by (auto simp: same_graph_def tree_at_def commit_at_def head_of_def fun_eq_iff)

lemma same_graph_bump: "same_graph s (s \<lparr> remote_served := n \<rparr>)"
  by (simp add: same_graph_def)

lemma same_graph_trans: "same_graph a b \<Longrightarrow> same_graph b c \<Longrightarrow> same_graph a c"
  by (simp add: same_graph_def)

lemma blob_at_member: "c \<in> set (remote_blobs s) \<Longrightarrow> blob_at s (blob_id c) = Some c"
  by (simp add: blob_at_def blob_id_def)

lemma await_Inr: "p s = (Inr a, s1) \<Longrightarrow> await p k s = k a s1"
  by (simp add: await_def)

lemma try_catch_Inr: "p s = (Inr a, s1) \<Longrightarrow> try_catch p h s = (Inr a, s1)"
  by (simp add: try_catch_def)

lemma alone_run:
  assumes h: "head_of s (''heads/'' @ or_else (branch cfg) ''main'') = Some H"
    and c: "commit_at s H = Some co"
    and t: "tree_at s (object_tree co) = Some base"
  shows "\<exists>s' N T. commitMultipleFiles (github alone healthy) cfg files m s = (Inr (), s')
     \<and> head_of s' (''heads/'' @ or_else (branch cfg) ''main'') = Some N
     \<and> commit_at s' N = Some \<lparr> object_tree = T, object_parents = [H], object_message = m \<rparr>
     \<and> tree_at s' T = Some (overlay (map (\<lambda>f. \<lparr> entry_path = name f, entry_mode = ''100644'',
                                 entry_type = ''blob'', entry_sha = blob_id (content f) \<rparr>) files) base)
     \<and> (\<forall>f \<in> set files. blob_at s' (blob_id (content f)) = Some (content f))
     \<and> remote_reflog s' = remote_reflog s
          @ [\<lparr> moved_by = Client, moved_ref = ''heads/'' @ or_else (branch cfg) ''main'',
               moved_from = H, moved_to = N \<rparr>]
     \<and> (\<forall>ref. ref \<noteq> ''heads/'' @ or_else (branch cfg) ''main'' \<longrightarrow> head_of s' ref = head_of s ref)"
proof -
  let ?R = "''heads/'' @ or_else (branch cfg) ''main''"
  let ?E = "\<lambda>f b. \<lparr> entry_path = name f, entry_mode = ''100644'', entry_type = ''blob'', entry_sha = b \<rparr>"
  let ?es = "map (\<lambda>f. ?E f (blob_id (content f))) files"
  define s1 where "s1 = s \<lparr> remote_served := Suc (remote_served s) \<rparr>"
  define s2 where "s2 = s1 \<lparr> remote_served := Suc (remote_served s1) \<rparr>"
  have g1: "same_graph s s1" unfolding s1_def by (rule same_graph_bump)
  have g2: "same_graph s s2" unfolding s2_def using g1 same_graph_bump by (rule same_graph_trans)
  have e1: "serve alone healthy (store_getRef ?R) s = (Inr H, s1)"
    using h by (simp add: serve_alone store_getRef_def bump_lookups s1_def)
  have e2: "serve alone healthy (store_getCommit H) s1
              = (Inr \<lparr> commit_sha = H, commit_tree_sha = object_tree co \<rparr>, s2)"
    using c same_graph_lookups(2) [OF g1]
    by (simp add: serve_alone store_getCommit_def bump_lookups s2_def)
  from alone_blobs [of ?E files s2] obtain s3 where
    e3: "promise_all (map (\<lambda>file. await (serve alone healthy (store_createBlob (Base64 (content file))))
                                     (\<lambda>blob. resolve (?E file blob))) files) s2 = (Inr ?es, s3)"
    and g23: "same_graph s2 s3"
    and b3: "set (remote_blobs s3) = set (remote_blobs s2) \<union> content ` set files"
    by blast
  from g2 g23 have g3: "same_graph s s3" by (rule same_graph_trans)
  define s3' where "s3' = s3 \<lparr> remote_served := Suc (remote_served s3) \<rparr>"
  have g3': "same_graph s s3'" unfolding s3'_def using g3 same_graph_bump by (rule same_graph_trans)
  have bl: "\<forall>f \<in> set files. blob_at s3' (blob_id (content f)) = Some (content f)"
    using b3 by (simp add: s3'_def bump_lookups blob_at_member)
  have t3: "tree_at s3' (object_tree co) = Some base"
    using t same_graph_lookups(1) [OF g3'] by simp
  have v3: "\<not> list_ex (\<lambda>e. blob_at s3' (entry_sha e) = None) ?es"
    using bl by (simp add: list_ex_iff)
  from createTree_ok [OF t3 v3] obtain tid s4 where
    o4: "store_createTree (object_tree co) ?es s3' = (Inr tid, s4)"
    and t4: "tree_at s4 tid = Some (overlay ?es base)"
    and k4: "remote_commits s4 = remote_commits s3'" "remote_heads s4 = remote_heads s3'"
      "remote_reflog s4 = remote_reflog s3'" "remote_blobs s4 = remote_blobs s3'"
    by blast
  have e4: "serve alone healthy (store_createTree (object_tree co) ?es) s3 = (Inr tid, s4)"
    using o4 by (simp add: serve_alone s3'_def)
  define s4' where "s4' = s4 \<lparr> remote_served := Suc (remote_served s4) \<rparr>"
  have t4': "tree_at s4' tid = Some (overlay ?es base)" using t4 by (simp add: s4'_def bump_lookups)
  have c4': "commit_at s4' = commit_at s"
    using k4(1) same_graph_lookups(2) [OF g3']
    by (simp add: s4'_def bump_lookups commit_at_def fun_eq_iff)
  have h4': "head_of s4' = head_of s"
    using k4(2) same_graph_lookups(3) [OF g3']
    by (simp add: s4'_def bump_lookups head_of_def fun_eq_iff)
  have v4: "\<not> list_ex (\<lambda>p. commit_at s4' p = None) [H]" using c c4' by simp
  from createCommit_ok [OF t4' v4, of m] obtain cid s5 where
    o5: "store_createCommit m tid [H] s4' = (Inr cid, s5)"
    and c5: "commit_at s5 cid = Some \<lparr> object_tree = tid, object_parents = [H], object_message = m \<rparr>"
    and k5: "remote_trees s5 = remote_trees s4'" "remote_heads s5 = remote_heads s4'"
      "remote_reflog s5 = remote_reflog s4'" "remote_blobs s5 = remote_blobs s4'"
    by blast
  have e5: "serve alone healthy (store_createCommit m tid [H]) s4 = (Inr cid, s5)"
    using o5 by (simp add: serve_alone s4'_def)
  define s5' where "s5' = s5 \<lparr> remote_served := Suc (remote_served s5) \<rparr>"
  have h5': "head_of s5' = head_of s"
    using k5(2) h4' by (simp add: s5'_def bump_lookups head_of_def fun_eq_iff)
  have c5': "commit_at s5' cid = Some \<lparr> object_tree = tid, object_parents = [H], object_message = m \<rparr>"
    using c5 by (simp add: s5'_def bump_lookups)
  have hh: "head_of s5' ?R = Some H" using h by (simp add: h5')
  have "store_updateRef Client ?R cid s5' = (Inr (), move_head Client ?R H cid s5')"
    by (rule updateRef_ok [OF hh c5']) simp
  then have e6: "serve alone healthy (store_updateRef Client ?R cid) s5
                  = (Inr (), move_head Client ?R H cid s5')"
    by (simp add: serve_alone s5'_def)
  define cm where "cm = \<lparr> commit_sha = H, commit_tree_sha = object_tree co \<rparr>"
  have cm: "commit_sha cm = H" "commit_tree_sha cm = object_tree co" by (simp_all add: cm_def)
  let ?k5 = "\<lambda>newCommit. serve alone healthy (store_updateRef Client ?R newCommit)"
  let ?k4 = "\<lambda>commit tree. await (serve alone healthy (store_createCommit m tree [commit_sha commit])) ?k5"
  let ?k3 = "\<lambda>commit blobs. await (serve alone healthy (store_createTree (commit_tree_sha commit) blobs)) (?k4 commit)"
  let ?loop = "promise_all (map (\<lambda>file. await (serve alone healthy (store_createBlob (Base64 (content file))))
                                     (\<lambda>blob. resolve (?E file blob))) files)"
  let ?k2 = "\<lambda>commit. await ?loop (?k3 commit)"
  let ?k1 = "\<lambda>ref. await (serve alone healthy (store_getCommit ref)) ?k2"
  let ?fin = "move_head Client ?R H cid s5'"
  have e5': "serve alone healthy (store_createCommit m tid [commit_sha cm]) s4 = (Inr cid, s5)"
    using e5 by (simp only: cm)
  have e4': "serve alone healthy (store_createTree (commit_tree_sha cm) ?es) s3 = (Inr tid, s4)"
    using e4 by (simp only: cm)
  have e2': "serve alone healthy (store_getCommit H) s1 = (Inr cm, s2)"
    using e2 by (simp only: cm_def)
  have r5: "?k4 cm tid s4 = (Inr (), ?fin)"
    by (rule trans [OF await_Inr [where p = "serve alone healthy (store_createCommit m tid [commit_sha cm])"
            and s = s4, OF e5']]) (rule e6)
  have r4: "?k3 cm ?es s3 = (Inr (), ?fin)"
    by (rule trans [OF await_Inr [where p = "serve alone healthy (store_createTree (commit_tree_sha cm) ?es)"
            and s = s3, OF e4']]) (rule r5)
  have r3: "?k2 cm s2 = (Inr (), ?fin)"
    by (rule trans [OF await_Inr [where p = ?loop and s = s2, OF e3]]) (rule r4)
  have r2: "?k1 H s1 = (Inr (), ?fin)"
    by (rule trans [OF await_Inr [where p = "serve alone healthy (store_getCommit H)" and s = s1, OF e2']])
       (rule r3)
  have r1: "await (serve alone healthy (store_getRef ?R)) ?k1 s = (Inr (), ?fin)"
    by (rule trans [OF await_Inr [where p = "serve alone healthy (store_getRef ?R)" and s = s, OF e1]])
       (rule r2)
  have run: "commitMultipleFiles (github alone healthy) cfg files m s
               = (Inr (), move_head Client ?R H cid s5')"
    unfolding commitMultipleFiles_def github_simps
    by (rule try_catch_Inr [where p = "await (serve alone healthy (store_getRef ?R)) ?k1"]) (rule r1)
  have rl: "remote_reflog s5' = remote_reflog s"
    using k5(3) k4(3) same_graph_lookups(4) [OF g3'] by (simp add: s5'_def s4'_def)
  have tr: "tree_at s5' tid = Some (overlay ?es base)"
    using t4' k5(1) by (simp add: s5'_def bump_lookups tree_at_def)
  have bb: "\<forall>f \<in> set files. blob_at s5' (blob_id (content f)) = Some (content f)"
    using bl k5(4) k4(4) by (simp add: s5'_def s4'_def blob_at_def blob_id_def)
  show ?thesis
  proof (intro exI conjI)
    show "commitMultipleFiles (github alone healthy) cfg files m s
               = (Inr (), move_head Client ?R H cid s5')" by (rule run)
    show "head_of (move_head Client ?R H cid s5') ?R = Some cid" by (rule move_head_facts(1))
    show "commit_at (move_head Client ?R H cid s5') cid
            = Some \<lparr> object_tree = tid, object_parents = [H], object_message = m \<rparr>"
      using c5' by (simp add: move_head_facts(2))
    show "tree_at (move_head Client ?R H cid s5') tid = Some (overlay ?es base)"
      using tr by (simp add: move_head_def tree_at_def)
    show "\<forall>f \<in> set files. blob_at (move_head Client ?R H cid s5') (blob_id (content f)) = Some (content f)"
      using bb by (simp add: move_head_def blob_at_def blob_id_def)
    show "remote_reflog (move_head Client ?R H cid s5') = remote_reflog s
          @ [\<lparr> moved_by = Client, moved_ref = ?R, moved_from = H, moved_to = cid \<rparr>]"
      using rl by (simp add: move_head_def)
    show "\<forall>ref. ref \<noteq> ?R \<longrightarrow> head_of (move_head Client ?R H cid s5') ref = head_of s ref"
      using h5' by (simp add: move_head_def head_of_def fun_eq_iff)
  qed
qed

subsection \<open>The claims about the batch commit\<close>

lemma no_ref_update_blobs:
  "no_ref_update (map2 (\<lambda>f b. (CreateBlob ow rp (B f) enc, A b)) files ids)"
  by (simp add: no_ref_update_def list_all_iff is_ref_update_def split: prod.splits)

lemma no_ref_update_butlast: "no_ref_update log \<Longrightarrow> no_ref_update (butlast log)"
  by (auto simp: no_ref_update_def list_all_iff dest: in_set_butlastD)

lemma no_ref_update_mem: "no_ref_update log \<Longrightarrow> x \<in> set log \<Longrightarrow> \<not> is_ref_update (fst x)"
  by (simp add: no_ref_update_def list_all_iff)

lemma in_snoc: "x \<in> set (xs @ [y]) \<Longrightarrow> x \<in> set xs \<or> x = y"
  by auto

lemma trace_props:
  assumes run: "commitMultipleFiles (logged api) cfg files m (s, []) = (r, (s', log))"
  shows "no_ref_update (butlast log)"
    and "r \<noteq> Inr () \<Longrightarrow> x \<in> set log \<Longrightarrow> is_ref_update (fst x) \<Longrightarrow> \<exists>e. snd x = Inl e"
proof -
  let ?R = "''heads/'' @ or_else (branch cfg) ''main''"
  note shape = trace_shape [OF run]
  show "no_ref_update (butlast log)"
    using shape
  proof
    assume "r = Inl (Error ''Failed to commit multiple files'') \<and> no_ref_update log"
    then show ?thesis by (simp add: no_ref_update_butlast)
  next
    assume "\<exists>ref commit ids tree newCommit (w :: js_error + unit).
            length ids = length files
          \<and> log = [(GetRef (owner cfg) (repo cfg) ?R, Inr (Sha ref)),
                   (GetCommit (owner cfg) (repo cfg) ref, Inr (Commit commit))]
                  @ map2 (\<lambda>f b. (CreateBlob (owner cfg) (repo cfg) (Base64 (content f)) ''base64'',
                                   Inr (Sha b))) files ids
                  @ [(CreateTree (owner cfg) (repo cfg) (commit_tree_sha commit)
                        (map2 (\<lambda>f b. \<lparr> entry_path = name f, entry_mode = ''100644'',
                                        entry_type = ''blob'', entry_sha = b \<rparr>) files ids),
                      Inr (Sha tree)),
                     (CreateCommit (owner cfg) (repo cfg) m tree [commit_sha commit], Inr (Sha newCommit)),
                     (UpdateRef (owner cfg) (repo cfg) ?R newCommit, map_sum id (\<lambda>u. Done) w)]
          \<and> r = (case w of Inl e \<Rightarrow> Inl (Error ''Failed to commit multiple files'') | Inr u \<Rightarrow> Inr ())"
    then obtain ref commit ids tree newCommit and w :: "js_error + unit" where
      lg: "log = ([(GetRef (owner cfg) (repo cfg) ?R, Inr (Sha ref)),
                   (GetCommit (owner cfg) (repo cfg) ref, Inr (Commit commit))]
                  @ map2 (\<lambda>f b. (CreateBlob (owner cfg) (repo cfg) (Base64 (content f)) ''base64'',
                                   Inr (Sha b))) files ids
                  @ [(CreateTree (owner cfg) (repo cfg) (commit_tree_sha commit)
                        (map2 (\<lambda>f b. \<lparr> entry_path = name f, entry_mode = ''100644'',
                                        entry_type = ''blob'', entry_sha = b \<rparr>) files ids),
                      Inr (Sha tree)),
                     (CreateCommit (owner cfg) (repo cfg) m tree [commit_sha commit], Inr (Sha newCommit))])
                  @ [(UpdateRef (owner cfg) (repo cfg) ?R newCommit, map_sum id (\<lambda>u. Done) w)]"
      by auto
    show ?thesis
      unfolding lg butlast_snoc
      by (simp add: no_ref_update_append no_ref_update_Cons no_ref_update_Nil no_ref_update_blobs
          is_ref_update_def)
  qed
  assume nr: "r \<noteq> Inr ()" and x: "x \<in> set log" and u: "is_ref_update (fst x)"
  show "\<exists>e. snd x = Inl e"
    using shape
  proof
    assume "r = Inl (Error ''Failed to commit multiple files'') \<and> no_ref_update log"
    with no_ref_update_mem [OF _ x] u show ?thesis by simp
  next
    assume "\<exists>ref commit ids tree newCommit (w :: js_error + unit).
            length ids = length files
          \<and> log = [(GetRef (owner cfg) (repo cfg) ?R, Inr (Sha ref)),
                   (GetCommit (owner cfg) (repo cfg) ref, Inr (Commit commit))]
                  @ map2 (\<lambda>f b. (CreateBlob (owner cfg) (repo cfg) (Base64 (content f)) ''base64'',
                                   Inr (Sha b))) files ids
                  @ [(CreateTree (owner cfg) (repo cfg) (commit_tree_sha commit)
                        (map2 (\<lambda>f b. \<lparr> entry_path = name f, entry_mode = ''100644'',
                                        entry_type = ''blob'', entry_sha = b \<rparr>) files ids),
                      Inr (Sha tree)),
                     (CreateCommit (owner cfg) (repo cfg) m tree [commit_sha commit], Inr (Sha newCommit)),
                     (UpdateRef (owner cfg) (repo cfg) ?R newCommit, map_sum id (\<lambda>u. Done) w)]
          \<and> r = (case w of Inl e \<Rightarrow> Inl (Error ''Failed to commit multiple files'') | Inr u \<Rightarrow> Inr ())"
    then obtain ref commit ids tree newCommit and w :: "js_error + unit" where
      lg: "log = ([(GetRef (owner cfg) (repo cfg) ?R, Inr (Sha ref)),
                   (GetCommit (owner cfg) (repo cfg) ref, Inr (Commit commit))]
                  @ map2 (\<lambda>f b. (CreateBlob (owner cfg) (repo cfg) (Base64 (content f)) ''base64'',
                                   Inr (Sha b))) files ids
                  @ [(CreateTree (owner cfg) (repo cfg) (commit_tree_sha commit)
                        (map2 (\<lambda>f b. \<lparr> entry_path = name f, entry_mode = ''100644'',
                                        entry_type = ''blob'', entry_sha = b \<rparr>) files ids),
                      Inr (Sha tree)),
                     (CreateCommit (owner cfg) (repo cfg) m tree [commit_sha commit], Inr (Sha newCommit))])
                  @ [(UpdateRef (owner cfg) (repo cfg) ?R newCommit, map_sum id (\<lambda>u. Done) w)]"
      (is "log = ?pre @ [?last]")
      and r: "r = (case w of Inl e \<Rightarrow> Inl (Error ''Failed to commit multiple files'') | Inr u \<Rightarrow> Inr ())"
      by auto
    have pre: "no_ref_update ?pre"
      by (simp add: no_ref_update_append no_ref_update_Cons no_ref_update_Nil no_ref_update_blobs
          is_ref_update_def)
    from in_snoc [OF x [unfolded lg]] show ?thesis
    proof
      assume "x \<in> set ?pre"
      from no_ref_update_mem [OF pre this] u show ?thesis by simp
    next
      assume xl: "x = ?last"
      from nr r obtain e where "w = Inl e" by (cases w) simp_all
      with xl show ?thesis by simp
    qed
  qed
qed

lemma pair_run: "\<exists>r s' log. commitMultipleFiles (logged api) cfg files m (s, []) = (r, (s', log))"
  by (cases "commitMultipleFiles (logged api) cfg files m (s, [])") auto

lemma trace_success:
  assumes ok: "fst (commitMultipleFiles (logged api) cfg files m (s, [])) = Inr ()"
  shows "\<exists>ref commit ids tree newCommit.
            length ids = length files
          \<and> snd (snd (commitMultipleFiles (logged api) cfg files m (s, []))) =
               [(GetRef (owner cfg) (repo cfg) (''heads/'' @ or_else (branch cfg) ''main''), Inr (Sha ref)),
                (GetCommit (owner cfg) (repo cfg) ref, Inr (Commit commit))]
               @ map2 (\<lambda>f b. (CreateBlob (owner cfg) (repo cfg) (Base64 (content f)) ''base64'',
                                Inr (Sha b))) files ids
               @ [(CreateTree (owner cfg) (repo cfg) (commit_tree_sha commit)
                     (map2 (\<lambda>f b. \<lparr> entry_path = name f, entry_mode = ''100644'',
                                     entry_type = ''blob'', entry_sha = b \<rparr>) files ids),
                   Inr (Sha tree)),
                  (CreateCommit (owner cfg) (repo cfg) m tree [commit_sha commit], Inr (Sha newCommit)),
                  (UpdateRef (owner cfg) (repo cfg) (''heads/'' @ or_else (branch cfg) ''main'') newCommit,
                   Inr Done)]"
proof -
  from pair_run [of api cfg files m s] obtain r s' log where
    run: "commitMultipleFiles (logged api) cfg files m (s, []) = (r, (s', log))" by blast
  with ok have r: "r = Inr ()" by simp
  from trace_shape [OF run] r obtain ref commit ids tree newCommit and w :: "js_error + unit" where
    l: "length ids = length files"
    and lg: "log = [(GetRef (owner cfg) (repo cfg) (''heads/'' @ or_else (branch cfg) ''main''), Inr (Sha ref)),
                (GetCommit (owner cfg) (repo cfg) ref, Inr (Commit commit))]
               @ map2 (\<lambda>f b. (CreateBlob (owner cfg) (repo cfg) (Base64 (content f)) ''base64'',
                                Inr (Sha b))) files ids
               @ [(CreateTree (owner cfg) (repo cfg) (commit_tree_sha commit)
                     (map2 (\<lambda>f b. \<lparr> entry_path = name f, entry_mode = ''100644'',
                                     entry_type = ''blob'', entry_sha = b \<rparr>) files ids),
                   Inr (Sha tree)),
                  (CreateCommit (owner cfg) (repo cfg) m tree [commit_sha commit], Inr (Sha newCommit)),
                  (UpdateRef (owner cfg) (repo cfg) (''heads/'' @ or_else (branch cfg) ''main'') newCommit,
                   map_sum id (\<lambda>u. Done) w)]"
    and w: "Inr () = (case w of Inl e \<Rightarrow> Inl (Error ''Failed to commit multiple files'') | Inr u \<Rightarrow> Inr ())"
    by auto
  from w have "w = Inr ()" by (cases w) simp_all
  with lg have lg': "log = [(GetRef (owner cfg) (repo cfg) (''heads/'' @ or_else (branch cfg) ''main''), Inr (Sha ref)),
                (GetCommit (owner cfg) (repo cfg) ref, Inr (Commit commit))]
               @ map2 (\<lambda>f b. (CreateBlob (owner cfg) (repo cfg) (Base64 (content f)) ''base64'',
                                Inr (Sha b))) files ids
               @ [(CreateTree (owner cfg) (repo cfg) (commit_tree_sha commit)
                     (map2 (\<lambda>f b. \<lparr> entry_path = name f, entry_mode = ''100644'',
                                     entry_type = ''blob'', entry_sha = b \<rparr>) files ids),
                   Inr (Sha tree)),
                  (CreateCommit (owner cfg) (repo cfg) m tree [commit_sha commit], Inr (Sha newCommit)),
                  (UpdateRef (owner cfg) (repo cfg) (''heads/'' @ or_else (branch cfg) ''main'') newCommit,
                   Inr Done)]"
    by simp
  show ?thesis
    unfolding run snd_conv
    by (intro exI conjI) (rule l, rule lg')
qed

lemma trace_last_only:
  "\<forall>x \<in> set (butlast (snd (snd (commitMultipleFiles (logged api) cfg files m (s, []))))).
      \<not> is_ref_update (fst x)"
proof -
  from pair_run [of api cfg files m s] obtain r s' log where
    run: "commitMultipleFiles (logged api) cfg files m (s, []) = (r, (s', log))" by blast
  from trace_props(1) [OF run] show ?thesis
    unfolding run snd_conv by (simp add: no_ref_update_def list_all_iff)
qed

lemma trace_failure:
  assumes "fst (commitMultipleFiles (logged api) cfg files m (s, [])) \<noteq> Inr ()"
  shows "\<forall>x \<in> set (snd (snd (commitMultipleFiles (logged api) cfg files m (s, [])))).
           is_ref_update (fst x) \<longrightarrow> (\<exists>e. snd x = Inl e)"
proof -
  from pair_run [of api cfg files m s] obtain r s' log where
    run: "commitMultipleFiles (logged api) cfg files m (s, []) = (r, (s', log))" by blast
  with assms have "r \<noteq> Inr ()" by simp
  from trace_props(2) [OF run this] show ?thesis
    unfolding run snd_conv by blast
qed

lemma model_success:
  assumes "head_of t (''heads/'' @ or_else (branch cfg) ''main'') = Some H"
    and "commit_at t H = Some co" and "tree_at t (object_tree co) = Some base"
  shows "\<exists>t' N T new_tree.
           commitMultipleFiles (github alone healthy) cfg files m t = (Inr (), t')
         \<and> head_of t' (''heads/'' @ or_else (branch cfg) ''main'') = Some N
         \<and> commit_at t' N = Some \<lparr> object_tree = T, object_parents = [H], object_message = m \<rparr>
         \<and> tree_at t' T = Some new_tree
         \<and> (\<forall>p. p \<notin> name ` set files \<longrightarrow> map_of new_tree p = map_of base p)
         \<and> (\<forall>p. p \<in> name ` set files \<longrightarrow>
               (\<exists>f \<in> set files. name f = p \<and> map_of new_tree p = Some (blob_id (content f))))
         \<and> (\<forall>f \<in> set files. blob_at t' (blob_id (content f)) = Some (content f))"
proof -
  let ?es = "map (\<lambda>f. \<lparr> entry_path = name f, entry_mode = ''100644'',
                                 entry_type = ''blob'', entry_sha = blob_id (content f) \<rparr>) files"
  from alone_run [OF assms, of files m] obtain t' N T where
    a: "commitMultipleFiles (github alone healthy) cfg files m t = (Inr (), t')"
    "head_of t' (''heads/'' @ or_else (branch cfg) ''main'') = Some N"
    "commit_at t' N = Some \<lparr> object_tree = T, object_parents = [H], object_message = m \<rparr>"
    "tree_at t' T = Some (overlay ?es base)"
    "\<forall>f \<in> set files. blob_at t' (blob_id (content f)) = Some (content f)"
    by blast
  show ?thesis
  proof (intro exI conjI)
    show "commitMultipleFiles (github alone healthy) cfg files m t = (Inr (), t')" by (rule a(1))
    show "head_of t' (''heads/'' @ or_else (branch cfg) ''main'') = Some N" by (rule a(2))
    show "commit_at t' N = Some \<lparr> object_tree = T, object_parents = [H], object_message = m \<rparr>"
      by (rule a(3))
    show "tree_at t' T = Some (overlay ?es base)" by (rule a(4))
    show "\<forall>p. p \<notin> name ` set files \<longrightarrow> map_of (overlay ?es base) p = map_of base p"
      by (intro allI impI) (rule overlay_outside)
    show "\<forall>p. p \<in> name ` set files \<longrightarrow>
               (\<exists>f \<in> set files. name f = p \<and> map_of (overlay ?es base) p = Some (blob_id (content f)))"
      by (intro allI impI) (rule overlay_inside)
    show "\<forall>f \<in> set files. blob_at t' (blob_id (content f)) = Some (content f)" by (rule a(5))
  qed
qed

lemma model_failure_quiet:
  assumes "fst (commitMultipleFiles (github sched fault) cfg files m t) \<noteq> Inr ()"
  shows "own_moves (snd (commitMultipleFiles (github sched fault) cfg files m t)) = own_moves t"
proof -
  obtain r t' where run: "commitMultipleFiles (github sched fault) cfg files m t = (r, t')"
    by (cases "commitMultipleFiles (github sched fault) cfg files m t")
  with assms have "r \<noteq> Inr ()" by simp
  with model_run [OF preserved_quiet run] have "quiet t t'" by blast
  then show ?thesis unfolding run snd_conv by (simp add: quiet_def)
qed

lemma model_failure_still:
  assumes "fst (commitMultipleFiles (github alone fault) cfg files m t) \<noteq> Inr ()"
  shows "remote_heads (snd (commitMultipleFiles (github alone fault) cfg files m t)) = remote_heads t
       \<and> remote_reflog (snd (commitMultipleFiles (github alone fault) cfg files m t)) = remote_reflog t"
proof -
  obtain r t' where run: "commitMultipleFiles (github alone fault) cfg files m t = (r, t')"
    by (cases "commitMultipleFiles (github alone fault) cfg files m t")
  with assms have "r \<noteq> Inr ()" by simp
  with model_run [OF preserved_still run] have "still t t'" by blast
  then show ?thesis unfolding run snd_conv by (simp add: still_def)
qed

lemma model_moves:
  assumes "fst (commitMultipleFiles (github sched fault) cfg files m t) = Inr ()"
  shows "\<exists>H N co. head_of (arrive sched t) (''heads/'' @ or_else (branch cfg) ''main'') = Some H
           \<and> own_moves (snd (commitMultipleFiles (github sched fault) cfg files m t))
               = own_moves t @ [\<lparr> moved_by = Client,
                                   moved_ref = ''heads/'' @ or_else (branch cfg) ''main'',
                                   moved_from = H, moved_to = N \<rparr>]
           \<and> head_of (snd (commitMultipleFiles (github sched fault) cfg files m t))
               (''heads/'' @ or_else (branch cfg) ''main'') = Some N
           \<and> commit_at (snd (commitMultipleFiles (github sched fault) cfg files m t)) N = Some co
           \<and> object_parents co = [H] \<and> object_message co = m"
proof -
  let ?R = "''heads/'' @ or_else (branch cfg) ''main''"
  obtain r t' where run: "commitMultipleFiles (github sched fault) cfg files m t = (r, t')"
    by (cases "commitMultipleFiles (github sched fault) cfg files m t")
  with assms have "r = Inr ()" by simp
  with model_run [OF preserved_quiet run] obtain H N u tree where
    h: "head_of (arrive sched t) ?R = Some H" and q: "quiet t u"
    and c: "commit_at u N = Some \<lparr> object_tree = tree, object_parents = [H], object_message = m \<rparr>"
    and t': "t' = move_head Client ?R H N u"
    by auto
  from q have om: "own_moves u = own_moves t" by (simp add: quiet_def)
  show ?thesis
    unfolding run snd_conv t'
  proof (intro exI conjI)
    show "head_of (arrive sched t) ?R = Some H" by (rule h)
    show "own_moves (move_head Client ?R H N u)
            = own_moves t @ [\<lparr> moved_by = Client, moved_ref = ?R, moved_from = H, moved_to = N \<rparr>]"
      by (simp only: move_head_facts(3) om)
    show "head_of (move_head Client ?R H N u) ?R = Some N" by (rule move_head_facts(1))
    show "commit_at (move_head Client ?R H N u) N
            = Some \<lparr> object_tree = tree, object_parents = [H], object_message = m \<rparr>"
      by (simp only: move_head_facts(2) c)
    show "object_parents \<lparr> object_tree = tree, object_parents = [H], object_message = m \<rparr> = [H]"
      by simp
    show "object_message \<lparr> object_tree = tree, object_parents = [H], object_message = m \<rparr> = m"
      by simp
  qed
qed

lemma model_failure_error:
  assumes "fst (commitMultipleFiles (github sched fault) cfg files m t) = Inl e"
  shows "e = Error ''Failed to commit multiple files''
       \<and> own_moves (snd (commitMultipleFiles (github sched fault) cfg files m t)) = own_moves t"
proof -
  from assms have "fst (commitMultipleFiles (github sched fault) cfg files m t) \<noteq> Inr ()" by simp
  from model_failure_quiet [OF this] commitMultipleFiles_error [OF assms] show ?thesis by simp
qed

text \<open>
  Against claim C1 as stated. Another writer commits to the branch just before the
  update-ref of the batch is served. The store refuses the update with status 422, and
  \<open>commitMultipleFiles\<close> throws \<^verbatim>\<open>Failed to commit multiple files\<close>: the very error it
  throws when the store refuses the credentials. The conflict has no value of its own.
\<close>

theorem commitMultipleFiles_conflict_counterexample:
  "last (snd (snd (commitMultipleFiles
          (logged (github (rival_before 5 (RivalCommit example_config [file_a] ''their change'')) healthy))
          example_config [file_c] ''my change'' (example_store, []))))
     = (UpdateRef ''acme'' ''site'' ''heads/main'' ''cc'',
        Inl (RequestError 422 ''Update is not a fast forward''))
   \<and> fst (commitMultipleFiles
          (github (rival_before 5 (RivalCommit example_config [file_a] ''their change'')) healthy)
          example_config [file_c] ''my change'' example_store)
     = Inl (Error ''Failed to commit multiple files'')
   \<and> fst (commitMultipleFiles (github alone unauthorized)
          example_config [file_c] ''my change'' example_store)
     = Inl (Error ''Failed to commit multiple files'')"
  by code_simp

text \<open>
  Claim C1, amended. On the store, with any other writers served between the requests and
  any requests failing before they reach it: when \<open>commitMultipleFiles\<close> succeeds, it has
  moved the branch exactly once, to the new commit, whose sole parent is the head \<open>H\<close>
  that its first request read, and the store's log records that the branch pointed at
  \<open>H\<close> at the moment of the move; so the branch moves only if it still points at the
  head read in step 1. When it fails, in particular when another writer advanced the branch
  in between, the client has moved no branch, and what it throws is the generic error
  \<^verbatim>\<open>Failed to commit multiple files\<close>, the same for every failure.
\<close>

theorem commitMultipleFiles_moves_from_read_head:
  "(fst (commitMultipleFiles (github sched fault) cfg files m t) = Inr ()
      \<longrightarrow> (\<exists>H N co.
             head_of (arrive sched t) (''heads/'' @ or_else (branch cfg) ''main'') = Some H
           \<and> own_moves (snd (commitMultipleFiles (github sched fault) cfg files m t))
               = own_moves t @ [\<lparr> moved_by = Client,
                                   moved_ref = ''heads/'' @ or_else (branch cfg) ''main'',
                                   moved_from = H, moved_to = N \<rparr>]
           \<and> head_of (snd (commitMultipleFiles (github sched fault) cfg files m t))
               (''heads/'' @ or_else (branch cfg) ''main'') = Some N
           \<and> commit_at (snd (commitMultipleFiles (github sched fault) cfg files m t)) N = Some co
           \<and> object_parents co = [H] \<and> object_message co = m))
   \<and> (\<forall>e. fst (commitMultipleFiles (github sched fault) cfg files m t) = Inl e
          \<longrightarrow> e = Error ''Failed to commit multiple files''
            \<and> own_moves (snd (commitMultipleFiles (github sched fault) cfg files m t)) = own_moves t)"
  by (intro conjI allI impI model_moves model_failure_error)

text \<open>
  The theorem on the example repository: alone, the batch moves \<^verbatim>\<open>main\<close> from the head
  it read; with another writer's commit served just before its update-ref, it fails and
  moves nothing.
\<close>

theorem commitMultipleFiles_moves_from_read_head_witness:
  "(\<exists>H N co.
        head_of (arrive alone example_store) (''heads/'' @ or_else (branch example_config) ''main'') = Some H
      \<and> own_moves (snd (commitMultipleFiles (github alone healthy) example_config [file_c]
                           ''my change'' example_store))
          = own_moves example_store
            @ [\<lparr> moved_by = Client,
                 moved_ref = ''heads/'' @ or_else (branch example_config) ''main'',
                 moved_from = H, moved_to = N \<rparr>]
      \<and> head_of (snd (commitMultipleFiles (github alone healthy) example_config [file_c]
                         ''my change'' example_store))
          (''heads/'' @ or_else (branch example_config) ''main'') = Some N
      \<and> commit_at (snd (commitMultipleFiles (github alone healthy) example_config [file_c]
                           ''my change'' example_store)) N = Some co
      \<and> object_parents co = [H] \<and> object_message co = ''my change'')
   \<and> (Error ''Failed to commit multiple files'' = Error ''Failed to commit multiple files''
      \<and> own_moves (snd (commitMultipleFiles
            (github (rival_before 5 (RivalCommit example_config [file_a] ''their change'')) healthy)
            example_config [file_c] ''my change'' example_store))
         = own_moves example_store)"
proof -
  have f: "fst (commitMultipleFiles (github alone healthy) example_config [file_c]
                  ''my change'' example_store) = Inr ()"
    by code_simp
  have g: "fst (commitMultipleFiles
            (github (rival_before 5 (RivalCommit example_config [file_a] ''their change'')) healthy)
            example_config [file_c] ''my change'' example_store)
          = Inl (Error ''Failed to commit multiple files'')"
    by code_simp
  note a = commitMultipleFiles_moves_from_read_head [of alone healthy example_config "[file_c]"
      "''my change''" example_store, THEN conjunct1, THEN mp, OF f]
  note b = commitMultipleFiles_moves_from_read_head
      [of "rival_before 5 (RivalCommit example_config [file_a] ''their change'')" healthy
        example_config "[file_c]" "''my change''" example_store, THEN conjunct2, THEN spec, THEN mp, OF g]
  from a b show ?thesis by (rule conjI)
qed

text \<open>
  Claim C6. For every client, a batch commit that succeeds has issued exactly these
  requests, each answered with success, in this order: get-ref of the branch; get-commit of
  the head it returned; one create-blob per file, with the file's content; create-tree on
  the head commit's tree as base, with one entry per file of the shape path, mode
  \<^verbatim>\<open>100644\<close>, type \<^verbatim>\<open>blob\<close> and the id the store returned for that file's blob;
  create-commit with the new tree and the head commit as sole parent; update-ref of the
  branch to the new commit. An update-ref is never issued before the end, and in a run
  that fails no update-ref was accepted. On the store, with no other writer and no
  fault, from a branch whose head commit has the tree \<open>base\<close>: the batch succeeds, the
  branch points at a new commit whose sole parent is the old head, and in its tree every
  path outside the batch has the entry it has in \<open>base\<close>, every path of the batch has the
  blob of a file of the batch with that path, and every file's blob holds its content.
  A batch that fails has moved no branch: with other writers and faults the client's own
  moves in the store's log are unchanged, and with faults alone the branch pointers and
  the log are as they were.
\<close>

theorem commitMultipleFiles_object_graph:
  "(fst (commitMultipleFiles (logged api) cfg files m (s, [])) = Inr ()
      \<longrightarrow> (\<exists>ref commit ids tree newCommit.
            length ids = length files
          \<and> snd (snd (commitMultipleFiles (logged api) cfg files m (s, []))) =
               [(GetRef (owner cfg) (repo cfg) (''heads/'' @ or_else (branch cfg) ''main''), Inr (Sha ref)),
                (GetCommit (owner cfg) (repo cfg) ref, Inr (Commit commit))]
               @ map2 (\<lambda>f b. (CreateBlob (owner cfg) (repo cfg) (Base64 (content f)) ''base64'',
                                Inr (Sha b))) files ids
               @ [(CreateTree (owner cfg) (repo cfg) (commit_tree_sha commit)
                     (map2 (\<lambda>f b. \<lparr> entry_path = name f, entry_mode = ''100644'',
                                     entry_type = ''blob'', entry_sha = b \<rparr>) files ids),
                   Inr (Sha tree)),
                  (CreateCommit (owner cfg) (repo cfg) m tree [commit_sha commit], Inr (Sha newCommit)),
                  (UpdateRef (owner cfg) (repo cfg) (''heads/'' @ or_else (branch cfg) ''main'') newCommit,
                   Inr Done)]))
   \<and> (\<forall>x \<in> set (butlast (snd (snd (commitMultipleFiles (logged api) cfg files m (s, []))))).
         \<not> is_ref_update (fst x))
   \<and> (fst (commitMultipleFiles (logged api) cfg files m (s, [])) \<noteq> Inr ()
      \<longrightarrow> (\<forall>x \<in> set (snd (snd (commitMultipleFiles (logged api) cfg files m (s, [])))).
             is_ref_update (fst x) \<longrightarrow> (\<exists>e. snd x = Inl e)))
   \<and> (head_of t (''heads/'' @ or_else (branch cfg) ''main'') = Some H
        \<and> commit_at t H = Some co \<and> tree_at t (object_tree co) = Some base
      \<longrightarrow> (\<exists>t' N T new_tree.
             commitMultipleFiles (github alone healthy) cfg files m t = (Inr (), t')
           \<and> head_of t' (''heads/'' @ or_else (branch cfg) ''main'') = Some N
           \<and> commit_at t' N = Some \<lparr> object_tree = T, object_parents = [H], object_message = m \<rparr>
           \<and> tree_at t' T = Some new_tree
           \<and> (\<forall>p. p \<notin> name ` set files \<longrightarrow> map_of new_tree p = map_of base p)
           \<and> (\<forall>p. p \<in> name ` set files \<longrightarrow>
                 (\<exists>f \<in> set files. name f = p \<and> map_of new_tree p = Some (blob_id (content f))))
           \<and> (\<forall>f \<in> set files. blob_at t' (blob_id (content f)) = Some (content f))))
   \<and> (fst (commitMultipleFiles (github sched fault) cfg files m t) \<noteq> Inr ()
      \<longrightarrow> own_moves (snd (commitMultipleFiles (github sched fault) cfg files m t)) = own_moves t)
   \<and> (fst (commitMultipleFiles (github alone fault) cfg files m t) \<noteq> Inr ()
      \<longrightarrow> remote_heads (snd (commitMultipleFiles (github alone fault) cfg files m t)) = remote_heads t
        \<and> remote_reflog (snd (commitMultipleFiles (github alone fault) cfg files m t))
            = remote_reflog t)"
proof (intro conjI)
  show "fst (commitMultipleFiles (logged api) cfg files m (s, [])) = Inr ()
      \<longrightarrow> (\<exists>ref commit ids tree newCommit.
            length ids = length files
          \<and> snd (snd (commitMultipleFiles (logged api) cfg files m (s, []))) =
               [(GetRef (owner cfg) (repo cfg) (''heads/'' @ or_else (branch cfg) ''main''), Inr (Sha ref)),
                (GetCommit (owner cfg) (repo cfg) ref, Inr (Commit commit))]
               @ map2 (\<lambda>f b. (CreateBlob (owner cfg) (repo cfg) (Base64 (content f)) ''base64'',
                                Inr (Sha b))) files ids
               @ [(CreateTree (owner cfg) (repo cfg) (commit_tree_sha commit)
                     (map2 (\<lambda>f b. \<lparr> entry_path = name f, entry_mode = ''100644'',
                                     entry_type = ''blob'', entry_sha = b \<rparr>) files ids),
                   Inr (Sha tree)),
                  (CreateCommit (owner cfg) (repo cfg) m tree [commit_sha commit], Inr (Sha newCommit)),
                  (UpdateRef (owner cfg) (repo cfg) (''heads/'' @ or_else (branch cfg) ''main'') newCommit,
                   Inr Done)])"
    by (intro impI) (rule trace_success)
  show "\<forall>x \<in> set (butlast (snd (snd (commitMultipleFiles (logged api) cfg files m (s, []))))).
         \<not> is_ref_update (fst x)"
    by (rule trace_last_only)
  show "fst (commitMultipleFiles (logged api) cfg files m (s, [])) \<noteq> Inr ()
      \<longrightarrow> (\<forall>x \<in> set (snd (snd (commitMultipleFiles (logged api) cfg files m (s, [])))).
             is_ref_update (fst x) \<longrightarrow> (\<exists>e. snd x = Inl e))"
    by (intro impI) (rule trace_failure)
  show "head_of t (''heads/'' @ or_else (branch cfg) ''main'') = Some H
        \<and> commit_at t H = Some co \<and> tree_at t (object_tree co) = Some base
      \<longrightarrow> (\<exists>t' N T new_tree.
             commitMultipleFiles (github alone healthy) cfg files m t = (Inr (), t')
           \<and> head_of t' (''heads/'' @ or_else (branch cfg) ''main'') = Some N
           \<and> commit_at t' N = Some \<lparr> object_tree = T, object_parents = [H], object_message = m \<rparr>
           \<and> tree_at t' T = Some new_tree
           \<and> (\<forall>p. p \<notin> name ` set files \<longrightarrow> map_of new_tree p = map_of base p)
           \<and> (\<forall>p. p \<in> name ` set files \<longrightarrow>
                 (\<exists>f \<in> set files. name f = p \<and> map_of new_tree p = Some (blob_id (content f))))
           \<and> (\<forall>f \<in> set files. blob_at t' (blob_id (content f)) = Some (content f)))"
  proof
    assume h: "head_of t (''heads/'' @ or_else (branch cfg) ''main'') = Some H
        \<and> commit_at t H = Some co \<and> tree_at t (object_tree co) = Some base"
    show "\<exists>t' N T new_tree.
             commitMultipleFiles (github alone healthy) cfg files m t = (Inr (), t')
           \<and> head_of t' (''heads/'' @ or_else (branch cfg) ''main'') = Some N
           \<and> commit_at t' N = Some \<lparr> object_tree = T, object_parents = [H], object_message = m \<rparr>
           \<and> tree_at t' T = Some new_tree
           \<and> (\<forall>p. p \<notin> name ` set files \<longrightarrow> map_of new_tree p = map_of base p)
           \<and> (\<forall>p. p \<in> name ` set files \<longrightarrow>
                 (\<exists>f \<in> set files. name f = p \<and> map_of new_tree p = Some (blob_id (content f))))
           \<and> (\<forall>f \<in> set files. blob_at t' (blob_id (content f)) = Some (content f))"
      by (rule model_success [OF h [THEN conjunct1] h [THEN conjunct2, THEN conjunct1]
            h [THEN conjunct2, THEN conjunct2]])
  qed
  show "fst (commitMultipleFiles (github sched fault) cfg files m t) \<noteq> Inr ()
      \<longrightarrow> own_moves (snd (commitMultipleFiles (github sched fault) cfg files m t)) = own_moves t"
    by (intro impI) (rule model_failure_quiet)
  show "fst (commitMultipleFiles (github alone fault) cfg files m t) \<noteq> Inr ()
      \<longrightarrow> remote_heads (snd (commitMultipleFiles (github alone fault) cfg files m t)) = remote_heads t
        \<and> remote_reflog (snd (commitMultipleFiles (github alone fault) cfg files m t))
            = remote_reflog t"
    by (intro impI) (rule model_failure_still)
qed

text \<open>
  The theorem on the example repository, for a batch that replaces \<^verbatim>\<open>content/a.md\<close> and
  adds \<^verbatim>\<open>content/c.md\<close>, and for the same batch when the store refuses the credentials.
\<close>

theorem commitMultipleFiles_object_graph_witness:
  "(\<exists>t' N T new_tree.
       commitMultipleFiles (github alone healthy) example_config [file_a, file_c] ''publish''
         example_store = (Inr (), t')
     \<and> head_of t' (''heads/'' @ or_else (branch example_config) ''main'') = Some N
     \<and> commit_at t' N = Some \<lparr> object_tree = T, object_parents = [''c''],
                                object_message = ''publish'' \<rparr>
     \<and> tree_at t' T = Some new_tree
     \<and> (\<forall>p. p \<notin> name ` set [file_a, file_c] \<longrightarrow>
           map_of new_tree p
           = map_of [(''content/a.md'', ''bold''), (''content/b.md'', ''bold''),
                     (''content/notes.txt'', ''bold'')] p)
     \<and> (\<forall>p. p \<in> name ` set [file_a, file_c] \<longrightarrow>
           (\<exists>f \<in> set [file_a, file_c]. name f = p \<and> map_of new_tree p = Some (blob_id (content f))))
     \<and> (\<forall>f \<in> set [file_a, file_c]. blob_at t' (blob_id (content f)) = Some (content f)))
   \<and> own_moves (snd (commitMultipleFiles (github alone unauthorized) example_config
        [file_a, file_c] ''publish'' example_store)) = own_moves example_store"
proof -
  let ?co = "\<lparr> object_tree = ''t'', object_parents = [], object_message = ''init'' \<rparr>"
  have h: "head_of example_store (''heads/'' @ or_else (branch example_config) ''main'') = Some ''c''
        \<and> commit_at example_store ''c'' = Some ?co
        \<and> tree_at example_store (object_tree ?co)
            = Some [(''content/a.md'', ''bold''), (''content/b.md'', ''bold''),
                    (''content/notes.txt'', ''bold'')]"
    by code_simp
  have g: "fst (commitMultipleFiles (github alone unauthorized) example_config
        [file_a, file_c] ''publish'' example_store) \<noteq> Inr ()"
    by code_simp
  note a = commitMultipleFiles_object_graph [where cfg = example_config
      and files = "[file_a, file_c]" and m = "''publish''" and t = example_store and H = "''c''"
      and co = ?co
      and base = "[(''content/a.md'', ''bold''), (''content/b.md'', ''bold''),
                   (''content/notes.txt'', ''bold'')]",
      THEN conjunct2, THEN conjunct2, THEN conjunct2, THEN conjunct1, THEN mp, OF h]
  note b = commitMultipleFiles_object_graph [where cfg = example_config
      and files = "[file_a, file_c]" and m = "''publish''" and t = example_store
      and sched = alone and fault = unauthorized,
      THEN conjunct2, THEN conjunct2, THEN conjunct2, THEN conjunct2, THEN conjunct1, THEN mp, OF g]
  from a b show ?thesis by (rule conjI)
qed

section \<open>Rendering\<close>

text \<open>
  What the source fixes about rendering: the sanitizer is applied to whatever the parser
  returned, with the one configuration \<open>sanitize_config\<close>, and there is no argument by
  which a caller could skip it. What the sanitizer and the parser return is theirs.
\<close>

lemma markdownToHTML_always_sanitizes:
  "markdownToHTML marked purify markdownContent =
     (case purify sanitize_config (parseMarkdown marked markdownContent) of
        Inr cleanHTML \<Rightarrow> cleanHTML
      | Inl error \<Rightarrow> ''<p>Error processing content</p>'')"
  by (simp add: markdownToHTML_def sanitizeHTML_def Let_def)

end
